theory Spec2Isabelle
  imports Complex_Main "HOL-Library.AList"
begin

section \<open>Errors (package llm)\<close>

text \<open>
  Go errors are values compared by identity.  The package-level error variables of
  package llm, together with the two context errors of the standard library that the
  completer looks at, are the constructors of \<open>sentinel\<close>.
\<close>

datatype sentinel =
    ErrTokenLimitReached | ErrContextLengthExceeded | ErrInvalidArguments | ErrNoMessages
  | ErrInvalidAPIKey | ErrAuthenticationFailed
  | ErrServiceUnavailable | ErrTooManyRequests | ErrTimeout | ErrRateLimited
  | ErrContentFiltered | ErrContentNotAllowed
  | ErrModelNotFound | ErrModelOverloaded
  | ErrInvalidFunctionCall | ErrFunctionNotFound
  | ErrInternalError
  | DeadlineExceeded | Canceled

text \<open>
  An error value.  \<open>ErrorsNew s\<close> is a fresh error with message \<open>s\<close> that wraps nothing
  (\<open>errors.New\<close>, or \<open>fmt.Errorf\<close> without \<open>%w\<close>); \<open>Errorf p e\<close> is
  \<open>fmt.Errorf(p + ": %w", e)\<close>; \<open>APIError status code\<close> is the OpenAI library's
  \<open>*openai.Error\<close>; \<open>StatusError status text msg\<close> is the Ollama library's
  \<open>api.StatusError\<close>; \<open>LLMError\<close> is the struct of package llm, whose \<open>Unwrap\<close> returns
  the field \<open>Err\<close>.  Every \<open>LLMError\<close> built in this repository is given a non-nil \<open>Err\<close>.
\<close>

datatype goerr =
    Sentinel sentinel
  | ErrorsNew string
  | Errorf string goerr
  | APIError int string
  | StatusError int string string
  | LLMError (Err: goerr) (EProvider: string) (EModel: string) (StatusCode: int)
      (ErrorCode: string) (ErrorMessage: string) (RequestID: string) (Retryable: bool)

text \<open>\<open>errors.Is(err, target)\<close> for a sentinel target: walk the \<open>Unwrap\<close> chain.\<close>

fun errors_Is :: "goerr \<Rightarrow> sentinel \<Rightarrow> bool" where
  "errors_Is (Sentinel s) t = (s = t)"
| "errors_Is (ErrorsNew _) t = False"
| "errors_Is (Errorf _ e) t = errors_Is e t"
| "errors_Is (APIError _ _) t = False"
| "errors_Is (StatusError _ _ _) t = False"
| "errors_Is (LLMError e _ _ _ _ _ _ _) t = errors_Is e t"

text \<open>\<open>errors.As(err, &llmErr)\<close> with \<open>llmErr :: *LLMError\<close>: the first \<open>LLMError\<close> of the chain.\<close>

fun as_LLMError :: "goerr \<Rightarrow> goerr option" where
  "as_LLMError (Sentinel _) = None"
| "as_LLMError (ErrorsNew _) = None"
| "as_LLMError (Errorf _ e) = as_LLMError e"
| "as_LLMError (APIError _ _) = None"
| "as_LLMError (StatusError _ _ _) = None"
| "as_LLMError (LLMError e p m sc ec em rid r) = Some (LLMError e p m sc ec em rid r)"

text \<open>\<open>errors.As\<close> with a \<open>*openai.Error\<close> target: status code and error code.\<close>

fun as_APIError :: "goerr \<Rightarrow> (int \<times> string) option" where
  "as_APIError (Sentinel _) = None"
| "as_APIError (ErrorsNew _) = None"
| "as_APIError (Errorf _ e) = as_APIError e"
| "as_APIError (APIError sc code) = Some (sc, code)"
| "as_APIError (StatusError _ _ _) = None"
| "as_APIError (LLMError e _ _ _ _ _ _ _) = as_APIError e"

text \<open>\<open>errors.As\<close> with an \<open>api.StatusError\<close> target: status code, status text, message.\<close>

fun as_StatusError :: "goerr \<Rightarrow> (int \<times> string \<times> string) option" where
  "as_StatusError (Sentinel _) = None"
| "as_StatusError (ErrorsNew _) = None"
| "as_StatusError (Errorf _ e) = as_StatusError e"
| "as_StatusError (APIError _ _) = None"
| "as_StatusError (StatusError sc st msg) = Some (sc, st, msg)"
| "as_StatusError (LLMError e _ _ _ _ _ _ _) = as_StatusError e"

definition NewLLMError :: "goerr \<Rightarrow> string \<Rightarrow> string \<Rightarrow> goerr" where
  "NewLLMError err provider model = LLMError err provider model 0 [] [] [] False"

text \<open>The builder methods; on an error that is not an \<open>LLMError\<close> they are never called.\<close>

fun WithStatusCode :: "goerr \<Rightarrow> int \<Rightarrow> goerr" where
  "WithStatusCode (LLMError e p m _ ec em rid r) code = LLMError e p m code ec em rid r"
| "WithStatusCode e _ = e"

fun WithErrorCode :: "goerr \<Rightarrow> string \<Rightarrow> goerr" where
  "WithErrorCode (LLMError e p m sc _ em rid r) code = LLMError e p m sc code em rid r"
| "WithErrorCode e _ = e"

fun WithErrorMessage :: "goerr \<Rightarrow> string \<Rightarrow> goerr" where
  "WithErrorMessage (LLMError e p m sc ec _ rid r) msg = LLMError e p m sc ec msg rid r"
| "WithErrorMessage e _ = e"

text \<open>The assignments \<open>llmErr.Err = ...\<close> and \<open>llmErr.Retryable = true\<close> of the providers.\<close>

fun set_Err :: "goerr \<Rightarrow> goerr \<Rightarrow> goerr" where
  "set_Err (LLMError _ p m sc ec em rid r) e' = LLMError e' p m sc ec em rid r"
| "set_Err e _ = e"

fun set_Retryable :: "goerr \<Rightarrow> bool \<Rightarrow> goerr" where
  "set_Retryable (LLMError e p m sc ec em rid _) b = LLMError e p m sc ec em rid b"
| "set_Retryable e _ = e"

text \<open>The exported \<open>IsRetryable\<close>: the flag of the first \<open>LLMError\<close>, else five sentinels.\<close>

definition IsRetryable :: "goerr \<Rightarrow> bool" where
  "IsRetryable err =
     (case as_LLMError err of
        Some llmErr \<Rightarrow> Retryable llmErr
      | None \<Rightarrow>
          errors_Is err ErrServiceUnavailable \<or> errors_Is err ErrTooManyRequests \<or>
          errors_Is err ErrTimeout \<or> errors_Is err ErrRateLimited \<or>
          errors_Is err ErrModelOverloaded)"

text \<open>\<open>isRetryableError\<close> of the completer: the predicate its retry loop uses.\<close>

definition isRetryableError :: "goerr \<Rightarrow> bool" where
  "isRetryableError err =
     (errors_Is err ErrServiceUnavailable \<or> errors_Is err ErrTooManyRequests \<or>
      errors_Is err DeadlineExceeded)"

section \<open>Data model (package llm and package config)\<close>

text \<open>\<open>type Role string\<close> and \<open>type Provider string\<close> with their declared constants.\<close>

type_synonym Role = string
type_synonym Provider = string

definition RoleSystem :: Role where "RoleSystem = ''system''"
definition RoleUser :: Role where "RoleUser = ''user''"
definition RoleAssistant :: Role where "RoleAssistant = ''assistant''"
definition RoleFunction :: Role where "RoleFunction = ''function''"

definition OpenAI :: Provider where "OpenAI = ''openai''"
definition Ollama :: Provider where "Ollama = ''ollama''"

text \<open>
  \<open>Message\<close>: the fields the provider clients and the completer read or write.  The
  remaining fields of the struct (ID, Hidden, FunctionCall, Error, Length, Timestamp,
  Metadata) are carried along untouched by every function modelled here.
\<close>

record Message =
  Role :: Role
  Content :: string
  MsgName :: string
  MsgFinishReason :: string
  Completed :: bool

text \<open>
  \<open>CompleteParams\<close>.  Float parameters are the rationals they denote.  \<open>Stream\<close>,
  \<open>Functions\<close> and \<open>JSONMode\<close> are read by no provider client.
\<close>

record CompleteParams =
  Messages :: "Message list"
  MaxTokens :: "int option"
  Temperature :: "rat option"
  TopP :: "rat option"
  N :: "int option"

record Usage =
  Unit :: string
  PromptTokens :: int
  CompletionTokens :: int
  TotalTokens :: int

record CompletionMetadata =
  ModelName :: string
  FinishReason :: string
  CompletionID :: string
  LatencyMs :: int
  ProcessedAt :: int
  RequestTokens :: int

record CompleteResponse =
  RMessages :: "Message list"
  RUsage :: "Usage option"
  Metadata :: CompletionMetadata

record ModelCapabilities =
  SupportsStreaming :: bool
  SupportsFunctions :: bool
  SupportsVision :: bool
  SupportsJSON :: bool

text \<open>
  \<open>Model\<close> is used as a map key, so Go compares it field by field; the pointer
  \<open>Pricing\<close> is compared by address, which is what the \<open>nat\<close> stands for.
\<close>

record Model =
  Provider :: Provider
  Name :: string
  DisplayName :: string
  MaxToken :: int
  ContextWindow :: int
  PDFSupported :: bool
  Version :: string
  Family :: string
  Pricing :: "nat option"
  Capabilities :: ModelCapabilities

text \<open>Package config: the parts of \<open>config.Config\<close> that package llm reads.\<close>

record OpenAI_config =
  APIKey :: string

record Ollama_config =
  BaseURL :: string

record Langfuse_config =
  PrivateKey :: string
  PublicKey :: string

record LLM_config =
  cfg_OpenAI :: OpenAI_config
  cfg_Ollama :: Ollama_config
  cfg_Langfuse :: Langfuse_config

record Global_config =
  Env :: string

record config_Config =
  Global :: Global_config
  cfg_LLM :: LLM_config

definition Langfuse_IsConfigured :: "Langfuse_config \<Rightarrow> bool" where
  "Langfuse_IsConfigured l = (PrivateKey l \<noteq> [] \<and> PublicKey l \<noteq> [])"

definition Ollama_IsConfigured :: "Ollama_config \<Rightarrow> bool" where
  "Ollama_IsConfigured ol = (BaseURL ol \<noteq> [])"

text \<open>
  \<open>llm.Config\<close>, the configuration of one client.  \<open>APIKeyFunc\<close> is a function value
  that may be nil: \<open>None\<close> is nil, \<open>Some k\<close> a function returning \<open>k\<close>.  Durations
  are nanoseconds.
\<close>

record Config =
  APIKeyFunc :: "string option"
  CModel :: Model
  Timeout :: int
  LLMConfig :: LLM_config

section \<open>Floating point (\<open>float64\<close>)\<close>

text \<open>
  A \<open>float64\<close> is a finite binary fraction, an infinity or NaN.  A finite value is
  the rational it denotes; the two zeros are not told apart, since no operation used
  below depends on the sign of a zero.  \<open>Finite q\<close> is a value of the type when \<open>q\<close>
  is representable, that is when \<open>float64_of_rat q = Finite q\<close> below; a constant
  of the program text such as \<open>1.2\<close> is \<open>float64_of_rat (6 / 5)\<close>.
\<close>

datatype float64 = Finite rat | PosInf | NegInf | NaN

text \<open>
  The binary exponent of a positive rational \<open>a\<close>, that is the \<open>e\<close> with
  \<open>2 ^ e \<le> a < 2 ^ (e + 1)\<close>.
\<close>

function log2_floor :: "int \<Rightarrow> int" where
  "log2_floor n = (if n < 2 then 0 else 1 + log2_floor (n div 2))"
  by auto
termination
  by (relation "measure nat") auto

definition log2_ceil :: "int \<Rightarrow> int" where
  "log2_ceil n = (if n \<le> 1 then 0 else 1 + log2_floor (n - 1))"

definition exponent2 :: "rat \<Rightarrow> int" where
  "exponent2 a = (if 1 \<le> a then log2_floor \<lfloor>a\<rfloor> else - log2_ceil \<lceil>1 / a\<rceil>)"

text \<open>Rounding to the nearest integer, a tie going to the even one.\<close>

definition round_half_even :: "rat \<Rightarrow> int" where
  "round_half_even r =
     (let f = \<lfloor>r\<rfloor>; d = r - of_int f
      in if d < 1 / 2 then f else if 1 / 2 < d then f + 1 else if even f then f else f + 1)"

text \<open>
  The \<open>float64\<close> nearest to a positive rational.  \<open>quantum a\<close> is the exponent of
  the unit in the last place at the magnitude of \<open>a\<close>: 53 bits of precision, and the
  fixed exponent \<open>- 1074\<close> in the subnormal range.  A result of \<open>2 ^ 1024\<close> or more
  overflows to an infinity.
\<close>

definition quantum :: "rat \<Rightarrow> int" where
  "quantum a = max (exponent2 a - 52) (- 1074)"

definition nearest :: "rat \<Rightarrow> rat" where
  "nearest a = of_int (round_half_even (a / 2 powi quantum a)) * 2 powi quantum a"

definition float64_of_rat :: "rat \<Rightarrow> float64" where
  "float64_of_rat r =
     (if r = 0 then Finite 0
      else if 2 ^ 1024 \<le> nearest \<bar>r\<bar> then (if 0 < r then PosInf else NegInf)
      else Finite (if 0 < r then nearest \<bar>r\<bar> else - nearest \<bar>r\<bar>))"

text \<open>The conversion \<open>float64(i)\<close> of an integer: the nearest \<open>float64\<close>.\<close>

definition float64_of_int :: "int \<Rightarrow> float64" where
  "float64_of_int i = float64_of_rat (of_int i)"

text \<open>The product of two \<open>float64\<close>: the exact product, rounded once.\<close>

fun float64_mul :: "float64 \<Rightarrow> float64 \<Rightarrow> float64" where
  "float64_mul (Finite a) (Finite b) = float64_of_rat (a * b)"
| "float64_mul NaN _ = NaN"
| "float64_mul _ NaN = NaN"
| "float64_mul (Finite a) PosInf = (if a = 0 then NaN else if 0 < a then PosInf else NegInf)"
| "float64_mul (Finite a) NegInf = (if a = 0 then NaN else if 0 < a then NegInf else PosInf)"
| "float64_mul PosInf (Finite b) = (if b = 0 then NaN else if 0 < b then PosInf else NegInf)"
| "float64_mul NegInf (Finite b) = (if b = 0 then NaN else if 0 < b then NegInf else PosInf)"
| "float64_mul PosInf PosInf = PosInf"
| "float64_mul PosInf NegInf = NegInf"
| "float64_mul NegInf PosInf = NegInf"
| "float64_mul NegInf NegInf = PosInf"

section \<open>Quoted strings (\<open>%q\<close>)\<close>

text \<open>
  \<open>strconv.Quote\<close>, which \<open>%q\<close> applies to a string: double quotes around it, a
  backslash before a double quote or a backslash, the short escapes for the control
  characters that have one and \<open>\xNN\<close> for the others.  A byte above \<open>0x7f\<close> is kept,
  as \<open>Quote\<close> keeps the printable characters of well-formed UTF-8.
\<close>

definition hex_digit :: "nat \<Rightarrow> char" where
  "hex_digit n = ''0123456789abcdef'' ! n"

definition quote_byte :: "char \<Rightarrow> string" where
  "quote_byte c =
     (let n = (of_char c :: nat); bs = CHR 0x5C
      in if n = 0x22 \<or> n = 0x5C then [bs, c]
         else if n = 7 then [bs, CHR ''a'']
         else if n = 8 then [bs, CHR ''b'']
         else if n = 12 then [bs, CHR ''f'']
         else if n = 10 then [bs, CHR ''n'']
         else if n = 13 then [bs, CHR ''r'']
         else if n = 9 then [bs, CHR ''t'']
         else if n = 11 then [bs, CHR ''v'']
         else if n < 32 \<or> n = 127 then [bs, CHR ''x'', hex_digit (n div 16), hex_digit (n mod 16)]
         else [c])"

definition strconv_Quote :: "string \<Rightarrow> string" where
  "strconv_Quote s = CHR 0x22 # concat (map quote_byte s) @ [CHR 0x22]"

section \<open>The OpenAI client (package openai)\<close>

text \<open>The wire messages the three constructors of the OpenAI library build.\<close>

datatype ChatCompletionMessageParam =
    UserMessage string
  | AssistantMessage string
  | SystemMessage string

fun wire_role :: "ChatCompletionMessageParam \<Rightarrow> string" where
  "wire_role (UserMessage _) = ''user''"
| "wire_role (AssistantMessage _) = ''assistant''"
| "wire_role (SystemMessage _) = ''system''"

fun wire_content :: "ChatCompletionMessageParam \<Rightarrow> string" where
  "wire_content (UserMessage c) = c"
| "wire_content (AssistantMessage c) = c"
| "wire_content (SystemMessage c) = c"

record ChatCompletionNewParams =
  np_Messages :: "ChatCompletionMessageParam list"
  np_Model :: string
  np_Seed :: int
  np_MaxTokens :: "int option"
  np_Temperature :: "rat option"
  np_TopP :: "rat option"
  np_N :: "int option"

record ChatCompletionChoice =
  ch_Role :: string
  ch_Content :: string
  ch_FinishReason :: string

record ChatCompletion =
  cc_ID :: string
  cc_Choices :: "ChatCompletionChoice list"
  cc_PromptTokens :: int
  cc_CompletionTokens :: int
  cc_TotalTokens :: int

text \<open>
  The message loop of \<open>Client.Complete\<close>: \<open>acc\<close> is the slice \<open>messages\<close> built so
  far; an unknown role returns at once with the error.
\<close>

fun openai_convert ::
  "ChatCompletionMessageParam list \<Rightarrow> Message list \<Rightarrow> goerr + ChatCompletionMessageParam list"
where
  "openai_convert acc [] = Inr acc"
| "openai_convert acc (m # ms) =
     (if Role m = RoleUser then openai_convert (acc @ [UserMessage (Content m)]) ms
      else if Role m = RoleAssistant then openai_convert (acc @ [AssistantMessage (Content m)]) ms
      else if Role m = RoleSystem then openai_convert (acc @ [SystemMessage (Content m)]) ms
      else if Role m = RoleFunction then
        openai_convert
          (acc @ [UserMessage (''Function '' @ MsgName m @ '' returned: '' @ Content m)]) ms
      else Inl (ErrorsNew (''unsupported role: '' @ Role m)))"

definition openai_handleError :: "Config \<Rightarrow> goerr \<Rightarrow> goerr" where
  "openai_handleError cfg err =
     (case as_APIError err of
        Some (status, code) \<Rightarrow>
          (let llmErr = WithErrorCode
                 (WithStatusCode (NewLLMError err OpenAI (Name (CModel cfg))) status) code
           in if code = ''context_length_exceeded'' then
                set_Err llmErr (Sentinel ErrContextLengthExceeded)
              else if code = ''length'' then set_Err llmErr (Sentinel ErrTokenLimitReached)
              else if code = ''invalid_api_key'' then set_Err llmErr (Sentinel ErrInvalidAPIKey)
              else if code = ''rate_limit_exceeded'' then
                set_Retryable (set_Err llmErr (Sentinel ErrRateLimited)) True
              else if code = ''insufficient_quota'' then
                set_Err llmErr (ErrorsNew ''insufficient quota'')
              else if 500 \<le> status \<and> status < 600 then
                set_Retryable (set_Err llmErr (Sentinel ErrServiceUnavailable)) True
              else if status = 429 then
                set_Retryable (set_Err llmErr (Sentinel ErrTooManyRequests)) True
              else llmErr)
      | None \<Rightarrow> NewLLMError err OpenAI (Name (CModel cfg)))"

definition openai_choice_message :: "ChatCompletionChoice \<Rightarrow> Message" where
  "openai_choice_message choice =
     \<lparr>Role = ch_Role choice, Content = ch_Content choice, MsgName = [],
      MsgFinishReason = ch_FinishReason choice, Completed = True\<rparr>"

text \<open>
  The request parameters \<open>Client.Complete\<close> builds from the translated messages:
  the model's name, the seed 1, and each optional parameter that is given.
\<close>

definition openai_request ::
  "Config \<Rightarrow> CompleteParams \<Rightarrow> ChatCompletionMessageParam list \<Rightarrow> ChatCompletionNewParams"
where
  "openai_request cfg params messages =
     \<lparr>np_Messages = messages, np_Model = Name (CModel cfg), np_Seed = 1,
      np_MaxTokens = MaxTokens params, np_Temperature = Temperature params,
      np_TopP = TopP params, np_N = N params\<rparr>"

text \<open>
  \<open>Client.Complete\<close>.  The OpenAI service is the function \<open>backend\<close> from the request
  to its reply; \<open>latency\<close> and \<open>now\<close> are the two readings of the clock.  The result
  pairs the requests sent to the service (none or one) with what the method returns.
\<close>

definition openai_Complete ::
  "Config \<Rightarrow> (ChatCompletionNewParams \<Rightarrow> goerr + ChatCompletion) \<Rightarrow> int \<Rightarrow> int \<Rightarrow>
   CompleteParams \<Rightarrow> ChatCompletionNewParams list \<times> (goerr + CompleteResponse)"
where
  "openai_Complete cfg backend latency now params =
     (case openai_convert [] (Messages params) of
        Inl e \<Rightarrow> ([], Inl e)
      | Inr messages \<Rightarrow>
          (let completionParams = openai_request cfg params messages
           in case backend completionParams of
                Inl err \<Rightarrow> ([completionParams], Inl (openai_handleError cfg err))
              | Inr completion \<Rightarrow>
                  (case cc_Choices completion of
                     [] \<Rightarrow> ([completionParams], Inl (Sentinel ErrNoMessages))
                   | c0 # _ \<Rightarrow>
                       ([completionParams],
                        Inr \<lparr>RMessages = map openai_choice_message (cc_Choices completion),
                             RUsage = Some \<lparr>Unit = ''tokens'',
                                PromptTokens = cc_PromptTokens completion,
                                CompletionTokens = cc_CompletionTokens completion,
                                TotalTokens = cc_TotalTokens completion\<rparr>,
                             Metadata = \<lparr>ModelName = Name (CModel cfg),
                                FinishReason = ch_FinishReason c0,
                                CompletionID = cc_ID completion,
                                LatencyMs = latency, ProcessedAt = now,
                                RequestTokens = cc_PromptTokens completion\<rparr>\<rparr>))))"

section \<open>The Ollama client (package ollama)\<close>

record api_Message =
  am_Role :: string
  am_Content :: string

record ChatRequest =
  cr_Model :: string
  cr_Messages :: "api_Message list"
  cr_Stream :: bool

record ChatResponse =
  rs_Role :: string
  rs_Content :: string
  rs_DoneReason :: string

text \<open>The message loop: \<open>case llm.RoleFunction\<close> falls through to \<open>default\<close>.\<close>

fun ollama_convert :: "api_Message list \<Rightarrow> Message list \<Rightarrow> goerr + api_Message list" where
  "ollama_convert acc [] = Inr acc"
| "ollama_convert acc (m # ms) =
     (if Role m = RoleUser then
        ollama_convert (acc @ [\<lparr>am_Role = ''user'', am_Content = Content m\<rparr>]) ms
      else if Role m = RoleAssistant then
        ollama_convert (acc @ [\<lparr>am_Role = ''assistant'', am_Content = Content m\<rparr>]) ms
      else if Role m = RoleSystem then
        ollama_convert (acc @ [\<lparr>am_Role = ''system'', am_Content = Content m\<rparr>]) ms
      else Inl (ErrorsNew (''unsupported role: '' @ Role m)))"

definition ollama_handleError :: "Config \<Rightarrow> goerr \<Rightarrow> goerr" where
  "ollama_handleError cfg err =
     (case as_StatusError err of
        Some (status, text, msg) \<Rightarrow>
          (let llmErr = WithErrorMessage (WithErrorCode
                 (WithStatusCode (NewLLMError err Ollama (Name (CModel cfg))) status) text) msg
           in if 500 \<le> status \<and> status < 600 then
                set_Retryable (set_Err llmErr (Sentinel ErrServiceUnavailable)) True
              else if status = 429 then
                set_Retryable (set_Err llmErr (Sentinel ErrTooManyRequests)) True
              else llmErr)
      | None \<Rightarrow> NewLLMError err Ollama (Name (CModel cfg)))"

definition llmRole :: "string \<Rightarrow> Role" where
  "llmRole ollamaRole =
     (if ollamaRole = ''user'' then RoleUser
      else if ollamaRole = ''assistant'' then RoleAssistant
      else if ollamaRole = ''system'' then RoleSystem
      else RoleFunction)"

definition ollama_response_message :: "ChatResponse \<Rightarrow> Message" where
  "ollama_response_message resp =
     \<lparr>Role = llmRole (rs_Role resp), Content = rs_Content resp, MsgName = [],
      MsgFinishReason = rs_DoneReason resp, Completed = True\<rparr>"

text \<open>The request \<open>Client.Complete\<close> builds; \<open>Stream\<close> points to \<open>false\<close>.\<close>

definition ollama_request :: "Config \<Rightarrow> api_Message list \<Rightarrow> ChatRequest" where
  "ollama_request cfg messages =
     \<lparr>cr_Model = Name (CModel cfg), cr_Messages = messages, cr_Stream = False\<rparr>"

text \<open>
  \<open>Client.Complete\<close>.  \<open>url_Parse\<close> is the standard library's \<open>url.Parse\<close>, taken as
  a parameter.  The Ollama server is the function \<open>backend\<close>: for a request it gives
  the responses handed one by one to the callback and the error \<open>client.Chat\<close>
  returns (\<open>None\<close> is nil).  The outer variable \<open>resp\<close> is never assigned (the callback's
  parameter shadows it), so the metadata's finish reason is the empty string.
\<close>

definition ollama_Complete ::
  "Config \<Rightarrow> (string \<Rightarrow> goerr + string) \<Rightarrow> (ChatRequest \<Rightarrow> ChatResponse list \<times> goerr option) \<Rightarrow>
   int \<Rightarrow> int \<Rightarrow> CompleteParams \<Rightarrow> ChatRequest list \<times> (goerr + CompleteResponse)"
where
  "ollama_Complete cfg url_Parse backend latency now params =
     (case url_Parse (BaseURL (cfg_Ollama (LLMConfig cfg))) of
        Inl err \<Rightarrow> ([], Inl (Errorf ''invalid base URL'' err))
      | Inr u \<Rightarrow>
          (case ollama_convert [] (Messages params) of
             Inl e \<Rightarrow> ([], Inl e)
           | Inr messages \<Rightarrow>
               (let req = ollama_request cfg messages
                in case backend req of
                     (resps, Some err) \<Rightarrow> ([req], Inl (ollama_handleError cfg err))
                   | (resps, None) \<Rightarrow>
                       ([req],
                        Inr \<lparr>RMessages = map ollama_response_message resps,
                             RUsage = None,
                             Metadata = \<lparr>ModelName = Name (CModel cfg), FinishReason = [],
                                CompletionID = [], LatencyMs = latency, ProcessedAt = now,
                                RequestTokens = 0\<rparr>\<rparr>))))"

section \<open>The model registry (package llm)\<close>

text \<open>
  The interface \<open>LLM\<close> has two implementations in the repository, the two clients; a
  client holds nothing but its configuration.
\<close>

datatype LLM = OpenAIClient Config | OllamaClient Config

record SupportedModels =
  Constructor :: "Config \<Rightarrow> goerr + LLM"
  SModel :: Model

text \<open>
  The package variable \<open>supportedModels\<close>, a Go map from \<open>Model\<close>, is an association
  list that the functions take and return.  Go leaves the iteration order of a map
  open; the list fixes one, and nothing below depends on which.
\<close>

type_synonym registrations = "(Model \<times> SupportedModels) list"

record Registry =
  models :: "Model list"

fun RegisterLLM :: "(Config \<Rightarrow> goerr + LLM) \<Rightarrow> Model list \<Rightarrow> registrations \<Rightarrow> registrations" where
  "RegisterLLM constructor [] supportedModels = supportedModels"
| "RegisterLLM constructor (model # rest) supportedModels =
     RegisterLLM constructor rest
       (AList.update model \<lparr>Constructor = constructor, SModel = model\<rparr> supportedModels)"

text \<open>The loop of \<open>NewRegistry\<close>; \<open>acc\<close> is the slice \<open>models\<close>.  The switch has no default.\<close>

fun registry_loop :: "config_Config \<Rightarrow> Model list \<Rightarrow> registrations \<Rightarrow> Model list" where
  "registry_loop cfg acc [] = acc"
| "registry_loop cfg acc ((model, _) # rest) =
     (if Provider model = OpenAI then registry_loop cfg (acc @ [model]) rest
      else if Provider model = Ollama then
        (if \<not> Ollama_IsConfigured (cfg_Ollama (cfg_LLM cfg)) then registry_loop cfg acc rest
         else registry_loop cfg (acc @ [model]) rest)
      else registry_loop cfg acc rest)"

definition NewRegistry :: "config_Config \<Rightarrow> registrations \<Rightarrow> Registry" where
  "NewRegistry cfg supportedModels = \<lparr>models = registry_loop cfg [] supportedModels\<rparr>"

text \<open>\<open>New\<close>; the model's name is quoted in the message.\<close>

definition New :: "registrations \<Rightarrow> Config \<Rightarrow> goerr + LLM" where
  "New supportedModels cfg =
     (case APIKeyFunc cfg of
        None \<Rightarrow> Inl (ErrorsNew ''API key function is required'')
      | Some _ \<Rightarrow>
          (case map_of supportedModels (CModel cfg) of
             None \<Rightarrow>
               Inl (ErrorsNew (''model '' @ strconv_Quote (Name (CModel cfg)) @ '' is not supported''))
           | Some supportedModel \<Rightarrow> Constructor supportedModel cfg))"

text \<open>The constructors the two provider packages register in their \<open>init\<close>.\<close>

definition openai_New :: "Config \<Rightarrow> goerr + LLM" where
  "openai_New cfg =
     (case APIKeyFunc cfg of
        None \<Rightarrow> Inl (ErrorsNew ''API key function is required'')
      | Some _ \<Rightarrow> Inr (OpenAIClient cfg))"

definition ollama_New :: "Config \<Rightarrow> goerr + LLM" where
  "ollama_New cfg = Inr (OllamaClient cfg)"

section \<open>The completer (package llm)\<close>

text \<open>
  \<open>RetryConfig\<close>; durations are nanoseconds.  The loop counter stays below
  \<open>MaxAttempts\<close>, so it cannot overflow and the integers are taken unbounded.
\<close>

record RetryConfig =
  MaxAttempts :: int
  InitialWait :: int
  MaxWait :: int
  Factor :: float64

definition DefaultRetryConfig :: RetryConfig where
  "DefaultRetryConfig =
     \<lparr>MaxAttempts = 3, InitialWait = 500 * 1000000, MaxWait = 5 * 1000000000,
      Factor = Finite (3 / 2)\<rparr>"

text \<open>
  What one call of \<open>Complete\<close> meets outside the program, indexed by the loop counter
  \<open>attempt\<close>: \<open>ctx_Err w i\<close> is the value of \<open>ctx.Err()\<close> at the top of iteration \<open>i\<close>
  (\<open>None\<close> is nil); \<open>ctx_Done w i\<close> is how the \<open>select\<close> of iteration \<open>i\<close> ends, \<open>Some e\<close>
  when \<open>ctx.Done()\<close> is received (\<open>e\<close> is \<open>ctx.Err()\<close> then) and \<open>None\<close> when the timer
  fires; the two services answer the request of iteration \<open>i\<close>; the clock gives the two
  readings of a client call.  \<open>float_overflow\<close> is the value, left to the platform by
  the language, of converting to \<open>int64\<close> a \<open>float64\<close> that is NaN, infinite or
  outside the range of \<open>int64\<close>.
\<close>

record world =
  ctx_Err :: "nat \<Rightarrow> goerr option"
  ctx_Done :: "nat \<Rightarrow> goerr option"
  openai_service :: "nat \<Rightarrow> ChatCompletionNewParams \<Rightarrow> goerr + ChatCompletion"
  ollama_service :: "nat \<Rightarrow> ChatRequest \<Rightarrow> ChatResponse list \<times> goerr option"
  url_Parse :: "string \<Rightarrow> goerr + string"
  clock_latency :: "nat \<Rightarrow> int"
  clock_now :: "nat \<Rightarrow> int"
  float_overflow :: "float64 \<Rightarrow> int"

text \<open>The method \<open>llm.Complete(ctx, params)\<close> as called in iteration \<open>i\<close>.\<close>

fun llm_Complete :: "world \<Rightarrow> nat \<Rightarrow> LLM \<Rightarrow> CompleteParams \<Rightarrow> goerr + CompleteResponse" where
  "llm_Complete w i (OpenAIClient cfg) params =
     snd (openai_Complete cfg (openai_service w i) (clock_latency w i) (clock_now w i) params)"
| "llm_Complete w i (OllamaClient cfg) params =
     snd (ollama_Complete cfg (url_Parse w) (ollama_service w i) (clock_latency w i)
            (clock_now w i) params)"

text \<open>
  The conversion \<open>time.Duration(f)\<close> of a \<open>float64\<close>: the fraction is discarded,
  and a value that does not fit \<open>int64\<close> gives what the platform gives.
\<close>

definition to_Duration :: "world \<Rightarrow> float64 \<Rightarrow> int" where
  "to_Duration w f =
     (case f of
        Finite q \<Rightarrow>
          (let t = (if 0 \<le> q then \<lfloor>q\<rfloor> else \<lceil>q\<rceil>)
           in if - (2 ^ 63) \<le> t \<and> t < 2 ^ 63 then t else float_overflow w f)
      | _ \<Rightarrow> float_overflow w f)"

text \<open>
  The update of \<open>wait\<close> after a wait:
  \<open>wait = time.Duration(float64(wait) * Factor)\<close>, then the cap at \<open>MaxWait\<close>.
\<close>

definition next_wait :: "world \<Rightarrow> RetryConfig \<Rightarrow> int \<Rightarrow> int" where
  "next_wait w rc wait =
     (let wait' = to_Duration w (float64_mul (float64_of_int wait) (Factor rc))
      in if wait' > MaxWait rc then MaxWait rc else wait')"

text \<open>
  What an observer sees of the loop: \<open>Wait d\<close> when the loop enters the \<open>select\<close> on
  \<open>time.After(d)\<close>, \<open>Call i\<close> when iteration \<open>i\<close> calls the client.  The logger calls of
  the loop change no variable and are left out.
\<close>

datatype event = Wait int | Call nat

text \<open>
  The head of an iteration, up to the call of the client: the check of the context, and
  on a retry the wait.  \<open>Inl e\<close> is the \<open>return nil, ctx.Err()\<close>; \<open>Inr wait'\<close> goes on
  to the attempt with the new value of \<open>wait\<close>.
\<close>

definition before_attempt ::
  "RetryConfig \<Rightarrow> world \<Rightarrow> nat \<Rightarrow> int \<Rightarrow> event list \<Rightarrow> event list \<times> (goerr + int)"
where
  "before_attempt rc w attempt wait tr =
     (case ctx_Err w attempt of
        Some e \<Rightarrow> (tr, Inl e)
      | None \<Rightarrow>
          if attempt > 0 then
            (case ctx_Done w attempt of
               Some e \<Rightarrow> (tr @ [Wait wait], Inl e)
             | None \<Rightarrow> (tr @ [Wait wait], Inr (next_wait w rc wait)))
          else (tr, Inr wait))"

text \<open>The variables \<open>res\<close>, \<open>err\<close> and \<open>lastErr\<close> (\<open>None\<close> is nil).\<close>

type_synonym loop_vars = "CompleteResponse option \<times> goerr option \<times> goerr option"

text \<open>
  The \<open>for\<close> loop of \<open>Complete\<close> from iteration \<open>attempt\<close> on.  \<open>Inl e\<close> is a
  \<open>return\<close> from inside the loop, \<open>Inr vars\<close> the variables when the loop is left by
  its condition or by \<open>break\<close>.
\<close>

function attempt_loop ::
  "RetryConfig \<Rightarrow> world \<Rightarrow> LLM \<Rightarrow> CompleteParams \<Rightarrow> nat \<Rightarrow> int \<Rightarrow> loop_vars \<Rightarrow> event list \<Rightarrow>
   event list \<times> (goerr + loop_vars)"
where
  "attempt_loop rc w llm params attempt wait vars tr =
     (if int attempt < MaxAttempts rc then
        (case before_attempt rc w attempt wait tr of
           (tr1, Inl e) \<Rightarrow> (tr1, Inl e)
         | (tr1, Inr wait1) \<Rightarrow>
             (case llm_Complete w attempt llm params of
                Inr res \<Rightarrow> (tr1 @ [Call attempt], Inr (Some res, None, snd (snd vars)))
              | Inl err \<Rightarrow>
                  if \<not> isRetryableError err then
                    (tr1 @ [Call attempt], Inr (None, Some err, Some err))
                  else
                    attempt_loop rc w llm params (Suc attempt) wait1 (None, Some err, Some err)
                      (tr1 @ [Call attempt])))
      else (tr, Inr vars))"
  by pat_completeness auto
termination
  by (relation "measure (\<lambda>(rc, w, llm, params, attempt, wait, vars, tr).
        nat (MaxAttempts rc - int attempt))") auto

section \<open>The telemetry sink (package langfuse) and the trace events\<close>

record langfuse_Client =
  publicKey :: string
  secretKey :: string
  apiURL :: string

definition DefaultAPIURL :: string where
  "DefaultAPIURL = ''https://cloud.langfuse.com''"

definition NewClient :: "config_Config \<Rightarrow> langfuse_Client" where
  "NewClient cfg =
     \<lparr>publicKey = PublicKey (cfg_Langfuse (cfg_LLM cfg)),
      secretKey = PrivateKey (cfg_Langfuse (cfg_LLM cfg)),
      apiURL = DefaultAPIURL\<rparr>"

text \<open>
  Values of the \<open>any\<close>-typed model parameters, a float being the rational it denotes;
  times are nanoseconds, not text.
\<close>

datatype param_value = PFloat rat | PInt int

record TraceBody =
  tb_ID :: string
  tb_Name :: string
  tb_UserID :: string
  tb_Input :: string
  tb_Output :: string
  tb_Timestamp :: int
  tb_Environment :: string
  tb_Tags :: "string list"

record GenerationBody =
  gb_ID :: string
  gb_TraceID :: string
  gb_Name :: string
  gb_StartTime :: int
  gb_CompletionStartTime :: int
  gb_EndTime :: int
  gb_Model :: string
  gb_ModelParameters :: "(string \<times> param_value) list"
  gb_Input :: "Message list"
  gb_Output :: "Message list"
  gb_UsageDetails :: "(string \<times> int) list option"
  gb_Level :: string

datatype event_body = Trace TraceBody | Generation GenerationBody

record Event =
  ev_ID :: string
  ev_Timestamp :: int
  ev_Type :: string
  ev_Body :: event_body

definition CreateTrace :: "int \<Rightarrow> string \<Rightarrow> TraceBody \<Rightarrow> Event" where
  "CreateTrace now ident body =
     \<lparr>ev_ID = ident, ev_Timestamp = now, ev_Type = ''trace-create'', ev_Body = Trace body\<rparr>"

definition CreateGeneration :: "int \<Rightarrow> string \<Rightarrow> GenerationBody \<Rightarrow> Event" where
  "CreateGeneration now ident body =
     \<lparr>ev_ID = ident, ev_Timestamp = now, ev_Type = ''generation-create'',
      ev_Body = Generation body\<rparr>"

record IngestionItem =
  it_ID :: string
  it_Status :: int
  it_Message :: string

record IngestionResponse =
  Successes :: "IngestionItem list"
  Errors :: "IngestionItem list"

text \<open>What a call gives: it returns a value, or it panics.\<close>

datatype 'a outcome = Returned 'a | Panic

text \<open>
  The request \<open>Ingest\<close> posts (the Authorization header is the Basic encoding of the
  two keys) and what comes back from \<open>httpClient.Do\<close>: an error of the transport, or a
  response with its status code and the result of decoding its body.
\<close>

record ingest_request =
  rq_URL :: string
  rq_User :: string
  rq_Password :: string
  rq_Batch :: "Event list"

datatype http_result =
    TransportError goerr
  | Response int "goerr + IngestionResponse"

text \<open>Decimal digits of a status code, for \<open>%d\<close>.\<close>

fun digits :: "nat \<Rightarrow> string" where
  "digits n =
     (if n < 10 then [char_of (48 + n)] else digits (n div 10) @ [char_of (48 + n mod 10)])"

definition show_int :: "int \<Rightarrow> string" where
  "show_int i = (if i < 0 then CHR ''-'' # digits (nat (- i)) else digits (nat i))"

text \<open>
  \<open>Client.Ingest\<close>.  \<open>marshal\<close> is \<open>json.Marshal\<close> on the batch: the batch
  holds the messages of the request and of the response, whose \<open>Metadata\<close> (of type
  \<open>any\<close>, left out of \<open>Message\<close>) is encoded by the \<open>MarshalJSON\<close> method of
  whatever value the caller put there, so the call gives the bytes (\<open>Returned None\<close>), an
  error, or the panic of such a method.  \<open>sink\<close> is the ingestion endpoint.  The URL is
  well formed, so the error return of \<open>http.NewRequest\<close> is not taken.
\<close>

definition Ingest ::
  "langfuse_Client \<Rightarrow> (Event list \<Rightarrow> goerr option outcome) \<Rightarrow> (ingest_request \<Rightarrow> http_result) \<Rightarrow>
   Event list \<Rightarrow> (goerr + IngestionResponse) outcome"
where
  "Ingest c marshal sink batch =
     (case marshal batch of
        Panic \<Rightarrow> Panic
      | Returned (Some err) \<Rightarrow> Returned (Inl (Errorf ''error marshaling request'' err))
      | Returned None \<Rightarrow>
          (case sink \<lparr>rq_URL = apiURL c @ ''/api/public/ingestion'', rq_User = publicKey c,
                      rq_Password = secretKey c, rq_Batch = batch\<rparr> of
             TransportError err \<Rightarrow> Returned (Inl (Errorf ''error sending request'' err))
           | Response status body \<Rightarrow>
               if status \<noteq> 207 \<and> status \<noteq> 200 then
                 Returned (Inl (ErrorsNew (''unexpected status code: '' @ show_int status)))
               else
                 (case body of
                    Inl err \<Rightarrow> Returned (Inl (Errorf ''error decoding response'' err))
                  | Inr ingestionResp \<Rightarrow> Returned (Inr ingestionResp))))"

text \<open>The completer and its helper functions.\<close>

record completer =
  cfg :: config_Config
  langfuse :: "langfuse_Client option"
  retryConfig :: RetryConfig
  registry :: Registry

text \<open>\<open>NewCompleter\<close>; an option is a function on the completer, applied in order.\<close>

definition WithCompleterRetryConfig :: "RetryConfig \<Rightarrow> completer \<Rightarrow> completer" where
  "WithCompleterRetryConfig rc c = c\<lparr>retryConfig := rc\<rparr>"

definition NewCompleter ::
  "config_Config \<Rightarrow> Registry \<Rightarrow> (completer \<Rightarrow> completer) list \<Rightarrow> completer"
where
  "NewCompleter config reg opts =
     fold (\<lambda>opt c. opt c) opts
       \<lparr>cfg = config,
        langfuse = (if Langfuse_IsConfigured (cfg_Langfuse (cfg_LLM config))
                    then Some (NewClient config) else None),
        retryConfig = DefaultRetryConfig,
        registry = reg\<rparr>"

definition GetAvailableModels :: "completer \<Rightarrow> Model list" where
  "GetAvailableModels c = models (registry c)"

definition getAPIKeyFunc :: "completer \<Rightarrow> Provider \<Rightarrow> goerr + string option" where
  "getAPIKeyFunc c provider =
     (if provider = OpenAI then Inr (Some (APIKey (cfg_OpenAI (cfg_LLM (cfg c)))))
      else if provider = Ollama then Inr (Some [])
      else Inl (ErrorsNew (''provider '' @ strconv_Quote provider @ '' is not supported'')))"

definition getEnvironment :: "config_Config \<Rightarrow> string" where
  "getEnvironment config =
     (if Env (Global config) = ''production'' then ''production'' else ''development'')"

text \<open>\<open>getLastUserMessage\<close>: the loop runs from the last index down.\<close>

fun getLastUserMessage_loop :: "Message list \<Rightarrow> string" where
  "getLastUserMessage_loop [] = []"
| "getLastUserMessage_loop (m # older) =
     (if Role m = RoleUser then Content m else getLastUserMessage_loop older)"

definition getLastUserMessage :: "Message list \<Rightarrow> string" where
  "getLastUserMessage messages = getLastUserMessage_loop (rev messages)"

text \<open>
  \<open>extractModelParameters\<close>.  The default temperature is the \<open>float64\<close> nearest to
  0.7.
\<close>

definition extractModelParameters :: "CompleteParams \<Rightarrow> (string \<times> param_value) list" where
  "extractModelParameters params =
     [(''temperature'', PFloat (case Temperature params of Some t \<Rightarrow> t | None \<Rightarrow> 3152519739159347 / 4503599627370496)),
      (''maxTokens'', PInt (case MaxTokens params of Some n \<Rightarrow> n | None \<Rightarrow> 2000)),
      (''topP'', PFloat (case TopP params of Some p \<Rightarrow> p | None \<Rightarrow> 1))]"

text \<open>
  What the detached goroutine meets: \<open>json.Marshal\<close> on the batch, the ingestion
  endpoint, the identifiers \<open>genUUID\<close> draws (in the order drawn) and the clock (in
  the order read).  \<open>errgroup_repanics\<close> says what the \<open>errgroup\<close> library in use
  does when a function it was given panics: it runs the function in a goroutine of
  its own, and either \<open>Wait\<close> raises the panic again in the goroutine that waits, or
  the panic is left to end the program; releases of the library differ in this.
\<close>

record telemetry_world =
  marshal :: "Event list \<Rightarrow> goerr option outcome"
  sink :: "ingest_request \<Rightarrow> http_result"
  uuid :: "nat \<Rightarrow> string"
  tnow :: "nat \<Rightarrow> int"
  errgroup_repanics :: bool

datatype log = LogError string

text \<open>
  How a call ends in its goroutine: it returns, a panic unwinds the goroutine (the
  deferred functions of the goroutine run and may recover it), or a panic has unwound
  another goroutine to its end with nothing to recover it, which ends the program.
\<close>

datatype ending = Returns | Panicking | ProgramEnds

text \<open>
  \<open>sendTraceEvents\<close>: the log lines it writes and how it ends.  Indexing
  \<open>res.Messages[0]\<close> on an empty slice panics in the goroutine of the call;
  \<open>Ingest\<close> runs in the goroutine of the \<open>errgroup\<close>.  \<open>getUserIDFromContext\<close>
  returns the empty string, so the user id is always the third identifier drawn.
\<close>

definition sendTraceEvents ::
  "completer \<Rightarrow> telemetry_world \<Rightarrow> Model \<Rightarrow> CompleteParams \<Rightarrow> CompleteResponse \<Rightarrow>
   log list \<times> ending"
where
  "sendTraceEvents c tw model params res =
     (case langfuse c of
        None \<Rightarrow> ([], Returns)
      | Some client \<Rightarrow>
          (let traceID = uuid tw 0;
               generationID = uuid tw 1;
               now = tnow tw 0;
               userID = uuid tw 2;
               generationBody =
                 \<lparr>gb_ID = generationID, gb_TraceID = traceID, gb_Name = ''Model Response'',
                  gb_StartTime = now, gb_CompletionStartTime = now + 500 * 1000000,
                  gb_EndTime = now + 1200 * 1000000, gb_Model = Name model,
                  gb_ModelParameters = extractModelParameters params,
                  gb_Input = Messages params, gb_Output = RMessages res,
                  gb_UsageDetails =
                    (case RUsage res of
                       None \<Rightarrow> None
                     | Some u \<Rightarrow> Some [(''prompt_tokens'', PromptTokens u),
                                       (''completion_tokens'', CompletionTokens u),
                                       (''total_tokens'', TotalTokens u)]),
                  gb_Level = ''DEFAULT''\<rparr>
           in case RMessages res of
                [] \<Rightarrow> ([], Panicking)
              | m0 # _ \<Rightarrow>
                  (let batch =
                         [CreateTrace (tnow tw 1) (uuid tw 3)
                            \<lparr>tb_ID = traceID, tb_Name = ''Model Interaction'',
                             tb_UserID = userID,
                             tb_Input = getLastUserMessage (Messages params),
                             tb_Output = Content m0, tb_Timestamp = now,
                             tb_Environment = getEnvironment (cfg c),
                             tb_Tags = [Name model, Provider model]\<rparr>,
                          CreateGeneration (tnow tw 2) (uuid tw 4) generationBody]
                   in case Ingest client (marshal tw) (sink tw) batch of
                        Panic \<Rightarrow>
                          ([], if errgroup_repanics tw then Panicking else ProgramEnds)
                      | Returned (Inl err) \<Rightarrow>
                          ([LogError ''failed to send trace events to Langfuse'',
                            LogError ''error sending telemetry''], Returns)
                      | Returned (Inr resp) \<Rightarrow>
                          if Errors resp \<noteq> [] then
                            ([LogError ''failed to ingest some events''], Returns)
                          else ([], Returns))))"

text \<open>
  The goroutine of \<open>Complete\<close>: its deferred function recovers a panic that unwinds
  this goroutine and logs it.  The result is the log and whether the program is ended.
\<close>

definition trace_goroutine ::
  "completer \<Rightarrow> telemetry_world \<Rightarrow> Model \<Rightarrow> CompleteParams \<Rightarrow> CompleteResponse \<Rightarrow>
   log list \<times> bool"
where
  "trace_goroutine c tw model params res =
     (case sendTraceEvents c tw model params res of
        (logs, Returns) \<Rightarrow> (logs, False)
      | (logs, Panicking) \<Rightarrow> (logs @ [LogError ''panic while sending trace events''], False)
      | (logs, ProgramEnds) \<Rightarrow> (logs, True))"

text \<open>
  The result of one call of \<open>Complete\<close>: what the loop did, what the call gave back
  (a pair of Go results with exactly one of them non-nil, or the panic of a nil
  dereference), what the goroutine it started wrote to the log, and whether that
  goroutine ended the program.  The goroutine reads \<open>res\<close> and writes no variable of
  the caller.
\<close>

record completion =
  events :: "event list"
  outcome :: "(goerr + CompleteResponse) outcome"
  background :: "log list"
  aborted :: bool

text \<open>
  The head of \<open>Complete\<close>, up to the retry loop: the API key function for the
  provider, then the client from \<open>New\<close>; either failure is returned wrapped.
\<close>

definition init_client :: "completer \<Rightarrow> registrations \<Rightarrow> Model \<Rightarrow> goerr + LLM" where
  "init_client c supportedModels model =
     (case getAPIKeyFunc c (Provider model) of
        Inl err \<Rightarrow> Inl (Errorf ''failed to get API key'' err)
      | Inr apiKeyFunc \<Rightarrow>
          (case New supportedModels
                  \<lparr>APIKeyFunc = apiKeyFunc, CModel = model, Timeout = 120 * 1000000000,
                   LLMConfig = cfg_LLM (cfg c)\<rparr> of
             Inl err \<Rightarrow> Inl (Errorf ''failed to initialize LLM client'' err)
           | Inr llm \<Rightarrow> Inr llm))"

text \<open>
  The tail of \<open>Complete\<close>, after the loop was left with the variables \<open>res\<close>, \<open>err\<close>
  and \<open>lastErr\<close>: the wrapped last error, the nil dereference of \<open>res.Messages\<close>,
  \<open>ErrNoMessages\<close>, or the response together with what the goroutine does.
\<close>

definition after_loop ::
  "completer \<Rightarrow> telemetry_world \<Rightarrow> CompleteParams \<Rightarrow> Model \<Rightarrow> loop_vars \<Rightarrow>
   (goerr + CompleteResponse) outcome \<times> log list \<times> bool"
where
  "after_loop c tw params model vars =
     (case vars of (res, err, lastErr) \<Rightarrow>
        (case err of
           Some _ \<Rightarrow>
             (Returned (Inl
                (case lastErr of
                   Some e \<Rightarrow> Errorf ''all completion attempts failed'' e
                 | None \<Rightarrow> ErrorsNew ''all completion attempts failed: %!w(<nil>)'')),
              [], False)
         | None \<Rightarrow>
             (case res of
                None \<Rightarrow> (Panic, [], False)
              | Some r \<Rightarrow>
                  if RMessages r = [] then (Returned (Inl (Sentinel ErrNoMessages)), [], False)
                  else (Returned (Inr r), trace_goroutine c tw model params r))))"

definition Complete ::
  "completer \<Rightarrow> registrations \<Rightarrow> world \<Rightarrow> telemetry_world \<Rightarrow> CompleteParams \<Rightarrow> Model \<Rightarrow> completion"
where
  "Complete c supportedModels w tw params model =
     (case init_client c supportedModels model of
        Inl err \<Rightarrow>
          \<lparr>events = [], outcome = Returned (Inl err), background = [], aborted = False\<rparr>
      | Inr llm \<Rightarrow>
          (case attempt_loop (retryConfig c) w llm params 0
                  (InitialWait (retryConfig c)) (None, None, None) [] of
             (tr, Inl e) \<Rightarrow>
               \<lparr>events = tr, outcome = Returned (Inl e), background = [], aborted = False\<rparr>
           | (tr, Inr vars) \<Rightarrow>
               \<lparr>events = tr, outcome = fst (after_loop c tw params model vars),
                background = fst (snd (after_loop c tw params model vars)),
                aborted = snd (snd (after_loop c tw params model vars))\<rparr>))"

text \<open>
  \<open>CompleteWithFallback\<close>.  Each call of \<open>Complete\<close> it makes meets a world of its
  own: \<open>run_world fw k\<close> and \<open>run_telemetry fw k\<close> for call number \<open>k\<close> (0 the primary
  model, \<open>i + 1\<close> the fallback of index \<open>i\<close>); \<open>fallback_ctx_Err fw i\<close> is \<open>ctx.Err()\<close>
  as checked before the fallback of index \<open>i\<close>.  The result lists the calls of
  \<open>Complete\<close> made, in order, each with its model.
\<close>

record fallback_world =
  run_world :: "nat \<Rightarrow> world"
  run_telemetry :: "nat \<Rightarrow> telemetry_world"
  fallback_ctx_Err :: "nat \<Rightarrow> goerr option"

fun fallback_loop ::
  "completer \<Rightarrow> registrations \<Rightarrow> fallback_world \<Rightarrow> CompleteParams \<Rightarrow> nat \<Rightarrow> Model list \<Rightarrow> goerr \<Rightarrow>
   (Model \<times> completion) list \<Rightarrow> (Model \<times> completion) list \<times> (goerr + CompleteResponse) outcome"
where
  "fallback_loop c supportedModels fw params i [] err runs =
     (runs, Returned (Inl (Errorf ''all models failed'' err)))"
| "fallback_loop c supportedModels fw params i (fallbackModel # rest) err runs =
     (case fallback_ctx_Err fw i of
        Some e \<Rightarrow> (runs, Returned (Inl e))
      | None \<Rightarrow>
          (let r = Complete c supportedModels (run_world fw (Suc i)) (run_telemetry fw (Suc i))
                     params fallbackModel
           in case outcome r of
                Panic \<Rightarrow> (runs @ [(fallbackModel, r)], Panic)
              | Returned (Inr res) \<Rightarrow> (runs @ [(fallbackModel, r)], Returned (Inr res))
              | Returned (Inl err') \<Rightarrow>
                  fallback_loop c supportedModels fw params (Suc i) rest err'
                    (runs @ [(fallbackModel, r)])))"

definition CompleteWithFallback ::
  "completer \<Rightarrow> registrations \<Rightarrow> fallback_world \<Rightarrow> CompleteParams \<Rightarrow> Model \<Rightarrow> Model list \<Rightarrow>
   (Model \<times> completion) list \<times> (goerr + CompleteResponse) outcome"
where
  "CompleteWithFallback c supportedModels fw params primaryModel fallbackModels =
     (let r = Complete c supportedModels (run_world fw 0) (run_telemetry fw 0) params primaryModel
      in case outcome r of
           Panic \<Rightarrow> ([(primaryModel, r)], Panic)
         | Returned (Inr res) \<Rightarrow> ([(primaryModel, r)], Returned (Inr res))
         | Returned (Inl err) \<Rightarrow>
             fallback_loop c supportedModels fw params 0 fallbackModels err [(primaryModel, r)])"

section \<open>The registered models\<close>

text \<open>The two models the provider packages declare and register in \<open>init\<close>.\<close>

definition ModelGPT4o :: Model where
  "ModelGPT4o =
     \<lparr>Provider = OpenAI, Name = ''gpt-4o'', DisplayName = ''OpenAI gpt-4o'',
      MaxToken = 16384, ContextWindow = 128000, PDFSupported = True,
      Version = ''2023-05-15'', Family = ''GPT-4'', Pricing = Some 0,
      Capabilities = \<lparr>SupportsStreaming = True, SupportsFunctions = True,
        SupportsVision = True, SupportsJSON = True\<rparr>\<rparr>"

definition ModelTinySwallow :: Model where
  "ModelTinySwallow =
     \<lparr>Provider = Ollama, Name = ''yottahmd/tiny-swallow-1.5b-instruct'',
      DisplayName = ''Sakana AI Tiny Swallow 1.5B'',
      MaxToken = 32768, ContextWindow = 32768, PDFSupported = True,
      Version = ''2024-03-05'', Family = ''SakanaAI'', Pricing = Some 1,
      Capabilities = \<lparr>SupportsStreaming = True, SupportsFunctions = False,
        SupportsVision = False, SupportsJSON = False\<rparr>\<rparr>"

definition init_registrations :: registrations where
  "init_registrations =
     RegisterLLM ollama_New [ModelTinySwallow] (RegisterLLM openai_New [ModelGPT4o] [])"

section \<open>Notions used to state the properties\<close>

text \<open>
  The value of \<open>wait\<close> at the \<open>n\<close>-th wait of a call (\<open>n = 0\<close> before the first
  retry): it starts at \<open>InitialWait\<close> and each wait that ends by its timer replaces it
  by \<open>next_wait\<close>.
\<close>

fun backoff :: "world \<Rightarrow> RetryConfig \<Rightarrow> nat \<Rightarrow> int" where
  "backoff w rc 0 = InitialWait rc"
| "backoff w rc (Suc n) = next_wait w rc (backoff w rc n)"

text \<open>The events of \<open>k\<close> attempts in a row, a wait before each but the first.\<close>

fun retry_events :: "world \<Rightarrow> RetryConfig \<Rightarrow> nat \<Rightarrow> event list" where
  "retry_events w rc 0 = []"
| "retry_events w rc (Suc k) =
     retry_events w rc k @ (case k of 0 \<Rightarrow> [] | Suc j \<Rightarrow> [Wait (backoff w rc j)]) @ [Call k]"

fun waits_of :: "event list \<Rightarrow> int list" where
  "waits_of [] = []"
| "waits_of (Wait d # es) = d # waits_of es"
| "waits_of (Call i # es) = waits_of es"

fun calls_of :: "event list \<Rightarrow> nat list" where
  "calls_of [] = []"
| "calls_of (Wait d # es) = calls_of es"
| "calls_of (Call i # es) = i # calls_of es"

text \<open>The context is found live at the top of iteration \<open>i\<close> and through its wait.\<close>

definition not_cancelled :: "world \<Rightarrow> nat \<Rightarrow> bool" where
  "not_cancelled w i = (ctx_Err w i = None \<and> (0 < i \<longrightarrow> ctx_Done w i = None))"

text \<open>The client's call of iteration \<open>i\<close> fails with an error the loop retries.\<close>

definition fails_retryably :: "world \<Rightarrow> LLM \<Rightarrow> CompleteParams \<Rightarrow> nat \<Rightarrow> bool" where
  "fails_retryably w llm params i =
     (case llm_Complete w i llm params of
        Inl err \<Rightarrow> isRetryableError err
      | Inr _ \<Rightarrow> False)"

text \<open>
  The client's call of iteration \<open>i\<close> fails with an error of kind service unavailable
  or too many requests.
\<close>

definition fails_unavailable :: "world \<Rightarrow> LLM \<Rightarrow> CompleteParams \<Rightarrow> nat \<Rightarrow> bool" where
  "fails_unavailable w llm params i =
     (case llm_Complete w i llm params of
        Inl err \<Rightarrow> errors_Is err ErrServiceUnavailable \<or> errors_Is err ErrTooManyRequests
      | Inr _ \<Rightarrow> False)"

text \<open>The variables of the loop after the call of iteration \<open>j\<close>.\<close>

definition vars_after_call :: "world \<Rightarrow> LLM \<Rightarrow> CompleteParams \<Rightarrow> nat \<Rightarrow> loop_vars" where
  "vars_after_call w llm params j =
     (case llm_Complete w j llm params of
        Inl e \<Rightarrow> (None, Some e, Some e)
      | Inr r \<Rightarrow> (Some r, None, None))"

text \<open>The state of the loop at the top of iteration \<open>k\<close> after \<open>k\<close> failed attempts.\<close>

definition wait_at :: "world \<Rightarrow> RetryConfig \<Rightarrow> nat \<Rightarrow> int" where
  "wait_at w rc k = (case k of 0 \<Rightarrow> InitialWait rc | Suc j \<Rightarrow> backoff w rc j)"

definition vars_at :: "world \<Rightarrow> LLM \<Rightarrow> CompleteParams \<Rightarrow> nat \<Rightarrow> loop_vars" where
  "vars_at w llm params k =
     (case k of 0 \<Rightarrow> (None, None, None) | Suc j \<Rightarrow> vars_after_call w llm params j)"

text \<open>
  The four roles package llm declares, and the three of them the Ollama client
  translates.
\<close>

definition known_roles :: "Role list" where
  "known_roles = [RoleSystem, RoleUser, RoleAssistant, RoleFunction]"

definition plain_roles :: "Role list" where
  "plain_roles = [RoleSystem, RoleUser, RoleAssistant]"

text \<open>
  The wire message of one message: with the OpenAI client a message of a plain role
  keeps role and content and a function message becomes a user message that names the
  function; with the Ollama client a message of a plain role keeps role and content.
\<close>

definition openai_message :: "Message \<Rightarrow> ChatCompletionMessageParam" where
  "openai_message m =
     (if Role m = RoleUser then UserMessage (Content m)
      else if Role m = RoleAssistant then AssistantMessage (Content m)
      else if Role m = RoleSystem then SystemMessage (Content m)
      else UserMessage (''Function '' @ MsgName m @ '' returned: '' @ Content m))"

definition ollama_message :: "Message \<Rightarrow> api_Message" where
  "ollama_message m = \<lparr>am_Role = Role m, am_Content = Content m\<rparr>"

text \<open>
  Call number \<open>k\<close> of \<open>Complete\<close> within \<open>CompleteWithFallback\<close>, on the model at
  position \<open>k\<close> of the list that starts with the primary model, paired with that
  model; and whether a call returned an error.
\<close>

definition model_run ::
  "completer \<Rightarrow> registrations \<Rightarrow> fallback_world \<Rightarrow> CompleteParams \<Rightarrow> Model list \<Rightarrow> nat \<Rightarrow>
   Model \<times> completion"
where
  "model_run c supportedModels fw params ms k =
     (ms ! k, Complete c supportedModels (run_world fw k) (run_telemetry fw k) params (ms ! k))"

definition run_failed :: "Model \<times> completion \<Rightarrow> bool" where
  "run_failed r = (case outcome (snd r) of Returned (Inl e) \<Rightarrow> True | _ \<Rightarrow> False)"

text \<open>
  The error codes \<open>handleError\<close> of the OpenAI client maps on their own, before it
  looks at the status code.
\<close>

definition openai_mapped_codes :: "string list" where
  "openai_mapped_codes =
     [''context_length_exceeded'', ''length'', ''invalid_api_key'', ''rate_limit_exceeded'',
      ''insufficient_quota'']"

section \<open>Scenarios\<close>

text \<open>
  A configuration with every provider and the telemetry sink configured, and the
  completer the module of package llm builds from it.
\<close>

definition full_config :: config_Config where
  "full_config =
     \<lparr>Global = \<lparr>Env = ''local''\<rparr>,
      cfg_LLM = \<lparr>cfg_OpenAI = \<lparr>APIKey = ''sk-key''\<rparr>,
                 cfg_Ollama = \<lparr>BaseURL = ''http://localhost:11434''\<rparr>,
                 cfg_Langfuse = \<lparr>PrivateKey = ''lf-private'', PublicKey = ''lf-public''\<rparr>\<rparr>\<rparr>"

definition module_completer :: "config_Config \<Rightarrow> completer" where
  "module_completer config =
     NewCompleter config (NewRegistry config init_registrations)
       [WithCompleterRetryConfig DefaultRetryConfig]"

text \<open>A completer over the same configuration with a retry policy of the caller's.\<close>

definition completer_with :: "RetryConfig \<Rightarrow> completer" where
  "completer_with rc =
     NewCompleter full_config (NewRegistry full_config init_registrations)
       [WithCompleterRetryConfig rc]"

definition client_config :: "string \<Rightarrow> Model \<Rightarrow> Config" where
  "client_config key model =
     \<lparr>APIKeyFunc = Some key, CModel = model, Timeout = 120 * 1000000000,
      LLMConfig = cfg_LLM full_config\<rparr>"

definition review_params :: CompleteParams where
  "review_params =
     \<lparr>Messages =
        [\<lparr>Role = RoleSystem, Content = ''You review code.'', MsgName = [],
          MsgFinishReason = [], Completed = False\<rparr>,
         \<lparr>Role = RoleUser, Content = ''review this'', MsgName = [],
          MsgFinishReason = [], Completed = False\<rparr>],
      MaxTokens = None, Temperature = None, TopP = None, N = None\<rparr>"

text \<open>
  The status line a server sends for a status code, for the codes used below.
\<close>

definition status_line :: "int \<Rightarrow> string" where
  "status_line status =
     show_int status @
       (if status = 401 then '' Unauthorized''
        else if status = 429 then '' Too Many Requests''
        else if status = 500 then '' Internal Server Error''
        else if status = 502 then '' Bad Gateway''
        else if status = 503 then '' Service Unavailable''
        else [])"

text \<open>
  A world whose context is never cancelled and where the library of either client
  reports, for every request, an error of its own type that carries the given status
  code: an \<open>*openai.Error\<close> with the given error code, and an \<open>api.StatusError\<close>
  with the status line and the given text as its message.  How a library comes from
  the bytes of an HTTP response to such a value is not code of this repository.
\<close>

definition status_world :: "int \<Rightarrow> string \<Rightarrow> world" where
  "status_world status code =
     \<lparr>ctx_Err = (\<lambda>i. None), ctx_Done = (\<lambda>i. None),
      openai_service = (\<lambda>i req. Inl (APIError status code)),
      ollama_service = (\<lambda>i req. ([], Some (StatusError status (status_line status) code))),
      url_Parse = (\<lambda>s. Inr s),
      clock_latency = (\<lambda>i. 40), clock_now = (\<lambda>i. 0),
      float_overflow = (\<lambda>q. - (2 ^ 63))\<rparr>"

text \<open>
  A world whose context stays live while every request of the OpenAI client runs
  into the time limit of its HTTP client: the library returns an error that wraps
  \<open>context.DeadlineExceeded\<close>.
\<close>

definition deadline_world :: world where
  "deadline_world =
     (status_world 503 [])\<lparr>openai_service :=
        (\<lambda>i req. Inl (Errorf ''request failed'' (Sentinel DeadlineExceeded)))\<rparr>"

text \<open>
  A telemetry world where the batch marshals and the sink answers with the given
  status and an empty report.
\<close>

definition sink_status :: "int \<Rightarrow> telemetry_world" where
  "sink_status status =
     \<lparr>marshal = (\<lambda>batch. Returned None),
      sink = (\<lambda>rq. Response status (Inr \<lparr>Successes = [], Errors = []\<rparr>)),
      uuid = (\<lambda>k. ''id-'' @ digits k), tnow = (\<lambda>k. 0), errgroup_repanics = False\<rparr>"


text \<open>
  Telemetry worlds where marshalling the batch panics, with an \<open>errgroup\<close> that
  leaves the panic of its goroutine alone and with one that raises it again in
  \<open>Wait\<close>.
\<close>

definition marshal_panics :: telemetry_world where
  "marshal_panics = (sink_status 200)\<lparr>marshal := (\<lambda>batch. Panic)\<rparr>"

definition marshal_panics_reraised :: telemetry_world where
  "marshal_panics_reraised = marshal_panics\<lparr>errgroup_repanics := True\<rparr>"

text \<open>
  A world whose context is never cancelled and where the OpenAI service answers
  every request with the given completion and the Ollama server with the given
  responses and no error.
\<close>

definition reply_world :: "ChatCompletion \<Rightarrow> ChatResponse list \<Rightarrow> world" where
  "reply_world completion resps =
     \<lparr>ctx_Err = (\<lambda>i. None), ctx_Done = (\<lambda>i. None),
      openai_service = (\<lambda>i req. Inr completion),
      ollama_service = (\<lambda>i req. (resps, None)),
      url_Parse = (\<lambda>s. Inr s),
      clock_latency = (\<lambda>i. 40), clock_now = (\<lambda>i. 0),
      float_overflow = (\<lambda>q. - (2 ^ 63))\<rparr>"

definition one_choice :: ChatCompletion where
  "one_choice =
     \<lparr>cc_ID = ''chatcmpl-1'',
      cc_Choices = [\<lparr>ch_Role = ''assistant'', ch_Content = ''Looks good.'',
                     ch_FinishReason = ''stop''\<rparr>],
      cc_PromptTokens = 12, cc_CompletionTokens = 3, cc_TotalTokens = 15\<rparr>"

definition no_choice :: ChatCompletion where
  "no_choice =
     \<lparr>cc_ID = ''chatcmpl-0'', cc_Choices = [],
      cc_PromptTokens = 12, cc_CompletionTokens = 0, cc_TotalTokens = 12\<rparr>"

text \<open>The response the OpenAI client builds from \<open>one_choice\<close> in these worlds.\<close>

definition one_choice_response :: CompleteResponse where
  "one_choice_response =
     \<lparr>RMessages = [\<lparr>Role = ''assistant'', Content = ''Looks good.'', MsgName = [],
                     MsgFinishReason = ''stop'', Completed = True\<rparr>],
      RUsage = Some \<lparr>Unit = ''tokens'', PromptTokens = 12, CompletionTokens = 3,
                     TotalTokens = 15\<rparr>,
      Metadata = \<lparr>ModelName = ''gpt-4o'', FinishReason = ''stop'',
                  CompletionID = ''chatcmpl-1'', LatencyMs = 40, ProcessedAt = 0,
                  RequestTokens = 12\<rparr>\<rparr>"

text \<open>
  Worlds where every request fails with status 503 and the context is
  cancelled with error \<open>e\<close>: found so at the top of iteration \<open>k\<close> and later, or
  first during the wait of iteration \<open>k\<close>.
\<close>

definition cancelled_before :: "nat \<Rightarrow> goerr \<Rightarrow> world" where
  "cancelled_before k e =
     (status_world 503 [])\<lparr>ctx_Err := (\<lambda>i. if k \<le> i then Some e else None),
                            ctx_Done := (\<lambda>i. if k \<le> i then Some e else None)\<rparr>"

definition cancelled_waiting :: "nat \<Rightarrow> goerr \<Rightarrow> world" where
  "cancelled_waiting k e =
     (status_world 503 [])\<lparr>ctx_Err := (\<lambda>i. if k < i then Some e else None),
                            ctx_Done := (\<lambda>i. if k \<le> i then Some e else None)\<rparr>"

text \<open>The response the Ollama client builds when the server streams nothing.\<close>

definition empty_response :: CompleteResponse where
  "empty_response =
     \<lparr>RMessages = [], RUsage = None,
      Metadata = \<lparr>ModelName = ''yottahmd/tiny-swallow-1.5b-instruct'', FinishReason = [],
        CompletionID = [], LatencyMs = 40, ProcessedAt = 0, RequestTokens = 0\<rparr>\<rparr>"

text \<open>The same configuration with no base URL for Ollama.\<close>

definition no_ollama_config :: config_Config where
  "no_ollama_config =
     \<lparr>Global = \<lparr>Env = ''local''\<rparr>,
      cfg_LLM = \<lparr>cfg_OpenAI = \<lparr>APIKey = ''sk-key''\<rparr>,
                 cfg_Ollama = \<lparr>BaseURL = []\<rparr>,
                 cfg_Langfuse = \<lparr>PrivateKey = ''lf-private'', PublicKey = ''lf-public''\<rparr>\<rparr>\<rparr>"

text \<open>A conversation that ends with the result of a function.\<close>

definition function_params :: CompleteParams where
  "function_params =
     \<lparr>Messages =
        [\<lparr>Role = RoleUser, Content = ''run the linter'', MsgName = [],
          MsgFinishReason = [], Completed = False\<rparr>,
         \<lparr>Role = RoleFunction, Content = ''no findings'', MsgName = ''lint'',
          MsgFinishReason = [], Completed = False\<rparr>],
      MaxTokens = None, Temperature = None, TopP = None, N = None\<rparr>"

text \<open>A conversation with a role package llm does not declare.\<close>

definition tool_params :: CompleteParams where
  "tool_params =
     \<lparr>Messages =
        [\<lparr>Role = RoleUser, Content = ''run the linter'', MsgName = [],
          MsgFinishReason = [], Completed = False\<rparr>,
         \<lparr>Role = ''tool'', Content = ''no findings'', MsgName = [],
          MsgFinishReason = [], Completed = False\<rparr>],
      MaxTokens = None, Temperature = None, TopP = None, N = None\<rparr>"

text \<open>One response streamed by the Ollama server, and the response built from it.\<close>

definition one_answer :: "ChatResponse list" where
  "one_answer = [\<lparr>rs_Role = ''assistant'', rs_Content = ''Looks fine.'', rs_DoneReason = ''stop''\<rparr>]"

definition one_answer_response :: CompleteResponse where
  "one_answer_response =
     \<lparr>RMessages = [\<lparr>Role = ''assistant'', Content = ''Looks fine.'', MsgName = [],
                     MsgFinishReason = ''stop'', Completed = True\<rparr>],
      RUsage = None,
      Metadata = \<lparr>ModelName = ''yottahmd/tiny-swallow-1.5b-instruct'', FinishReason = [],
        CompletionID = [], LatencyMs = 40, ProcessedAt = 0, RequestTokens = 0\<rparr>\<rparr>"

text \<open>The errors the two clients return in \<open>status_world 401 ''invalid_api_key''\<close>.\<close>

definition openai_401 :: goerr where
  "openai_401 =
     LLMError (Sentinel ErrInvalidAPIKey) ''openai'' ''gpt-4o'' 401 ''invalid_api_key'' [] []
       False"

definition ollama_401 :: goerr where
  "ollama_401 =
     LLMError (StatusError 401 ''401 Unauthorized'' ''invalid_api_key'') ''ollama''
       ''yottahmd/tiny-swallow-1.5b-instruct'' 401 ''401 Unauthorized'' ''invalid_api_key'' []
       False"

text \<open>
  Worlds for \<open>CompleteWithFallback\<close>: the worlds of the calls and the context as
  checked before each fallback; the sink always answers 200.
\<close>

definition fallback_scenario :: "(nat \<Rightarrow> world) \<Rightarrow> (nat \<Rightarrow> goerr option) \<Rightarrow> fallback_world" where
  "fallback_scenario ws cs =
     \<lparr>run_world = ws, run_telemetry = (\<lambda>k. sink_status 200), fallback_ctx_Err = cs\<rparr>"

text \<open>The primary model fails with a 401 and the fallback answers.\<close>

definition refused_then_answered :: fallback_world where
  "refused_then_answered =
     fallback_scenario
       (\<lambda>k. if k = 0 then status_world 401 ''invalid_api_key''
            else reply_world one_choice one_answer)
       (\<lambda>i. None)"

text \<open>Every model fails with a 401.\<close>

definition all_refused :: fallback_world where
  "all_refused = fallback_scenario (\<lambda>k. status_world 401 ''invalid_api_key'') (\<lambda>i. None)"

text \<open>The primary model fails with a 401, then the context is cancelled.\<close>

definition refused_then_cancelled :: fallback_world where
  "refused_then_cancelled =
     fallback_scenario
       (\<lambda>k. if k = 0 then status_world 401 ''invalid_api_key''
            else cancelled_before 0 (Sentinel Canceled))
       (\<lambda>i. Some (Sentinel Canceled))"

section \<open>Properties\<close>

subsection \<open>The retry loop\<close>

declare attempt_loop.simps [simp del]

declare llm_Complete.simps [simp del]


lemma errors_Is_unique: "errors_Is e s \<Longrightarrow> errors_Is e t \<longleftrightarrow> t = s"
  by (induction e) auto

lemma attempt_loop_exit:
  "\<not> int attempt < MaxAttempts rc \<Longrightarrow>
   attempt_loop rc w llm params attempt wait vars tr = (tr, Inr vars)"
  by (subst attempt_loop.simps) simp

lemma before_attempt_live:
  "not_cancelled w k \<Longrightarrow>
   before_attempt rc w k (wait_at w rc k) tr =
     (tr @ (case k of 0 \<Rightarrow> [] | Suc j \<Rightarrow> [Wait (backoff w rc j)]), Inr (wait_at w rc (Suc k)))"
  by (cases k) (simp_all add: before_attempt_def not_cancelled_def wait_at_def)

lemma attempt_loop_retry:
  assumes "int k < MaxAttempts rc" "not_cancelled w k" "fails_retryably w llm params k"
  shows "attempt_loop rc w llm params k (wait_at w rc k) vars (retry_events w rc k) =
         attempt_loop rc w llm params (Suc k) (wait_at w rc (Suc k))
           (vars_at w llm params (Suc k)) (retry_events w rc (Suc k))"
proof -
  from assms(3) obtain err where e: "llm_Complete w k llm params = Inl err" "isRetryableError err"
    by (auto simp: fails_retryably_def split: sum.splits)
  show ?thesis
    by (subst attempt_loop.simps)
       (simp add: assms(1) before_attempt_live [OF assms(2)] e vars_at_def vars_after_call_def)
qed

lemma attempt_loop_prefix:
  assumes "int k \<le> MaxAttempts rc"
    and "\<forall>i<k. not_cancelled w i \<and> fails_retryably w llm params i"
  shows "attempt_loop rc w llm params 0 (InitialWait rc) (None, None, None) [] =
         attempt_loop rc w llm params k (wait_at w rc k) (vars_at w llm params k)
           (retry_events w rc k)"
  using assms
proof (induction k)
  case 0
  show ?case by (simp add: wait_at_def vars_at_def)
next
  case (Suc k)
  then have "attempt_loop rc w llm params 0 (InitialWait rc) (None, None, None) [] =
         attempt_loop rc w llm params k (wait_at w rc k) (vars_at w llm params k)
           (retry_events w rc k)" by simp
  also have "\<dots> = attempt_loop rc w llm params (Suc k) (wait_at w rc (Suc k))
           (vars_at w llm params (Suc k)) (retry_events w rc (Suc k))"
    using Suc.prems by (intro attempt_loop_retry) auto
  finally show ?case .
qed

lemma calls_of_append [simp]: "calls_of (xs @ ys) = calls_of xs @ calls_of ys"
  by (induction xs rule: calls_of.induct) simp_all

lemma waits_of_append [simp]: "waits_of (xs @ ys) = waits_of xs @ waits_of ys"
  by (induction xs rule: waits_of.induct) simp_all

lemma calls_of_retry_events: "calls_of (retry_events w rc k) = [0..<k]"
  by (induction k) (simp_all split: nat.splits)

lemma waits_of_retry_events: "waits_of (retry_events w rc k) = map (backoff w rc) [0..<k - 1]"
proof (induction k)
  case 0
  show ?case by simp
next
  case (Suc k)
  then show ?case by (cases k) simp_all
qed

lemma fails_unavailable_retryably:
  "fails_unavailable w llm params i \<Longrightarrow> fails_retryably w llm params i"
  by (auto simp: fails_unavailable_def fails_retryably_def isRetryableError_def split: sum.splits)

lemma Complete_after_failures:
  assumes "init_client c sm model = Inr llm"
    and "int k \<le> MaxAttempts (retryConfig c)"
    and "\<forall>i<k. not_cancelled w i \<and> fails_retryably w llm params i"
  shows "Complete c sm w tw params model =
     (case attempt_loop (retryConfig c) w llm params k (wait_at w (retryConfig c) k)
             (vars_at w llm params k) (retry_events w (retryConfig c) k) of
        (tr, Inl e) \<Rightarrow> \<lparr>events = tr, outcome = Returned (Inl e), background = [], aborted = False\<rparr>
      | (tr, Inr vars) \<Rightarrow>
          \<lparr>events = tr, outcome = fst (after_loop c tw params model vars),
           background = fst (snd (after_loop c tw params model vars)),
           aborted = snd (snd (after_loop c tw params model vars))\<rparr>)"
  by (simp add: Complete_def assms(1) attempt_loop_prefix [OF assms(2,3)])

lemma attempt_loop_at:
  assumes "int k < MaxAttempts rc" "not_cancelled w k"
  shows "attempt_loop rc w llm params k (wait_at w rc k) vars (retry_events w rc k) =
     (case llm_Complete w k llm params of
        Inr res \<Rightarrow> (retry_events w rc (Suc k), Inr (Some res, None, snd (snd vars)))
      | Inl err \<Rightarrow>
          if \<not> isRetryableError err then
            (retry_events w rc (Suc k), Inr (None, Some err, Some err))
          else attempt_loop rc w llm params (Suc k) (wait_at w rc (Suc k))
                 (None, Some err, Some err) (retry_events w rc (Suc k)))"
  by (subst attempt_loop.simps)
     (simp add: assms(1) before_attempt_live [OF assms(2)] split: sum.splits)

lemma before_attempt_cancelled:
  "ctx_Err w k = Some e \<Longrightarrow> before_attempt rc w k wait tr = (tr, Inl e)"
  by (simp add: before_attempt_def)

lemma before_attempt_interrupted:
  "ctx_Err w k = None \<Longrightarrow> 0 < k \<Longrightarrow> ctx_Done w k = Some e \<Longrightarrow>
   before_attempt rc w k wait tr = (tr @ [Wait wait], Inl e)"
  by (simp add: before_attempt_def)

lemma Complete_nonretryable:
  assumes "init_client c sm model = Inr llm"
    and "int k < MaxAttempts (retryConfig c)"
    and "\<forall>i<k. not_cancelled w i \<and> fails_retryably w llm params i"
    and "not_cancelled w k"
    and "llm_Complete w k llm params = Inl err" "\<not> isRetryableError err"
  shows "Complete c sm w tw params model =
     \<lparr>events = retry_events w (retryConfig c) (Suc k),
      outcome = Returned (Inl (Errorf ''all completion attempts failed'' err)),
      background = [], aborted = False\<rparr>"
proof -
  have le: "int k \<le> MaxAttempts (retryConfig c)" using assms(2) by simp
  show ?thesis
    by (simp add: Complete_after_failures [OF assms(1) le assms(3)]
        attempt_loop_at [OF assms(2,4)] assms(5,6) after_loop_def)
qed

lemma Complete_success:
  assumes "init_client c sm model = Inr llm"
    and "int k < MaxAttempts (retryConfig c)"
    and "\<forall>i<k. not_cancelled w i \<and> fails_retryably w llm params i"
    and "not_cancelled w k"
    and "llm_Complete w k llm params = Inr res"
  shows "Complete c sm w tw params model =
     \<lparr>events = retry_events w (retryConfig c) (Suc k),
      outcome = (if RMessages res = [] then Returned (Inl (Sentinel ErrNoMessages))
                 else Returned (Inr res)),
      background = (if RMessages res = [] then []
                    else fst (trace_goroutine c tw model params res)),
      aborted = (if RMessages res = [] then False
                 else snd (trace_goroutine c tw model params res))\<rparr>"
proof -
  have le: "int k \<le> MaxAttempts (retryConfig c)" using assms(2) by simp
  show ?thesis
    by (simp add: Complete_after_failures [OF assms(1) le assms(3)]
        attempt_loop_at [OF assms(2,4)] assms(5) after_loop_def)
qed

lemma Complete_exhausted:
  assumes "init_client c sm model = Inr llm"
    and "MaxAttempts (retryConfig c) = int (Suc m)"
    and "\<forall>i<Suc m. not_cancelled w i \<and> fails_retryably w llm params i"
    and "llm_Complete w m llm params = Inl err"
  shows "Complete c sm w tw params model =
     \<lparr>events = retry_events w (retryConfig c) (Suc m),
      outcome = Returned (Inl (Errorf ''all completion attempts failed'' err)),
      background = [], aborted = False\<rparr>"
proof -
  have le: "int (Suc m) \<le> MaxAttempts (retryConfig c)" using assms(2) by simp
  have ex: "\<not> int (Suc m) < MaxAttempts (retryConfig c)" using assms(2) by simp
  show ?thesis
    by (simp add: Complete_after_failures [OF assms(1) le assms(3)]
        attempt_loop_exit [OF ex] vars_at_def vars_after_call_def assms(4) after_loop_def)
qed

lemma Complete_cancelled_before:
  assumes "init_client c sm model = Inr llm"
    and "int k < MaxAttempts (retryConfig c)"
    and "\<forall>i<k. not_cancelled w i \<and> fails_retryably w llm params i"
    and "ctx_Err w k = Some e"
  shows "Complete c sm w tw params model =
     \<lparr>events = retry_events w (retryConfig c) k, outcome = Returned (Inl e), background = [], aborted = False\<rparr>"
proof -
  have le: "int k \<le> MaxAttempts (retryConfig c)" using assms(2) by simp
  have "attempt_loop (retryConfig c) w llm params k (wait_at w (retryConfig c) k)
          (vars_at w llm params k) (retry_events w (retryConfig c) k) =
        (retry_events w (retryConfig c) k, Inl e)"
    by (subst attempt_loop.simps) (simp add: assms(2) before_attempt_cancelled [OF assms(4)])
  then show ?thesis
    by (simp add: Complete_after_failures [OF assms(1) le assms(3)])
qed

lemma Complete_cancelled_waiting:
  assumes "init_client c sm model = Inr llm"
    and "int (Suc j) < MaxAttempts (retryConfig c)"
    and "\<forall>i<Suc j. not_cancelled w i \<and> fails_retryably w llm params i"
    and "ctx_Err w (Suc j) = None" "ctx_Done w (Suc j) = Some e"
  shows "Complete c sm w tw params model =
     \<lparr>events = retry_events w (retryConfig c) (Suc j) @ [Wait (backoff w (retryConfig c) j)],
      outcome = Returned (Inl e), background = [], aborted = False\<rparr>"
proof -
  have le: "int (Suc j) \<le> MaxAttempts (retryConfig c)" using assms(2) by simp
  have "attempt_loop (retryConfig c) w llm params (Suc j) (wait_at w (retryConfig c) (Suc j))
          (vars_at w llm params (Suc j)) (retry_events w (retryConfig c) (Suc j)) =
        (retry_events w (retryConfig c) (Suc j) @ [Wait (backoff w (retryConfig c) j)], Inl e)"
    using assms(2)
    by (subst attempt_loop.simps)
       (simp add: before_attempt_interrupted [OF assms(4) _ assms(5)] wait_at_def)
  then show ?thesis
    by (simp add: Complete_after_failures [OF assms(1) le assms(3)])
qed

lemma before_attempt_extends:
  "\<exists>p. fst (before_attempt rc w attempt wt tr) = tr @ p"
  by (simp add: before_attempt_def split: option.splits)

lemma attempt_loop_extends:
  "\<exists>rest. fst (attempt_loop rc w llm params attempt wt vars tr) = tr @ rest"
proof (induction "nat (MaxAttempts rc - int attempt)" arbitrary: attempt wt vars tr)
  case 0
  then have "\<not> int attempt < MaxAttempts rc" by simp
  then show ?case by (simp add: attempt_loop_exit)
next
  case (Suc n)
  then have lt: "int attempt < MaxAttempts rc" by linarith
  obtain tr1 r where b: "before_attempt rc w attempt wt tr = (tr1, r)"
    by (cases "before_attempt rc w attempt wt tr")
  from before_attempt_extends [of rc w attempt wt tr] b obtain p where p: "tr1 = tr @ p"
    by auto
  show ?case
  proof (cases r)
    case (Inl e)
    then show ?thesis by (subst attempt_loop.simps) (simp add: lt b p)
  next
    case (Inr wait1)
    show ?thesis
    proof (cases "llm_Complete w attempt llm params")
      case res: (Inr res)
      then show ?thesis by (subst attempt_loop.simps) (simp add: lt b p Inr)
    next
      case err: (Inl err)
      show ?thesis
      proof (cases "isRetryableError err")
        case False
        then show ?thesis by (subst attempt_loop.simps) (simp add: lt b p Inr err)
      next
        case True
        have "n = nat (MaxAttempts rc - int (Suc attempt))" using Suc(2) by simp
        from Suc(1) [OF this] obtain rest where
          "fst (attempt_loop rc w llm params (Suc attempt) wait1 (None, Some err, Some err)
                 (tr1 @ [Call attempt])) = (tr1 @ [Call attempt]) @ rest"
          by blast
        then show ?thesis by (subst attempt_loop.simps) (simp add: lt b p Inr err True)
      qed
    qed
  qed
qed

lemma Complete_retries:
  assumes "init_client c sm model = Inr llm"
    and "int (Suc k) < MaxAttempts (retryConfig c)"
    and "\<forall>i<Suc k. not_cancelled w i \<and> fails_retryably w llm params i"
    and "not_cancelled w (Suc k)"
  shows "\<exists>rest. events (Complete c sm w tw params model) =
           retry_events w (retryConfig c) (Suc (Suc k)) @ rest"
proof -
  let ?rc = "retryConfig c"
  have le: "int (Suc k) \<le> MaxAttempts ?rc" using assms(2) by simp
  note C = Complete_after_failures [OF assms(1) le assms(3), of tw]
  note A = attempt_loop_at [OF assms(2,4), of llm params "vars_at w llm params (Suc k)"]
  show ?thesis
  proof (cases "llm_Complete w (Suc k) llm params")
    case (Inr res)
    then show ?thesis by (simp add: C A del: retry_events.simps)
  next
    case (Inl err)
    show ?thesis
    proof (cases "isRetryableError err")
      case False
      then show ?thesis by (simp add: C A Inl del: retry_events.simps)
    next
      case True
      let ?L = "attempt_loop ?rc w llm params (Suc (Suc k)) (wait_at w ?rc (Suc (Suc k)))
                 (None, Some err, Some err) (retry_events w ?rc (Suc (Suc k)))"
      from attempt_loop_extends [of ?rc w llm params "Suc (Suc k)" "wait_at w ?rc (Suc (Suc k))"
          "(None, Some err, Some err)" "retry_events w ?rc (Suc (Suc k))"]
      obtain rest where r: "fst ?L = retry_events w ?rc (Suc (Suc k)) @ rest" by blast
      have "events (Complete c sm w tw params model) = fst ?L"
        by (simp add: C A Inl True del: retry_events.simps split: prod.splits sum.splits)
      then have "events (Complete c sm w tw params model) =
          retry_events w ?rc (Suc (Suc k)) @ rest"
        by (simp only: r)
      then show ?thesis ..
    qed
  qed
qed

lemma attempt_loop_vars:
  assumes "attempt_loop rc w llm params a wt vars tr = (tr', Inr (res, err, le))"
    and "int a < MaxAttempts rc \<or> fst vars \<noteq> None \<or> fst (snd vars) \<noteq> None"
  shows "res \<noteq> None \<or> err \<noteq> None"
  using assms
proof (induction rc w llm params a wt vars tr rule: attempt_loop.induct)
  case (1 rc w llm params attempt wait vars tr)
  show ?case
  proof (cases "int attempt < MaxAttempts rc")
    case False
    with "1.prems" show ?thesis
      by (simp add: attempt_loop_exit)
  next
    case True
    obtain tr1 x where b: "before_attempt rc w attempt wait tr = (tr1, x)"
      by (cases "before_attempt rc w attempt wait tr")
    show ?thesis
    proof (cases x)
      case (Inl e)
      with "1.prems"(1) True b show ?thesis
        by (subst (asm) attempt_loop.simps) simp
    next
      case (Inr wait1)
      show ?thesis
      proof (cases "llm_Complete w attempt llm params")
        case (Inr r)
        with "1.prems"(1) True b \<open>x = Inr wait1\<close> show ?thesis
          by (subst (asm) attempt_loop.simps) auto
      next
        case (Inl e)
        show ?thesis
        proof (cases "isRetryableError e")
          case False
          with "1.prems"(1) True b \<open>x = Inr wait1\<close> Inl show ?thesis
            by (subst (asm) attempt_loop.simps) auto
        next
          case r: True
          have "attempt_loop rc w llm params (Suc attempt) wait1 (None, Some e, Some e)
                  (tr1 @ [Call attempt]) = (tr', Inr (res, err, le))"
            using "1.prems"(1) True b \<open>x = Inr wait1\<close> Inl r
            by (subst (asm) attempt_loop.simps) simp
          then show ?thesis
            using "1.IH" [OF True b [symmetric] \<open>x = Inr wait1\<close> Inl] r by simp
        qed
      qed
    qed
  qed
qed

subsection \<open>Rounding to \<open>float64\<close>\<close>

declare log2_floor.simps [simp del]

lemma log2_floor_nonneg: "0 \<le> log2_floor n"
proof (induction n rule: log2_floor.induct)
  case (1 n)
  then show ?case by (subst log2_floor.simps) auto
qed

lemma log2_floor_bounds:
  "1 \<le> n \<Longrightarrow> 2 ^ nat (log2_floor n) \<le> n \<and> n < 2 * 2 ^ nat (log2_floor n)"
proof (induction n rule: log2_floor.induct)
  case (1 n)
  show ?case
  proof (cases "n < 2")
    case True
    with 1(2) have "n = 1" by simp
    then show ?thesis by (simp add: log2_floor.simps)
  next
    case False
    then have h: "1 \<le> n div 2" by simp
    have s: "log2_floor n = 1 + log2_floor (n div 2)"
      using False by (subst log2_floor.simps) simp
    have p: "nat (1 + log2_floor (n div 2)) = Suc (nat (log2_floor (n div 2)))"
      using log2_floor_nonneg [of "n div 2"] by simp
    from 1(1) [OF False h] have
      a: "2 ^ nat (log2_floor (n div 2)) \<le> n div 2" and
      b: "n div 2 < 2 * 2 ^ nat (log2_floor (n div 2))" by auto
    from a have "2 * 2 ^ nat (log2_floor (n div 2)) \<le> n" by linarith
    moreover from b have "n < 2 * (2 * 2 ^ nat (log2_floor (n div 2)))" by linarith
    ultimately show ?thesis by (simp add: s p)
  qed
qed

lemma exponent2_bounds:
  assumes "1 \<le> a"
  shows "0 \<le> exponent2 a \<and> 2 powi exponent2 a \<le> a \<and> a < 2 powi (exponent2 a + 1)"
proof -
  let ?n = "\<lfloor>a\<rfloor>"
  let ?k = "log2_floor ?n"
  have n: "1 \<le> ?n" using assms by simp
  have e: "exponent2 a = ?k" using assms by (simp add: exponent2_def)
  have k0: "0 \<le> ?k" by (rule log2_floor_nonneg)
  from log2_floor_bounds [OF n] have
    a: "2 ^ nat ?k \<le> ?n" and b: "?n < 2 * 2 ^ nat ?k" by auto
  have p: "(2::rat) powi ?k = 2 ^ nat ?k" using k0 by (simp add: power_int_def)
  have p1: "(2::rat) powi (?k + 1) = 2 * 2 ^ nat ?k"
    using k0 by (simp add: power_int_def nat_add_distrib)
  have "(of_int (2 ^ nat ?k) :: rat) \<le> of_int ?n" using a by (simp only: of_int_le_iff)
  also have "\<dots> \<le> a" by simp
  finally have lo: "(2::rat) ^ nat ?k \<le> a" by simp
  have "?n + 1 \<le> 2 * 2 ^ nat ?k" using b by simp
  then have "(of_int (?n + 1) :: rat) \<le> of_int (2 * 2 ^ nat ?k)" by (simp only: of_int_le_iff)
  moreover have "a < of_int (?n + 1)" by linarith
  ultimately have hi: "a < 2 * 2 ^ nat ?k" by simp
  show ?thesis using k0 lo hi by (simp add: e p p1)
qed

lemma exponent2_small:
  assumes "a < 1"
  shows "exponent2 a \<le> 0"
  using assms log2_floor_nonneg by (simp add: exponent2_def log2_ceil_def)

lemma exponent2_bounds_small:
  assumes "0 < a" "a < 1"
  shows "2 powi exponent2 a \<le> a \<and> a < 2 powi (exponent2 a + 1)"
proof -
  let ?n = "\<lceil>1 / a\<rceil>"
  let ?j = "log2_floor (?n - 1)"
  have inv: "1 < 1 / a" using assms by simp
  then have n2: "2 \<le> ?n" by (simp add: le_ceiling_iff)
  then have n1: "1 \<le> ?n - 1" by simp
  have j0: "0 \<le> ?j" by (rule log2_floor_nonneg)
  from log2_floor_bounds [OF n1] have
    lo: "2 ^ nat ?j \<le> ?n - 1" and hi: "?n - 1 < 2 * 2 ^ nat ?j" by auto
  have e: "exponent2 a = - (1 + ?j)"
    using assms n2 by (simp add: exponent2_def log2_ceil_def)
  have p1: "(2::rat) powi (- (1 + ?j)) = 1 / (2 * 2 ^ nat ?j)"
    using j0 by (simp add: power_int_def nat_add_distrib field_simps)
  have p0: "(2::rat) powi (- (1 + ?j) + 1) = 1 / 2 ^ nat ?j"
    using j0 by (simp add: power_int_def field_simps)
  have "?n \<le> 2 * 2 ^ nat ?j" using hi by simp
  then have "(of_int ?n :: rat) \<le> of_int (2 * 2 ^ nat ?j)" by (simp only: of_int_le_iff)
  then have "(of_int ?n :: rat) \<le> 2 * 2 ^ nat ?j" by simp
  moreover have "1 / a \<le> of_int ?n" by (rule le_of_int_ceiling)
  ultimately have "1 / a \<le> 2 * 2 ^ nat ?j" by (rule order_trans [rotated])
  then have a1: "1 / (2 * 2 ^ nat ?j) \<le> a"
    using assms(1) by (simp add: field_simps)
  have "(of_int (2 ^ nat ?j) :: rat) \<le> of_int (?n - 1)" using lo by (simp only: of_int_le_iff)
  then have "(2::rat) ^ nat ?j \<le> of_int (?n - 1)" by simp
  moreover have "of_int (?n - 1) < 1 / a"
    by (metis ceiling_correct of_int_1 of_int_diff)
  ultimately have "(2::rat) ^ nat ?j < 1 / a" by (rule order_le_less_trans)
  then have a2: "a < 1 / 2 ^ nat ?j"
    using assms(1) by (simp add: field_simps)
  show ?thesis using a1 a2 by (simp only: e p1 p0)
qed

lemma exponent2_less:
  assumes "0 \<le> k" "x < 2 powi (k + 1)"
  shows "exponent2 x \<le> k"
proof (cases "1 \<le> x")
  case True
  from exponent2_bounds [OF True] have "(2::rat) powi exponent2 x \<le> x" by simp
  with assms(2) have "(2::rat) powi exponent2 x < 2 powi (k + 1)" by simp
  then have "exponent2 x < k + 1"
    using assms(1) by (intro power_int_le_imp_less_exp [of "2::rat"]) simp_all
  then show ?thesis by simp
next
  case False
  then have "exponent2 x \<le> 0" by (intro exponent2_small) simp
  with assms(1) show ?thesis by simp
qed

lemma exponent2_eqI:
  assumes "1 \<le> a" "2 powi e \<le> a" "a < 2 powi (e + 1)"
  shows "exponent2 a = e"
proof -
  from exponent2_bounds [OF assms(1)] have E: "0 \<le> exponent2 a"
    "(2::rat) powi exponent2 a \<le> a" "a < 2 powi (exponent2 a + 1)" by simp_all
  have "(2::rat) powi e < 2 powi (exponent2 a + 1)" using assms(2) E(3) by simp
  then have 1: "e < exponent2 a + 1"
    using E(1) by (intro power_int_le_imp_less_exp [of "2::rat"]) simp_all
  have e0: "0 \<le> e + 1"
  proof (rule ccontr)
    assume "\<not> 0 \<le> e + 1"
    then have "(2::rat) powi (e + 1) \<le> 2 powi 0" by (intro power_int_increasing) simp_all
    with assms(1,3) show False by simp
  qed
  have "(2::rat) powi exponent2 a < 2 powi (e + 1)" using assms(3) E(2) by simp
  then have "exponent2 a < e + 1"
    using e0 by (intro power_int_le_imp_less_exp [of "2::rat"]) simp_all
  with 1 show ?thesis by simp
qed

lemma round_half_even_bounds: "\<lfloor>r\<rfloor> \<le> round_half_even r \<and> round_half_even r \<le> \<lceil>r\<rceil>"
proof (cases "r = of_int \<lfloor>r\<rfloor>")
  case True
  then have "round_half_even r = \<lfloor>r\<rfloor>" by (simp add: round_half_even_def Let_def)
  then show ?thesis by (simp add: floor_le_ceiling)
next
  case False
  then have "\<lceil>r\<rceil> = \<lfloor>r\<rfloor> + 1" by (metis ceiling_altdef)
  then show ?thesis by (simp add: round_half_even_def Let_def)
qed

lemma round_half_even_ge:
  assumes "of_int k \<le> r"
  shows "k \<le> round_half_even r"
proof -
  have "k \<le> \<lfloor>r\<rfloor>" using assms by (simp add: le_floor_iff)
  then show ?thesis using round_half_even_bounds [of r] by linarith
qed

lemma round_half_even_le:
  assumes "r \<le> of_int k"
  shows "round_half_even r \<le> k"
proof -
  have "\<lceil>r\<rceil> \<le> k" using assms by (simp add: ceiling_le_iff)
  then show ?thesis using round_half_even_bounds [of r] by linarith
qed

lemma round_half_even_error: "\<bar>of_int (round_half_even r) - r\<bar> \<le> 1 / 2"
proof -
  have "of_int \<lfloor>r\<rfloor> \<le> r" "r < of_int \<lfloor>r\<rfloor> + 1" by linarith+
  then show ?thesis by (auto simp: round_half_even_def Let_def)
qed

lemma floor_numeral_div:
  "\<lfloor>(numeral a :: rat) / numeral b\<rfloor> = numeral a div numeral b"
  by (metis floor_divide_of_int_eq of_int_numeral)

lemma powi_of_int: "0 \<le> k \<Longrightarrow> (2::rat) powi k = of_int (2 ^ nat k)"
  by (simp add: power_int_def)

lemma powi_split: "(2::rat) powi (a + b) = 2 powi a * 2 powi b"
  by (simp add: power_int_add)

lemma nearest_ge:
  assumes "of_int K \<le> x / 2 powi quantum x"
  shows "of_int K * 2 powi quantum x \<le> nearest x"
proof -
  have "K \<le> round_half_even (x / 2 powi quantum x)"
    using assms by (rule round_half_even_ge)
  then have "(of_int K :: rat) \<le> of_int (round_half_even (x / 2 powi quantum x))"
    by (simp only: of_int_le_iff)
  then show ?thesis
    unfolding nearest_def by (intro mult_right_mono) simp_all
qed

lemma nearest_le:
  assumes "x / 2 powi quantum x \<le> of_int K"
  shows "nearest x \<le> of_int K * 2 powi quantum x"
proof -
  have "round_half_even (x / 2 powi quantum x) \<le> K"
    using assms by (rule round_half_even_le)
  then have "(of_int (round_half_even (x / 2 powi quantum x)) :: rat) \<le> of_int K"
    by (simp only: of_int_le_iff)
  then show ?thesis
    unfolding nearest_def by (intro mult_right_mono) simp_all
qed

lemma nearest_nonneg:
  assumes "0 \<le> x"
  shows "0 \<le> nearest x"
proof -
  have "(of_int 0 :: rat) \<le> x / 2 powi quantum x" using assms by simp
  from nearest_ge [OF this] show ?thesis by simp
qed

text \<open>The rounded value is within half a unit in the last place.\<close>

lemma nearest_error: "\<bar>nearest a - a\<bar> \<le> 2 powi quantum a / 2"
proof -
  let ?u = "(2::rat) powi quantum a"
  have u: "0 < ?u" by simp
  have "nearest a - a = (of_int (round_half_even (a / ?u)) - a / ?u) * ?u"
    using u by (simp add: nearest_def field_simps)
  then have "\<bar>nearest a - a\<bar> = \<bar>of_int (round_half_even (a / ?u)) - a / ?u\<bar> * ?u"
    using u by (simp add: abs_mult)
  also have "\<dots> \<le> 1 / 2 * ?u"
    using u round_half_even_error [of "a / ?u"] by (intro mult_right_mono) simp_all
  finally show ?thesis by simp
qed

lemma scaled_int:
  assumes "q \<le> 0"
  shows "(of_int n :: rat) / 2 powi q = of_int (n * 2 ^ nat (- q))"
proof -
  have "(2::rat) powi q = 1 / 2 powi (- q)" by (simp add: power_int_minus_divide)
  moreover have "(2::rat) powi (- q) = of_int (2 ^ nat (- q))"
    using assms by (intro powi_of_int) simp
  ultimately show ?thesis by simp
qed

lemma nearest_lower:
  assumes "1 \<le> n" "n \<le> 2 ^ 53" "of_int n \<le> x"
  shows "of_int n \<le> nearest x"
proof -
  have x1: "1 \<le> x" using assms(1,3) by (meson of_int_1_le_iff order_trans)
  from exponent2_bounds [OF x1] have e0: "0 \<le> exponent2 x" and
    lo: "(2::rat) powi exponent2 x \<le> x" by simp_all
  have q: "quantum x = exponent2 x - 52" using e0 by (simp add: quantum_def)
  have p: "(0::rat) < 2 powi quantum x" by simp
  show ?thesis
  proof (cases "quantum x \<le> 0")
    case True
    let ?N = "n * 2 ^ nat (- quantum x)"
    have s: "(of_int n :: rat) / 2 powi quantum x = of_int ?N" by (rule scaled_int [OF True])
    have "(of_int n :: rat) / 2 powi quantum x \<le> x / 2 powi quantum x"
      using assms(3) p by (simp add: divide_right_mono)
    then have "of_int ?N \<le> x / 2 powi quantum x" by (simp only: s)
    from nearest_ge [OF this] have g: "of_int ?N * 2 powi quantum x \<le> nearest x" .
    have h: "of_int ?N * 2 powi quantum x = (of_int n :: rat)"
    proof -
      have "of_int ?N * 2 powi quantum x = (of_int n :: rat) / 2 powi quantum x * 2 powi quantum x"
        by (simp only: s)
      also have "\<dots> = of_int n" using p by simp
      finally show ?thesis .
    qed
    from g show ?thesis unfolding h .
  next
    case False
    then have e: "53 \<le> exponent2 x" using q by simp
    have "(2::rat) powi 52 * 2 powi quantum x = 2 powi exponent2 x"
      unfolding q using powi_split [of 52 "exponent2 x - 52"] by simp
    then have "(2::rat) powi 52 = 2 powi exponent2 x / 2 powi quantum x"
      using p by (simp add: field_simps)
    also have "\<dots> \<le> x / 2 powi quantum x" using lo p by (simp add: divide_right_mono)
    finally have "of_int (2 ^ 52) \<le> x / 2 powi quantum x" by simp
    from nearest_ge [OF this] have "2 powi 52 * 2 powi quantum x \<le> nearest x" by simp
    then have "(2::rat) powi exponent2 x \<le> nearest x"
      unfolding q using powi_split [of 52 "exponent2 x - 52"] by simp
    moreover have "(2::rat) powi 53 \<le> 2 powi exponent2 x"
      using e by (intro power_int_increasing) simp_all
    moreover have "(of_int n :: rat) \<le> of_int (2 ^ 53)" using assms(2) by (simp only: of_int_le_iff)
    ultimately show ?thesis by simp
  qed
qed

lemma nearest_upper:
  assumes "0 < x" "x \<le> of_int n" "n \<le> 2 ^ 53"
  shows "nearest x \<le> of_int n"
proof -
  have p: "(0::rat) < 2 powi quantum x" by simp
  have "(of_int n :: rat) \<le> of_int (2 ^ 53)" using assms(3) by (simp only: of_int_le_iff)
  then have n53: "(of_int n :: rat) \<le> 2 ^ 53" by simp
  have "x < 2 powi (53 + 1)" using assms(2) n53 by simp
  then have e: "exponent2 x \<le> 53" by (intro exponent2_less) simp_all
  show ?thesis
  proof (cases "quantum x \<le> 0")
    case True
    let ?N = "n * 2 ^ nat (- quantum x)"
    have s: "(of_int n :: rat) / 2 powi quantum x = of_int ?N" by (rule scaled_int [OF True])
    have "x / 2 powi quantum x \<le> (of_int n :: rat) / 2 powi quantum x"
      using assms(2) p by (simp add: divide_right_mono)
    then have "x / 2 powi quantum x \<le> of_int ?N" by (simp only: s)
    from nearest_le [OF this] have g: "nearest x \<le> of_int ?N * 2 powi quantum x" .
    have h: "of_int ?N * 2 powi quantum x = (of_int n :: rat)"
    proof -
      have "of_int ?N * 2 powi quantum x = (of_int n :: rat) / 2 powi quantum x * 2 powi quantum x"
        by (simp only: s)
      also have "\<dots> = of_int n" using p by simp
      finally show ?thesis .
    qed
    from g show ?thesis unfolding h .
  next
    case False
    then have q1: "quantum x = 1" and e53: "exponent2 x = 53"
      using e by (auto simp add: quantum_def)
    have x1: "1 \<le> x"
    proof (rule ccontr)
      assume "\<not> 1 \<le> x"
      then have "exponent2 x \<le> 0" by (intro exponent2_small) simp
      with e53 show False by simp
    qed
    from exponent2_bounds [OF x1] have "(2::rat) powi 53 \<le> x" by (simp add: e53)
    with assms(2) n53 have x: "x = 2 ^ 53" by simp
    with assms(2) n53 have n: "(of_int n :: rat) = 2 ^ 53" by simp
    have "x / 2 powi quantum x = x / 2 powi 1" by (simp only: q1)
    also have "\<dots> = of_int (2 ^ 52)" by (simp add: x)
    finally have "x / 2 powi quantum x \<le> of_int (2 ^ 52)" by simp
    from nearest_le [OF this] have "nearest x \<le> 2 ^ 52 * 2 powi quantum x" by simp
    then show ?thesis by (simp add: q1 n)
  qed
qed

lemma nearest_below_2_62:
  assumes "0 < x" "x \<le> 2 ^ 62"
  shows "nearest x \<le> 2 ^ 62"
proof -
  have p: "(0::rat) < 2 powi quantum x" by simp
  have "x < 2 powi (62 + 1)" using assms(2) by simp
  then have e: "exponent2 x \<le> 62" by (intro exponent2_less) simp_all
  then have q: "quantum x \<le> 62" by (simp add: quantum_def)
  let ?N = "2 ^ nat (62 - quantum x) :: int"
  have N: "(of_int ?N :: rat) = 2 powi (62 - quantum x)"
    using q by (simp add: powi_of_int)
  have "(2::rat) powi 62 = 2 powi (62 - quantum x) * 2 powi quantum x"
    using powi_split [of "62 - quantum x" "quantum x"] by simp
  then have "(2::rat) powi 62 = of_int ?N * 2 powi quantum x" by (simp only: N)
  then have s: "(2::rat) ^ 62 = of_int ?N * 2 powi quantum x" by (simp only: power_int_numeral)
  then have "(2::rat) ^ 62 / 2 powi quantum x = of_int ?N * 2 powi quantum x / 2 powi quantum x"
    by (simp only:)
  also have "\<dots> = of_int ?N" using p by simp
  finally have "(2::rat) ^ 62 / 2 powi quantum x = of_int ?N" .
  moreover have "x / 2 powi quantum x \<le> 2 ^ 62 / 2 powi quantum x"
    using assms(2) p by (simp add: divide_right_mono)
  ultimately have "x / 2 powi quantum x \<le> of_int ?N" by simp
  from nearest_le [OF this] show ?thesis by (simp only: s)
qed

lemma float64_of_int_exact:
  assumes "\<bar>n\<bar> \<le> 2 ^ 53"
  shows "float64_of_rat (of_int n) = Finite (of_int n)"
proof -
  have pos: "nearest (of_int m) = of_int m \<and> nearest (of_int m) < 2 ^ 1024"
    if m: "1 \<le> m" "m \<le> 2 ^ 53" for m :: int
  proof -
    have "(0::rat) < of_int m" using m(1) by simp
    then have "nearest (of_int m) \<le> of_int m" using m(2) by (intro nearest_upper) simp_all
    moreover have "of_int m \<le> nearest (of_int m)" using m by (intro nearest_lower) simp_all
    ultimately have e: "nearest (of_int m) = of_int m" by simp
    have "(of_int m :: rat) \<le> of_int (2 ^ 53)" using m(2) by (simp only: of_int_le_iff)
    then have "(of_int m :: rat) < 2 ^ 1024" by simp
    with e show ?thesis by simp
  qed
  consider "n = 0" | "1 \<le> n" | "1 \<le> - n" by linarith
  then show ?thesis
  proof cases
    case 1
    then show ?thesis by (simp add: float64_of_rat_def)
  next
    case 2
    then have "\<bar>of_int n :: rat\<bar> = of_int n" by simp
    with pos [of n] 2 assms show ?thesis by (simp add: float64_of_rat_def)
  next
    case 3
    then have a: "\<bar>of_int n :: rat\<bar> = of_int (- n)" by simp
    from 3 have "\<not> (0::rat) < of_int n" "(of_int n :: rat) \<noteq> 0" by simp_all
    with pos [of "- n"] 3 assms show ?thesis by (simp add: float64_of_rat_def a)
  qed
qed

lemma float64_of_rat_pos:
  "0 < x \<Longrightarrow>
     float64_of_rat x = (if 2 ^ 1024 \<le> nearest x then PosInf else Finite (nearest x))"
  by (simp add: float64_of_rat_def)

lemma float64_mul_int_bounds:
  assumes "0 \<le> d" "d \<le> 2 ^ 53" "1 \<le> f" "of_int d * f \<le> 2 ^ 62"
  shows "\<exists>v. float64_mul (float64_of_rat (of_int d)) (Finite f) = Finite v
           \<and> of_int d \<le> v \<and> v \<le> 2 ^ 62"
proof (cases "d = 0")
  case True
  then show ?thesis by (simp add: float64_of_rat_def)
next
  case False
  with assms(1) have d1: "1 \<le> d" by simp
  let ?x = "of_int d * f"
  have c: "float64_of_rat (of_int d) = Finite (of_int d)"
    using assms(1,2) by (intro float64_of_int_exact) simp
  have ge: "of_int d \<le> ?x" using assms(1,3) by (simp add: mult_le_cancel_left1)
  have "(1::rat) \<le> of_int d" using d1 by simp
  with ge have x0: "0 < ?x" by linarith
  have lo: "of_int d \<le> nearest ?x" using d1 assms(2) ge by (rule nearest_lower)
  have hi: "nearest ?x \<le> 2 ^ 62" using x0 assms(4) by (rule nearest_below_2_62)
  then have "\<not> 2 ^ 1024 \<le> nearest ?x" by simp
  then have "float64_of_rat ?x = Finite (nearest ?x)"
    by (simp only: float64_of_rat_pos [OF x0] if_False)
  with lo hi show ?thesis by (simp add: c)
qed

subsection \<open>The backoff\<close>

lemma next_wait_bounds:
  assumes "Factor rc = Finite f" "1 \<le> f" "0 \<le> d" "d \<le> MaxWait rc"
    and "MaxWait rc \<le> 2 ^ 53" "of_int (MaxWait rc) * f \<le> 2 ^ 62"
  shows "d \<le> next_wait w rc d \<and> next_wait w rc d \<le> MaxWait rc"
proof -
  have d53: "d \<le> 2 ^ 53" using assms(4,5) by simp
  have "of_int d * f \<le> of_int (MaxWait rc) * f"
    using assms(2,4) by (intro mult_right_mono) auto
  then have b: "of_int d * f \<le> 2 ^ 62" using assms(6) by simp
  from float64_mul_int_bounds [OF assms(3) d53 assms(2) b] obtain v where
    v: "float64_mul (float64_of_rat (of_int d)) (Finite f) = Finite v"
    and lo: "of_int d \<le> v" and hi: "v \<le> 2 ^ 62" by blast
  have v0: "0 \<le> v" using lo assms(3) by (meson of_int_0_le_iff order_trans)
  have fl: "d \<le> \<lfloor>v\<rfloor>" using lo by (simp add: le_floor_iff)
  have "v < 2 ^ 63" using hi by simp
  then have "\<lfloor>v\<rfloor> < 2 ^ 63" by (simp add: floor_less_iff)
  moreover have "0 \<le> \<lfloor>v\<rfloor>" using v0 by simp
  ultimately have "to_Duration w (Finite v) = \<lfloor>v\<rfloor>"
    using v0 by (simp add: to_Duration_def Let_def)
  then show ?thesis
    using fl assms(1,4) v by (simp add: next_wait_def float64_of_int_def Let_def)
qed

lemma backoff_bounds:
  assumes "Factor rc = Finite f" "1 \<le> f" "0 \<le> InitialWait rc" "InitialWait rc \<le> MaxWait rc"
    and "MaxWait rc \<le> 2 ^ 53" "of_int (MaxWait rc) * f \<le> 2 ^ 62"
  shows "0 \<le> backoff w rc k \<and> backoff w rc k \<le> MaxWait rc"
proof (induction k)
  case 0
  show ?case using assms by simp
next
  case (Suc k)
  then show ?case
    using next_wait_bounds [OF assms(1,2) _ _ assms(5,6), of "backoff w rc k" w] by auto
qed

lemma backoff_step:
  assumes "Factor rc = Finite f" "1 \<le> f" "0 \<le> InitialWait rc" "InitialWait rc \<le> MaxWait rc"
    and "MaxWait rc \<le> 2 ^ 53" "of_int (MaxWait rc) * f \<le> 2 ^ 62"
  shows "backoff w rc k \<le> backoff w rc (Suc k)"
  using backoff_bounds [OF assms, of w k]
    next_wait_bounds [OF assms(1,2) _ _ assms(5,6), of "backoff w rc k" w]
  by auto

lemma backoff_mono:
  assumes "Factor rc = Finite f" "1 \<le> f" "0 \<le> InitialWait rc" "InitialWait rc \<le> MaxWait rc"
    and "MaxWait rc \<le> 2 ^ 53" "of_int (MaxWait rc) * f \<le> 2 ^ 62"
  shows "i \<le> j \<Longrightarrow> backoff w rc i \<le> backoff w rc j"
proof (induction j)
  case 0
  then show ?case by simp
next
  case (Suc j)
  show ?case
  proof (cases "i = Suc j")
    case True
    then show ?thesis by simp
  next
    case False
    with Suc have "backoff w rc i \<le> backoff w rc j" by simp
    also have "\<dots> \<le> backoff w rc (Suc j)" by (rule backoff_step [OF assms])
    finally show ?thesis .
  qed
qed

lemma sorted_backoff:
  assumes "Factor rc = Finite f" "1 \<le> f" "0 \<le> InitialWait rc" "InitialWait rc \<le> MaxWait rc"
    and "MaxWait rc \<le> 2 ^ 53" "of_int (MaxWait rc) * f \<le> 2 ^ 62"
  shows "sorted (map (backoff w rc) [0..<m])"
  by (simp add: sorted_iff_nth_mono backoff_mono [OF assms])

text \<open>
  The update of \<open>wait\<close> when the product is an integer of at most 53 bits: nothing
  is rounded.
\<close>

lemma next_wait_exact:
  assumes "Factor rc = Finite f" "\<bar>d\<bar> \<le> 2 ^ 53" "of_int d * f = of_int p" "\<bar>p\<bar> \<le> 2 ^ 53"
  shows "next_wait w rc d = (if p > MaxWait rc then MaxWait rc else p)"
proof -
  have a: "float64_of_rat (of_int d) = Finite (of_int d)"
    using assms(2) by (rule float64_of_int_exact)
  have b: "float64_of_rat (of_int p) = Finite (of_int p)"
    using assms(4) by (rule float64_of_int_exact)
  have r: "- (2 ^ 63) \<le> p \<and> p < 2 ^ 63" using assms(4) by auto
  have "to_Duration w (Finite (of_int p)) = p"
    using r by (simp add: to_Duration_def Let_def)
  then show ?thesis
    by (simp add: next_wait_def float64_of_int_def a assms(1,3) b Let_def)
qed

text \<open>
  Constants and updates that do round: the \<open>float64\<close> nearest to 1.2 and to 0.1.
  At 500 ms with the \<open>float64\<close> nearest to 1.2 as the factor the product rounds up
  to 600 ms.  Above \<open>2 ^ 53\<close> ns the conversion of \<open>wait\<close> itself rounds: with the
  factor 1 the wait goes down by one.
\<close>

lemma float64_of_rat_6_5:
  "float64_of_rat (6 / 5) = Finite (5404319552844595 / 4503599627370496)"
proof -
  have "exponent2 (6 / 5) = 0" by (rule exponent2_eqI) simp_all
  then show ?thesis
    by (simp add: float64_of_rat_def nearest_def quantum_def round_half_even_def Let_def
        floor_numeral_div)
qed

lemma float64_of_rat_1_10:
  "float64_of_rat (1 / 10) = Finite (3602879701896397 / 36028797018963968)"
proof -
  have "exponent2 (1 / 10) = - 4"
    by (simp add: exponent2_def log2_ceil_def log2_floor.simps)
  then show ?thesis
    by (simp add: float64_of_rat_def nearest_def quantum_def round_half_even_def Let_def
        floor_numeral_div)
qed

lemma next_wait_rounds_up:
  assumes "Factor rc = float64_of_rat (6 / 5)" "600000000 \<le> MaxWait rc"
  shows "next_wait w rc 500000000 = 600000000"
proof -
  have a: "float64_of_rat (of_int 500000000) = Finite (of_int 500000000)"
    by (rule float64_of_int_exact) simp
  have "exponent2 (500000000 * (5404319552844595 / 4503599627370496)) = 29"
    by (rule exponent2_eqI) simp_all
  then have "float64_mul (float64_of_rat (of_int 500000000)) (float64_of_rat (6 / 5)) =
      Finite 600000000"
    unfolding a float64_of_rat_6_5
    by (simp add: float64_of_rat_def nearest_def quantum_def round_half_even_def Let_def
        floor_numeral_div)
  then show ?thesis
    using assms by (simp add: next_wait_def float64_of_int_def to_Duration_def Let_def)
qed

lemma next_wait_rounds_down:
  assumes "Factor rc = Finite 1" "9007199254740992 \<le> MaxWait rc"
  shows "next_wait w rc 9007199254740993 = 9007199254740992"
proof -
  have "exponent2 9007199254740993 = 53" by (rule exponent2_eqI) simp_all
  then have a: "float64_of_rat (of_int 9007199254740993) = Finite 9007199254740992"
    by (simp add: float64_of_rat_def nearest_def quantum_def round_half_even_def Let_def
        floor_numeral_div)
  have "float64_of_rat (of_int 9007199254740992) = Finite (of_int 9007199254740992)"
    by (rule float64_of_int_exact) simp
  then have "float64_mul (float64_of_rat (of_int 9007199254740993)) (Finite 1) =
      Finite 9007199254740992"
    unfolding a by simp
  then show ?thesis
    using assms by (simp add: next_wait_def float64_of_int_def to_Duration_def Let_def)
qed

text \<open>
  At the largest \<open>int64\<close> the conversion of \<open>wait\<close> rounds up to \<open>2 ^ 63\<close>, which
  does not fit \<open>int64\<close>: with the factor 1 the new wait is what the platform gives.
\<close>

lemma next_wait_overflows:
  assumes "Factor rc = Finite 1"
  shows "next_wait w rc (2 ^ 63 - 1) =
     (if float_overflow w (Finite (2 ^ 63)) > MaxWait rc then MaxWait rc
      else float_overflow w (Finite (2 ^ 63)))"
proof -
  have "exponent2 9223372036854775807 = 62" by (rule exponent2_eqI) simp_all
  then have a: "float64_of_rat (of_int 9223372036854775807) = Finite 9223372036854775808"
    by (simp add: float64_of_rat_def nearest_def quantum_def round_half_even_def Let_def
        floor_numeral_div)
  have "exponent2 9223372036854775808 = 63" by (rule exponent2_eqI) simp_all
  then have b: "float64_of_rat 9223372036854775808 = Finite 9223372036854775808"
    by (simp add: float64_of_rat_def nearest_def quantum_def round_half_even_def Let_def
        floor_numeral_div)
  have "float64_mul (float64_of_rat (of_int 9223372036854775807)) (Finite 1) =
      Finite 9223372036854775808"
    unfolding a using b by simp
  then show ?thesis
    using assms by (simp add: next_wait_def float64_of_int_def to_Duration_def Let_def)
qed

subsection \<open>The provider clients\<close>

lemma openai_Complete_backend_error:
  assumes "openai_convert [] (Messages params) = Inr msgs"
    and "backend (openai_request conf params msgs) = Inl err"
  shows "openai_Complete conf backend latency now params =
           ([openai_request conf params msgs], Inl (openai_handleError conf err))"
  using assms by (simp add: openai_Complete_def openai_request_def)

lemma ollama_Complete_backend_error:
  assumes "parse (BaseURL (cfg_Ollama (LLMConfig conf))) = Inr u"
    and "ollama_convert [] (Messages params) = Inr msgs"
    and "backend (ollama_request conf msgs) = (resps, Some err)"
  shows "ollama_Complete conf parse backend latency now params =
           ([ollama_request conf msgs], Inl (ollama_handleError conf err))"
  using assms by (simp add: ollama_Complete_def ollama_request_def)

lemma openai_handleError_status:
  assumes "as_APIError err = Some (status, code)" "code \<notin> set openai_mapped_codes"
  shows "openai_handleError conf err =
     (if 500 \<le> status \<and> status < 600 then
        LLMError (Sentinel ErrServiceUnavailable) OpenAI (Name (CModel conf)) status code [] [] True
      else if status = 429 then
        LLMError (Sentinel ErrTooManyRequests) OpenAI (Name (CModel conf)) status code [] [] True
      else LLMError err OpenAI (Name (CModel conf)) status code [] [] False)"
  using assms by (simp add: openai_handleError_def openai_mapped_codes_def NewLLMError_def Let_def)

lemma ollama_handleError_status:
  assumes "as_StatusError err = Some (status, st, msg)"
  shows "ollama_handleError conf err =
     (if 500 \<le> status \<and> status < 600 then
        LLMError (Sentinel ErrServiceUnavailable) Ollama (Name (CModel conf)) status st msg [] True
      else if status = 429 then
        LLMError (Sentinel ErrTooManyRequests) Ollama (Name (CModel conf)) status st msg [] True
      else LLMError err Ollama (Name (CModel conf)) status st msg [] False)"
  using assms by (simp add: ollama_handleError_def NewLLMError_def Let_def)

lemma plain_role_cases:
  "Role (m :: Message) \<in> set plain_roles \<longleftrightarrow>
     Role m = RoleUser \<or> Role m = RoleAssistant \<or> Role m = RoleSystem"
  by (auto simp: plain_roles_def)

lemma known_role_cases:
  "Role (m :: Message) \<in> set known_roles \<longleftrightarrow>
     Role m = RoleUser \<or> Role m = RoleAssistant \<or> Role m = RoleSystem \<or> Role m = RoleFunction"
  by (auto simp: known_roles_def)

lemma ollama_convert_step:
  "Role m \<in> set plain_roles \<Longrightarrow>
   ollama_convert acc (m # ms) = ollama_convert (acc @ [ollama_message m]) ms"
  by (auto simp: plain_role_cases ollama_message_def RoleUser_def RoleAssistant_def RoleSystem_def)

lemma ollama_convert_stop:
  "Role m \<notin> set plain_roles \<Longrightarrow>
   ollama_convert acc (m # ms) = Inl (ErrorsNew (''unsupported role: '' @ Role m))"
  by (simp add: plain_role_cases)

lemma openai_convert_step:
  "Role m \<in> set known_roles \<Longrightarrow>
   openai_convert acc (m # ms) = openai_convert (acc @ [openai_message m]) ms"
  by (auto simp: known_role_cases openai_message_def)

lemma openai_convert_stop:
  "Role m \<notin> set known_roles \<Longrightarrow>
   openai_convert acc (m # ms) = Inl (ErrorsNew (''unsupported role: '' @ Role m))"
  by (simp add: known_role_cases)

lemma ollama_convert_eq:
  "ollama_convert acc msgs =
     (case find (\<lambda>m. Role m \<notin> set plain_roles) msgs of
        None \<Rightarrow> Inr (acc @ map ollama_message msgs)
      | Some m \<Rightarrow> Inl (ErrorsNew (''unsupported role: '' @ Role m)))"
proof (induction msgs arbitrary: acc)
  case Nil
  show ?case by simp
next
  case (Cons m ms)
  show ?case
  proof (cases "Role m \<in> set plain_roles")
    case True
    then show ?thesis
      by (simp only: ollama_convert_step [OF True] Cons.IH find.simps) (simp split: option.splits)
  next
    case False
    then show ?thesis
      by (simp only: ollama_convert_stop [OF False] find.simps) simp
  qed
qed

lemma openai_convert_eq:
  "openai_convert acc msgs =
     (case find (\<lambda>m. Role m \<notin> set known_roles) msgs of
        None \<Rightarrow> Inr (acc @ map openai_message msgs)
      | Some m \<Rightarrow> Inl (ErrorsNew (''unsupported role: '' @ Role m)))"
proof (induction msgs arbitrary: acc)
  case Nil
  show ?case by simp
next
  case (Cons m ms)
  show ?case
  proof (cases "Role m \<in> set known_roles")
    case True
    then show ?thesis
      by (simp only: openai_convert_step [OF True] Cons.IH find.simps) (simp split: option.splits)
  next
    case False
    then show ?thesis
      by (simp only: openai_convert_stop [OF False] find.simps) simp
  qed
qed

lemma find_None_all: "find P xs = None \<longleftrightarrow> (\<forall>x \<in> set xs. \<not> P x)"
  by (induction xs) auto

lemma openai_message_plain:
  "Role (m :: Message) \<in> set plain_roles \<Longrightarrow>
   wire_role (openai_message m) = Role m \<and> wire_content (openai_message m) = Content m"
  by (auto simp: plain_roles_def openai_message_def RoleUser_def RoleAssistant_def RoleSystem_def)

lemma openai_message_function:
  "Role (m :: Message) = RoleFunction \<Longrightarrow>
   openai_message m = UserMessage (''Function '' @ MsgName m @ '' returned: '' @ Content m)"
  by (simp add: openai_message_def RoleUser_def RoleAssistant_def RoleSystem_def RoleFunction_def)

lemma fst_openai_Complete_sent:
  "openai_convert [] (Messages params) = Inr msgs \<Longrightarrow>
   fst (openai_Complete conf backend latency now params) = [openai_request conf params msgs]"
  by (simp add: openai_Complete_def openai_request_def Let_def split: sum.splits list.splits)

lemma fst_ollama_Complete_sent:
  "parse (BaseURL (cfg_Ollama (LLMConfig conf))) = Inr u \<Longrightarrow>
   ollama_convert [] (Messages params) = Inr msgs \<Longrightarrow>
   fst (ollama_Complete conf parse server latency now params) = [ollama_request conf msgs]"
  by (simp add: ollama_Complete_def ollama_request_def Let_def split: sum.splits prod.splits option.splits)

subsection \<open>The registry\<close>

lemma providers_distinct: "OpenAI \<noteq> Ollama"
  by (simp add: OpenAI_def Ollama_def)

lemma set_registry_loop:
  "set (registry_loop config acc sm) =
     set acc \<union> {m \<in> fst ` set sm. Provider m = OpenAI \<or>
                   (Provider m = Ollama \<and> Ollama_IsConfigured (cfg_Ollama (cfg_LLM config)))}"
proof (induction config acc sm rule: registry_loop.induct)
  case (1 config acc)
  show ?case by simp
next
  case (2 config acc model uu rest)
  then show ?case using providers_distinct by (auto simp: image_iff)
qed

lemma keys_update: "fst ` set (AList.update k v al) = insert k (fst ` set al)"
  by (induction al) auto

lemma keys_RegisterLLM:
  "fst ` set (RegisterLLM constructor ms sm) = set ms \<union> fst ` set sm"
  by (induction ms arbitrary: sm) (auto simp: keys_update)

subsection \<open>The fallback loop\<close>

lemma run_failedE:
  assumes "run_failed r"
  obtains e where "outcome (snd r) = Returned (Inl e)"
  using assms by (auto simp: run_failed_def split: outcome.splits sum.splits)

lemma fallback_loop_cancelled:
  "fallback_ctx_Err fw i = Some e \<Longrightarrow>
   fallback_loop c sm fw params i (m # rest) err runs = (runs, Returned (Inl e))"
  by simp

lemma fallback_loop_step:
  assumes "fallback_ctx_Err fw i = None" and "Suc i < length ms"
  shows "fallback_loop c sm fw params i (drop (Suc i) ms) err runs =
     (case outcome (snd (model_run c sm fw params ms (Suc i))) of
        Panic \<Rightarrow> (runs @ [model_run c sm fw params ms (Suc i)], Panic)
      | Returned (Inr res) \<Rightarrow> (runs @ [model_run c sm fw params ms (Suc i)], Returned (Inr res))
      | Returned (Inl err') \<Rightarrow>
          fallback_loop c sm fw params (Suc i) (drop (Suc (Suc i)) ms) err'
            (runs @ [model_run c sm fw params ms (Suc i)]))"
proof -
  have d: "drop (Suc i) ms = ms ! Suc i # drop (Suc (Suc i)) ms"
    using assms(2) by (simp add: Cons_nth_drop_Suc)
  show ?thesis
    by (simp add: d assms(1) model_run_def Let_def split: outcome.splits sum.splits)
qed

lemma fallback_prefix:
  assumes "ms = primaryModel # fallbackModels" and "j < length ms"
    and "\<forall>k\<le>j. run_failed (model_run c sm fw params ms k)"
    and "\<forall>i<j. fallback_ctx_Err fw i = None"
  shows "\<exists>e. outcome (snd (model_run c sm fw params ms j)) = Returned (Inl e)
     \<and> CompleteWithFallback c sm fw params primaryModel fallbackModels =
        fallback_loop c sm fw params j (drop (Suc j) ms) e
          (map (model_run c sm fw params ms) [0..<Suc j])"
  using assms(2-4)
proof (induction j)
  case 0
  then have "run_failed (model_run c sm fw params ms 0)" by simp
  then obtain e where e: "outcome (snd (model_run c sm fw params ms 0)) = Returned (Inl e)"
    by (rule run_failedE)
  then have "CompleteWithFallback c sm fw params primaryModel fallbackModels =
        fallback_loop c sm fw params 0 (drop (Suc 0) ms) e
          (map (model_run c sm fw params ms) [0..<Suc 0])"
    by (simp add: CompleteWithFallback_def assms(1) model_run_def Let_def)
  with e show ?case by blast
next
  case (Suc j)
  then obtain e where e: "outcome (snd (model_run c sm fw params ms j)) = Returned (Inl e)"
    and eq: "CompleteWithFallback c sm fw params primaryModel fallbackModels =
        fallback_loop c sm fw params j (drop (Suc j) ms) e
          (map (model_run c sm fw params ms) [0..<Suc j])"
    by auto
  from Suc.prems have "run_failed (model_run c sm fw params ms (Suc j))" by simp
  then obtain e' where e': "outcome (snd (model_run c sm fw params ms (Suc j))) = Returned (Inl e')"
    by (rule run_failedE)
  have live: "fallback_ctx_Err fw j = None" using Suc.prems by simp
  have "fallback_loop c sm fw params j (drop (Suc j) ms) e
          (map (model_run c sm fw params ms) [0..<Suc j]) =
        fallback_loop c sm fw params (Suc j) (drop (Suc (Suc j)) ms) e'
          (map (model_run c sm fw params ms) [0..<Suc (Suc j)])"
    using fallback_loop_step [OF live Suc.prems(1), of c sm params e
        "map (model_run c sm fw params ms) [0..<Suc j]"]
    by (simp add: e')
  with eq e' show ?case by simp
qed

lemma run_failed_iff: "run_failed (m, r) \<longleftrightarrow> (\<exists>e. outcome r = Returned (Inl e))"
  by (auto simp: run_failed_def split: outcome.splits sum.splits)

subsection \<open>The scenarios\<close>

lemma retryConfig_module [simp]: "retryConfig (module_completer config) = DefaultRetryConfig"
  by (simp add: module_completer_def NewCompleter_def WithCompleterRetryConfig_def)

lemma cfg_module [simp]: "cfg (module_completer config) = config"
  by (simp add: module_completer_def NewCompleter_def WithCompleterRetryConfig_def)

lemma models_distinct: "ModelGPT4o \<noteq> ModelTinySwallow"
  by (simp add: ModelGPT4o_def ModelTinySwallow_def)

lemma init_client_gpt4o:
  "init_client (module_completer full_config) init_registrations ModelGPT4o =
     Inr (OpenAIClient (client_config ''sk-key'' ModelGPT4o))"
  using models_distinct
  by (simp add: init_client_def getAPIKeyFunc_def New_def init_registrations_def
      openai_New_def client_config_def full_config_def)
     (simp add: ModelGPT4o_def)

lemma openai_status_call:
  "llm_Complete (status_world status code) i (OpenAIClient (client_config key ModelGPT4o))
     review_params = Inl (openai_handleError (client_config key ModelGPT4o) (APIError status code))"
  by (simp add: llm_Complete.simps openai_Complete_def openai_request_def review_params_def status_world_def
      RoleSystem_def RoleUser_def RoleAssistant_def RoleFunction_def)

lemma handle_503:
  "openai_handleError (client_config key ModelGPT4o) (APIError 503 []) =
     LLMError (Sentinel ErrServiceUnavailable) ''openai'' ''gpt-4o'' 503 [] [] [] True"
  by (simp add: openai_handleError_def NewLLMError_def client_config_def ModelGPT4o_def OpenAI_def)

lemma retryConfig_with [simp]: "retryConfig (completer_with rc) = rc"
  by (simp add: completer_with_def NewCompleter_def WithCompleterRetryConfig_def)

lemma cfg_with [simp]: "cfg (completer_with rc) = full_config"
  by (simp add: completer_with_def NewCompleter_def WithCompleterRetryConfig_def)

lemma init_client_openai:
  "cfg c = full_config \<Longrightarrow>
   init_client c init_registrations ModelGPT4o =
     Inr (OpenAIClient (client_config ''sk-key'' ModelGPT4o))"
  using models_distinct
  by (simp add: init_client_def getAPIKeyFunc_def New_def init_registrations_def
      openai_New_def client_config_def full_config_def)
     (simp add: ModelGPT4o_def)

lemma init_client_ollama:
  "cfg c = full_config \<Longrightarrow>
   init_client c init_registrations ModelTinySwallow =
     Inr (OllamaClient (client_config [] ModelTinySwallow))"
  using models_distinct
  by (simp add: init_client_def getAPIKeyFunc_def New_def init_registrations_def
      ollama_New_def client_config_def full_config_def)
     (simp add: ModelTinySwallow_def Ollama_def OpenAI_def)

lemma not_cancelled_status [simp]: "not_cancelled (status_world status code) i"
  by (simp add: not_cancelled_def status_world_def)

lemma not_cancelled_reply [simp]: "not_cancelled (reply_world completion resps) i"
  by (simp add: not_cancelled_def reply_world_def)

lemma openai_reply_call:
  "llm_Complete (reply_world one_choice resps) i (OpenAIClient (client_config key ModelGPT4o))
     review_params = Inr one_choice_response"
  by (simp add: llm_Complete.simps openai_Complete_def openai_request_def review_params_def reply_world_def
      RoleSystem_def RoleUser_def RoleAssistant_def RoleFunction_def one_choice_def
      one_choice_response_def openai_choice_message_def client_config_def ModelGPT4o_def)

lemma ollama_empty_call:
  "llm_Complete (reply_world completion []) i (OllamaClient (client_config key ModelTinySwallow))
     review_params =
   Inr \<lparr>RMessages = [], RUsage = None,
        Metadata = \<lparr>ModelName = ''yottahmd/tiny-swallow-1.5b-instruct'', FinishReason = [],
          CompletionID = [], LatencyMs = 40, ProcessedAt = 0, RequestTokens = 0\<rparr>\<rparr>"
  by (simp add: llm_Complete.simps ollama_Complete_def ollama_request_def review_params_def reply_world_def
      RoleSystem_def RoleUser_def RoleAssistant_def RoleFunction_def
      client_config_def ModelTinySwallow_def)

lemma fails_retryably_503:
  "fails_retryably (status_world 503 []) (OpenAIClient (client_config key ModelGPT4o))
     review_params i"
  by (simp add: fails_retryably_def openai_status_call handle_503 isRetryableError_def)

lemma llm_Complete_cancelled_before:
  "llm_Complete (cancelled_before k e) i llm params = llm_Complete (status_world 503 []) i llm params"
  by (cases llm) (simp_all add: llm_Complete.simps cancelled_before_def)

lemma llm_Complete_cancelled_waiting:
  "llm_Complete (cancelled_waiting k e) i llm params = llm_Complete (status_world 503 []) i llm params"
  by (cases llm) (simp_all add: llm_Complete.simps cancelled_waiting_def)

lemma ollama_empty_response:
  "llm_Complete (reply_world completion []) i (OllamaClient (client_config key ModelTinySwallow))
     review_params = Inr empty_response"
  by (simp add: ollama_empty_call empty_response_def)

lemma openai_convert_review:
  "openai_convert [] (Messages review_params) =
     Inr [SystemMessage ''You review code.'', UserMessage ''review this'']"
  by (simp add: review_params_def RoleSystem_def RoleUser_def RoleAssistant_def)

lemma handle_quota:
  "openai_handleError (client_config key ModelGPT4o) (APIError 429 ''insufficient_quota'') =
     LLMError (ErrorsNew ''insufficient quota'') ''openai'' ''gpt-4o'' 429
       ''insufficient_quota'' [] [] False"
  by (simp add: openai_handleError_def NewLLMError_def client_config_def ModelGPT4o_def OpenAI_def)

lemma handle_rate_limit:
  "openai_handleError (client_config key ModelGPT4o) (APIError 429 ''rate_limit_exceeded'') =
     LLMError (Sentinel ErrRateLimited) ''openai'' ''gpt-4o'' 429
       ''rate_limit_exceeded'' [] [] True"
  by (simp add: openai_handleError_def NewLLMError_def client_config_def ModelGPT4o_def OpenAI_def)

lemma ollama_convert_review:
  "ollama_convert [] (Messages review_params) =
     Inr [\<lparr>am_Role = ''system'', am_Content = ''You review code.''\<rparr>,
          \<lparr>am_Role = ''user'', am_Content = ''review this''\<rparr>]"
  by (simp add: review_params_def RoleSystem_def RoleUser_def RoleAssistant_def)

lemma langfuse_module:
  "langfuse (module_completer full_config) = Some (NewClient full_config)"
  by (simp add: module_completer_def NewCompleter_def WithCompleterRetryConfig_def
      Langfuse_IsConfigured_def full_config_def)





lemma trace_goroutine_marshal_panics_reraised:
  "trace_goroutine (module_completer full_config) marshal_panics_reraised model params
     one_choice_response = ([LogError ''panic while sending trace events''], False)"
  by (simp add: trace_goroutine_def sendTraceEvents_def langfuse_module Ingest_def
      marshal_panics_reraised_def marshal_panics_def sink_status_def one_choice_response_def
      Let_def)

lemma find_tool_known:
  "find (\<lambda>m. Role m \<notin> set known_roles) (Messages tool_params) =
     Some \<lparr>Role = ''tool'', Content = ''no findings'', MsgName = [],
          MsgFinishReason = [], Completed = False\<rparr>"
  by (simp add: tool_params_def known_roles_def RoleUser_def RoleAssistant_def RoleSystem_def
      RoleFunction_def)

lemma find_function_plain:
  "find (\<lambda>m. Role m \<notin> set plain_roles) (Messages function_params) =
     Some \<lparr>Role = ''function'', Content = ''no findings'', MsgName = ''lint'',
          MsgFinishReason = [], Completed = False\<rparr>"
  by (simp add: function_params_def plain_roles_def RoleUser_def RoleAssistant_def RoleSystem_def
      RoleFunction_def)

lemma parse_id_full:
  "(\<lambda>s. Inr s) (BaseURL (cfg_Ollama (LLMConfig (client_config key model)))) =
      (Inr ''http://localhost:11434'' :: goerr + string)"
  by (simp add: client_config_def full_config_def)

lemma openai_call_401:
  "llm_Complete (status_world 401 ''invalid_api_key'') i
     (OpenAIClient (client_config key ModelGPT4o)) review_params = Inl openai_401"
  by (simp only: openai_status_call)
     (simp add: openai_401_def openai_handleError_def NewLLMError_def
      client_config_def ModelGPT4o_def OpenAI_def)

lemma status_line_401: "status_line 401 = ''401 Unauthorized''"
  by code_simp

lemma ollama_call_401:
  "llm_Complete (status_world 401 ''invalid_api_key'') i
     (OllamaClient (client_config key ModelTinySwallow)) review_params = Inl ollama_401"
  by (simp add: llm_Complete.simps ollama_Complete_def ollama_request_def status_world_def
      ollama_convert_review ollama_handleError_def NewLLMError_def ollama_401_def
      client_config_def ModelTinySwallow_def Ollama_def status_line_401)

lemma ollama_call_answer:
  "llm_Complete (reply_world completion one_answer) i
     (OllamaClient (client_config key ModelTinySwallow)) review_params = Inr one_answer_response"
  by (simp add: llm_Complete.simps ollama_Complete_def ollama_request_def reply_world_def ollama_convert_review
      one_answer_def one_answer_response_def ollama_response_message_def llmRole_def
      RoleAssistant_def client_config_def ModelTinySwallow_def)

lemma outcome_gpt_401:
  "outcome (Complete (module_completer full_config) init_registrations
      (status_world 401 ''invalid_api_key'') tw review_params ModelGPT4o) =
     Returned (Inl (Errorf ''all completion attempts failed'' openai_401))"
  using Complete_nonretryable [of "module_completer full_config" init_registrations ModelGPT4o
      "OpenAIClient (client_config ''sk-key'' ModelGPT4o)" 0
      "status_world 401 ''invalid_api_key''" review_params openai_401 tw]
  by (simp add: init_client_openai DefaultRetryConfig_def openai_call_401 openai_401_def
      isRetryableError_def)

lemma outcome_swallow_401:
  "outcome (Complete (module_completer full_config) init_registrations
      (status_world 401 ''invalid_api_key'') tw review_params ModelTinySwallow) =
     Returned (Inl (Errorf ''all completion attempts failed'' ollama_401))"
  using Complete_nonretryable [of "module_completer full_config" init_registrations
      ModelTinySwallow "OllamaClient (client_config [] ModelTinySwallow)" 0
      "status_world 401 ''invalid_api_key''" review_params ollama_401 tw]
  by (simp add: init_client_ollama DefaultRetryConfig_def ollama_call_401 ollama_401_def
      isRetryableError_def)

lemma outcome_swallow_answer:
  "outcome (Complete (module_completer full_config) init_registrations
      (reply_world completion one_answer) tw review_params ModelTinySwallow) =
     Returned (Inr one_answer_response)"
  using Complete_success [of "module_completer full_config" init_registrations
      ModelTinySwallow "OllamaClient (client_config [] ModelTinySwallow)" 0
      "reply_world completion one_answer" review_params one_answer_response tw]
  by (simp add: init_client_ollama DefaultRetryConfig_def ollama_call_answer
      one_answer_response_def)

lemma outcome_swallow_cancelled:
  "outcome (Complete (module_completer full_config) init_registrations
      (cancelled_before 0 e) tw review_params ModelTinySwallow) = Returned (Inl e)"
  using Complete_cancelled_before [of "module_completer full_config" init_registrations
      ModelTinySwallow "OllamaClient (client_config [] ModelTinySwallow)" 0
      "cancelled_before 0 e" review_params e tw]
  by (simp add: init_client_ollama DefaultRetryConfig_def cancelled_before_def)

lemma openai_deadline_call:
  "llm_Complete deadline_world i (OpenAIClient (client_config key ModelGPT4o)) review_params =
     Inl (LLMError (Errorf ''request failed'' (Sentinel DeadlineExceeded)) ''openai'' ''gpt-4o''
            0 [] [] [] False)"
  by (simp add: llm_Complete.simps openai_Complete_def openai_request_def review_params_def
      deadline_world_def status_world_def openai_handleError_def NewLLMError_def
      client_config_def ModelGPT4o_def OpenAI_def
      RoleSystem_def RoleUser_def RoleAssistant_def RoleFunction_def)

lemma not_cancelled_deadline [simp]: "not_cancelled deadline_world i"
  by (simp add: not_cancelled_def deadline_world_def status_world_def)

lemma getAPIKeyFunc_unknown:
  "getAPIKeyFunc c ''azure'' =
     Inl (ErrorsNew (''provider '' @ [CHR 0x22] @ ''azure'' @ [CHR 0x22] @ '' is not supported''))"
  by (simp add: getAPIKeyFunc_def OpenAI_def Ollama_def strconv_Quote_def quote_byte_def)

lemma run_world_scenario [simp]: "run_world (fallback_scenario ws cs) = ws"
  and run_telemetry_scenario [simp]: "run_telemetry (fallback_scenario ws cs) = (\<lambda>k. sink_status 200)"
  and fallback_ctx_Err_scenario [simp]: "fallback_ctx_Err (fallback_scenario ws cs) = cs"
  by (simp_all add: fallback_scenario_def)

subsection \<open>C1: retry with backoff\<close>

text \<open>
  Claim C1, as amended.  Let the client be built, \<open>MaxAttempts = n \<ge> 1\<close>, the context
  stay live, and each of the \<open>n\<close> calls of the client fail with an error of kind
  service unavailable or too many requests.  Then \<open>Complete\<close> makes exactly the
  calls \<open>0, \<dots>, n - 1\<close>; before each retry, and not before the first attempt, it
  waits the current \<open>wait\<close>, which starts at \<open>InitialWait\<close> and after each wait
  becomes \<open>time.Duration(float64(wait) * Factor)\<close> capped at \<open>MaxWait\<close>; it
  returns the last error wrapped as "all completion attempts failed".  When \<open>Factor\<close>
  is finite and at least 1, \<open>0 \<le> InitialWait \<le> MaxWait \<le> 2 ^ 53\<close> ns and
  \<open>MaxWait * Factor \<le> 2 ^ 62\<close> ns, as with the default policy, the waits are
  non-decreasing and at most \<open>MaxWait\<close>.
\<close>

theorem retry_until_exhausted:
  assumes "init_client c sm model = Inr llm"
    and "MaxAttempts (retryConfig c) = int n" and "0 < n"
    and "\<forall>i<n. not_cancelled w i"
    and "\<forall>i<n. fails_unavailable w llm params i"
  shows "events (Complete c sm w tw params model) = retry_events w (retryConfig c) n
    \<and> calls_of (events (Complete c sm w tw params model)) = [0..<n]
    \<and> waits_of (events (Complete c sm w tw params model)) =
        map (backoff w (retryConfig c)) [0..<n - 1]
    \<and> (1 < n \<longrightarrow> waits_of (events (Complete c sm w tw params model)) ! 0 =
          InitialWait (retryConfig c))
    \<and> (\<forall>i. Suc i < n - 1 \<longrightarrow>
          waits_of (events (Complete c sm w tw params model)) ! Suc i =
            next_wait w (retryConfig c)
              (waits_of (events (Complete c sm w tw params model)) ! i))
    \<and> (\<exists>e. llm_Complete w (n - 1) llm params = Inl e
         \<and> outcome (Complete c sm w tw params model) =
            Returned (Inl (Errorf ''all completion attempts failed'' e)))
    \<and> (Factor (retryConfig c) = Finite f \<and> 1 \<le> f
         \<and> 0 \<le> InitialWait (retryConfig c)
         \<and> InitialWait (retryConfig c) \<le> MaxWait (retryConfig c)
         \<and> MaxWait (retryConfig c) \<le> 2 ^ 53
         \<and> of_int (MaxWait (retryConfig c)) * f \<le> 2 ^ 62
       \<longrightarrow> sorted (waits_of (events (Complete c sm w tw params model)))
         \<and> (\<forall>d \<in> set (waits_of (events (Complete c sm w tw params model))).
               d \<le> MaxWait (retryConfig c)))"
proof -
  let ?rc = "retryConfig c"
  let ?R = "Complete c sm w tw params model"
  have pre: "\<forall>i<n. not_cancelled w i \<and> fails_retryably w llm params i"
    using assms(4,5) fails_unavailable_retryably by blast
  have "?R =
     (case attempt_loop ?rc w llm params n (wait_at w ?rc n)
             (vars_at w llm params n) (retry_events w ?rc n) of
        (tr, Inl e) \<Rightarrow>
          \<lparr>events = tr, outcome = Returned (Inl e), background = [], aborted = False\<rparr>
      | (tr, Inr vars) \<Rightarrow>
          \<lparr>events = tr, outcome = fst (after_loop c tw params model vars),
           background = fst (snd (after_loop c tw params model vars)),
           aborted = snd (snd (after_loop c tw params model vars))\<rparr>)"
    using assms(2) by (intro Complete_after_failures [OF assms(1) _ pre]) simp
  then have R: "?R = \<lparr>events = retry_events w ?rc n,
       outcome = fst (after_loop c tw params model (vars_at w llm params n)),
       background = fst (snd (after_loop c tw params model (vars_at w llm params n))),
       aborted = snd (snd (after_loop c tw params model (vars_at w llm params n)))\<rparr>"
    by (simp add: attempt_loop_exit assms(2))
  obtain m where n: "n = Suc m" using assms(3) by (cases n) auto
  from assms(5) n have "fails_unavailable w llm params m" by simp
  then obtain e where e: "llm_Complete w m llm params = Inl e"
    by (cases "llm_Complete w m llm params") (simp_all add: fails_unavailable_def)
  have ev: "events ?R = retry_events w ?rc n" by (simp add: R)
  have out: "outcome ?R = Returned (Inl (Errorf ''all completion attempts failed'' e))"
    by (simp add: R n vars_at_def vars_after_call_def e after_loop_def)
  have w: "waits_of (events ?R) = map (backoff w ?rc) [0..<n - 1]"
    by (simp only: ev waits_of_retry_events)
  have calls: "calls_of (events ?R) = [0..<n]"
    by (simp only: ev calls_of_retry_events)
  have first: "1 < n \<longrightarrow> waits_of (events ?R) ! 0 = InitialWait ?rc"
    unfolding w by simp
  have step: "\<forall>i. Suc i < n - 1 \<longrightarrow>
      waits_of (events ?R) ! Suc i = next_wait w ?rc (waits_of (events ?R) ! i)"
    unfolding w by simp
  have last: "\<exists>e. llm_Complete w (n - 1) llm params = Inl e
         \<and> outcome ?R = Returned (Inl (Errorf ''all completion attempts failed'' e))"
    using e out n by simp
  have mono: "sorted (waits_of (events ?R)) \<and> (\<forall>d \<in> set (waits_of (events ?R)). d \<le> MaxWait ?rc)"
    if h: "Factor ?rc = Finite f \<and> 1 \<le> f \<and> 0 \<le> InitialWait ?rc
      \<and> InitialWait ?rc \<le> MaxWait ?rc \<and> MaxWait ?rc \<le> 2 ^ 53
      \<and> of_int (MaxWait ?rc) * f \<le> 2 ^ 62"
    unfolding w using sorted_backoff [of ?rc f w] backoff_bounds [of ?rc f w] h by auto
  from ev calls w first step last mono show ?thesis by blast
qed

text \<open>
  Claim C1 as amended, at the default policy with the OpenAI client failing with a
  503 three times: three calls, waits of 500 ms and 750 ms, the last error wrapped.
\<close>

theorem retry_until_exhausted_witness:
  "init_client (module_completer full_config) init_registrations ModelGPT4o =
     Inr (OpenAIClient (client_config ''sk-key'' ModelGPT4o))
   \<and> MaxAttempts (retryConfig (module_completer full_config)) = 3
   \<and> (0::nat) < 3
   \<and> not_cancelled (status_world 503 []) 0
   \<and> not_cancelled (status_world 503 []) 1
   \<and> not_cancelled (status_world 503 []) 2
   \<and> fails_unavailable (status_world 503 [])
        (OpenAIClient (client_config ''sk-key'' ModelGPT4o)) review_params 0
   \<and> fails_unavailable (status_world 503 [])
        (OpenAIClient (client_config ''sk-key'' ModelGPT4o)) review_params 1
   \<and> fails_unavailable (status_world 503 [])
        (OpenAIClient (client_config ''sk-key'' ModelGPT4o)) review_params 2
   \<and> Factor (retryConfig (module_completer full_config)) = Finite (3 / 2)
   \<and> (1::rat) \<le> 3 / 2
   \<and> 0 \<le> InitialWait (retryConfig (module_completer full_config))
   \<and> InitialWait (retryConfig (module_completer full_config))
        \<le> MaxWait (retryConfig (module_completer full_config))
   \<and> MaxWait (retryConfig (module_completer full_config)) \<le> 2 ^ 53
   \<and> of_int (MaxWait (retryConfig (module_completer full_config))) * (3 / 2 :: rat) \<le> 2 ^ 62
   \<and> sorted (waits_of (events (Complete (module_completer full_config) init_registrations
        (status_world 503 []) (sink_status 200) review_params ModelGPT4o)))
   \<and> calls_of (events (Complete (module_completer full_config) init_registrations
        (status_world 503 []) (sink_status 200) review_params ModelGPT4o)) = [0, 1, 2]
   \<and> waits_of (events (Complete (module_completer full_config) init_registrations
        (status_world 503 []) (sink_status 200) review_params ModelGPT4o)) =
        [500000000, 750000000]
   \<and> next_wait (status_world 503 []) (retryConfig (module_completer full_config))
        500000000 = 750000000
   \<and> outcome (Complete (module_completer full_config) init_registrations
        (status_world 503 []) (sink_status 200) review_params ModelGPT4o) =
        Returned (Inl (Errorf ''all completion attempts failed''
          (LLMError (Sentinel ErrServiceUnavailable) ''openai'' ''gpt-4o'' 503 [] [] [] True)))"
proof -
  let ?c = "module_completer full_config"
  let ?w = "status_world 503 []"
  let ?llm = "OpenAIClient (client_config ''sk-key'' ModelGPT4o)"
  let ?R = "Complete ?c init_registrations ?w (sink_status 200) review_params ModelGPT4o"
  have h1: "init_client ?c init_registrations ModelGPT4o = Inr ?llm"
    by (rule init_client_gpt4o)
  have h2: "MaxAttempts (retryConfig ?c) = int 3"
    by (simp add: DefaultRetryConfig_def)
  have h3: "\<forall>i<3. not_cancelled ?w i"
    by (simp add: not_cancelled_def status_world_def)
  have h4: "\<forall>i<3. fails_unavailable ?w ?llm review_params i"
    by (simp add: fails_unavailable_def openai_status_call handle_503)
  have h0: "0 < (3::nat)" by simp
  note T = retry_until_exhausted [OF h1 h2 h0 h3 h4, of "sink_status 200" "3 / 2"]
  have nw: "next_wait ?w (retryConfig ?c) 500000000 = 750000000"
    using next_wait_exact [of "retryConfig ?c" "3 / 2" 500000000 750000000 ?w]
    by (simp add: DefaultRetryConfig_def)
  have b: "map (backoff ?w (retryConfig ?c)) [0..<3 - 1] = [500000000, 750000000]"
    using nw by (simp add: upt_rec DefaultRetryConfig_def)
  have u: "[0..<3] = [0, 1, 2::nat]" by (simp add: upt_rec)
  have l: "llm_Complete ?w (3 - 1) ?llm review_params =
      Inl (LLMError (Sentinel ErrServiceUnavailable) ''openai'' ''gpt-4o'' 503 [] [] [] True)"
    by (simp add: openai_status_call handle_503)
  from T have "calls_of (events ?R) = [0, 1, 2]" unfolding u by blast
  moreover from T have "waits_of (events ?R) = [500000000, 750000000]" unfolding b by blast
  moreover from T have "outcome ?R = Returned (Inl (Errorf ''all completion attempts failed''
          (LLMError (Sentinel ErrServiceUnavailable) ''openai'' ''gpt-4o'' 503 [] [] [] True)))"
    unfolding l by blast
  moreover have "MaxAttempts (retryConfig ?c) = 3" using h2 by simp
  moreover have m: "Factor (retryConfig ?c) = Finite (3 / 2) \<and> (1::rat) \<le> 3 / 2
      \<and> 0 \<le> InitialWait (retryConfig ?c)
      \<and> InitialWait (retryConfig ?c) \<le> MaxWait (retryConfig ?c)
      \<and> MaxWait (retryConfig ?c) \<le> 2 ^ 53
      \<and> of_int (MaxWait (retryConfig ?c)) * (3 / 2 :: rat) \<le> 2 ^ 62"
    by (simp add: DefaultRetryConfig_def)
  moreover from T m have "sorted (waits_of (events ?R))" by blast
  moreover have "not_cancelled ?w 0 \<and> not_cancelled ?w 1 \<and> not_cancelled ?w 2
      \<and> fails_unavailable ?w ?llm review_params 0
      \<and> fails_unavailable ?w ?llm review_params 1
      \<and> fails_unavailable ?w ?llm review_params 2"
    using h3 h4 by simp
  ultimately show ?thesis using h0 h1 nw by blast
qed

text \<open>
  Claim C1 fails as stated.  With the retry policy of the defaults but the factor
  \<open>0.5\<close>, which no code of the completer rejects, and every call of the client
  failing with a 503, \<open>Complete\<close> makes its three calls and the two waits between
  them are 500 ms and then 250 ms.
\<close>

theorem retry_until_exhausted_counterexample:
  "calls_of (events (Complete (completer_with (DefaultRetryConfig\<lparr>Factor := Finite (1 / 2)\<rparr>))
      init_registrations (status_world 503 []) (sink_status 200) review_params ModelGPT4o)) =
     [0, 1, 2]
   \<and> waits_of (events (Complete (completer_with (DefaultRetryConfig\<lparr>Factor := Finite (1 / 2)\<rparr>))
      init_registrations (status_world 503 []) (sink_status 200) review_params ModelGPT4o)) =
     [500000000, 250000000]
   \<and> \<not> sorted (waits_of (events (Complete
        (completer_with (DefaultRetryConfig\<lparr>Factor := Finite (1 / 2)\<rparr>))
        init_registrations (status_world 503 []) (sink_status 200) review_params ModelGPT4o)))"
proof -
  let ?rc = "DefaultRetryConfig\<lparr>Factor := Finite (1 / 2)\<rparr>"
  let ?llm = "OpenAIClient (client_config ''sk-key'' ModelGPT4o)"
  let ?w = "status_world 503 []"
  let ?R = "Complete (completer_with ?rc) init_registrations ?w (sink_status 200) review_params
      ModelGPT4o"
  have R: "?R =
     \<lparr>events = retry_events ?w ?rc (Suc 2),
      outcome = Returned (Inl (Errorf ''all completion attempts failed''
        (LLMError (Sentinel ErrServiceUnavailable) ''openai'' ''gpt-4o'' 503 [] [] [] True))),
      background = [], aborted = False\<rparr>"
    using Complete_exhausted [of "completer_with ?rc" init_registrations ModelGPT4o ?llm 2 ?w
        review_params _ "sink_status 200"]
    by (simp add: init_client_openai DefaultRetryConfig_def fails_retryably_503
        openai_status_call handle_503)
  have nw: "next_wait ?w ?rc 500000000 = 250000000"
    using next_wait_exact [of ?rc "1 / 2" 500000000 250000000 ?w]
    by (simp add: DefaultRetryConfig_def)
  have "waits_of (events ?R) = map (backoff ?w ?rc) [0..<Suc 2 - 1]"
    by (simp only: R completion.simps waits_of_retry_events)
  also have "\<dots> = [500000000, 250000000]"
    using nw by (simp add: upt_rec DefaultRetryConfig_def)
  finally have a: "waits_of (events ?R) = [500000000, 250000000]" .
  have "calls_of (events ?R) = [0..<Suc 2]"
    by (simp only: R completion.simps calls_of_retry_events)
  then have b: "calls_of (events ?R) = [0, 1, 2]" by (simp add: upt_rec)
  have c: "\<not> sorted (waits_of (events ?R))" unfolding a by simp
  from a b c show ?thesis by blast
qed

subsection \<open>C2: which errors are retried\<close>

text \<open>
  Claim C2, as amended.  Let the client be built and iteration \<open>k\<close> of the loop be
  reached with the context live, and let its call of the client fail with the error
  \<open>e\<close>.  The loop retries by its own predicate \<open>isRetryableError\<close>, which holds
  exactly of the errors that wrap \<open>ErrServiceUnavailable\<close>, \<open>ErrTooManyRequests\<close> or
  \<open>context.DeadlineExceeded\<close>; it reads neither the \<open>Retryable\<close> field of the error
  nor the exported \<open>IsRetryable\<close>.  The call \<open>k + 1\<close> is made if the predicate holds
  of \<open>e\<close>, an attempt is left and the context is still live; otherwise the calls
  \<open>0, \<dots>, k\<close> are all that is made.  When the predicate does not hold of \<open>e\<close>, as for
  an error of kind rate limited, timeout or model overloaded, \<open>e\<close> is returned
  wrapped as "all completion attempts failed".
\<close>

theorem retry_iff_retryable:
  assumes "init_client c sm model = Inr llm"
    and "int k < MaxAttempts (retryConfig c)"
    and "\<forall>i<k. not_cancelled w i \<and> fails_retryably w llm params i"
    and "not_cancelled w k"
    and "llm_Complete w k llm params = Inl e"
  shows "(isRetryableError e \<longleftrightarrow>
            errors_Is e ErrServiceUnavailable \<or> errors_Is e ErrTooManyRequests
            \<or> errors_Is e DeadlineExceeded)
    \<and> (errors_Is e ErrRateLimited \<or> errors_Is e ErrTimeout \<or> errors_Is e ErrModelOverloaded
        \<longrightarrow> \<not> isRetryableError e)
    \<and> (isRetryableError e \<and> int (Suc k) < MaxAttempts (retryConfig c)
          \<and> not_cancelled w (Suc k)
        \<longrightarrow> take (Suc (Suc k)) (calls_of (events (Complete c sm w tw params model))) =
              [0..<Suc (Suc k)])
    \<and> (\<not> (isRetryableError e \<and> int (Suc k) < MaxAttempts (retryConfig c)
              \<and> not_cancelled w (Suc k))
        \<longrightarrow> calls_of (events (Complete c sm w tw params model)) = [0..<Suc k])
    \<and> (\<not> isRetryableError e
        \<longrightarrow> outcome (Complete c sm w tw params model) =
              Returned (Inl (Errorf ''all completion attempts failed'' e)))"
proof -
  let ?rc = "retryConfig c"
  let ?R = "Complete c sm w tw params model"
  have d: "isRetryableError e \<longleftrightarrow>
      errors_Is e ErrServiceUnavailable \<or> errors_Is e ErrTooManyRequests
      \<or> errors_Is e DeadlineExceeded"
    by (simp add: isRetryableError_def)
  have kinds: "errors_Is e ErrRateLimited \<or> errors_Is e ErrTimeout
      \<or> errors_Is e ErrModelOverloaded \<longrightarrow> \<not> isRetryableError e"
    using errors_Is_unique [of e] by (auto simp: isRetryableError_def)
  have pre: "\<forall>i<Suc k. not_cancelled w i \<and> fails_retryably w llm params i"
    if r: "isRetryableError e"
    using assms(3,4,5) r by (auto simp: less_Suc_eq fails_retryably_def)
  have more: "take (Suc (Suc k)) (calls_of (events ?R)) = [0..<Suc (Suc k)]"
    if h: "isRetryableError e \<and> int (Suc k) < MaxAttempts ?rc \<and> not_cancelled w (Suc k)"
  proof -
    from h have r: "isRetryableError e" and lt: "int (Suc k) < MaxAttempts ?rc"
      and live: "not_cancelled w (Suc k)" by simp_all
    from Complete_retries [OF assms(1) lt pre [OF r] live, of tw] obtain rest where
      "events ?R = retry_events w ?rc (Suc (Suc k)) @ rest" by blast
    then have "calls_of (events ?R) = [0..<Suc (Suc k)] @ calls_of rest"
      by (simp only: calls_of_append calls_of_retry_events)
    then show ?thesis by simp
  qed
  have nr: "?R = \<lparr>events = retry_events w ?rc (Suc k),
      outcome = Returned (Inl (Errorf ''all completion attempts failed'' e)),
      background = [], aborted = False\<rparr>" if "\<not> isRetryableError e"
    using Complete_nonretryable [OF assms(1,2,3,4,5) that] .
  have stop: "calls_of (events ?R) = [0..<Suc k]"
    if h: "\<not> (isRetryableError e \<and> int (Suc k) < MaxAttempts ?rc \<and> not_cancelled w (Suc k))"
  proof (cases "isRetryableError e")
    case False
    from nr [OF False] have "events ?R = retry_events w ?rc (Suc k)" by simp
    then show ?thesis by (simp only: calls_of_retry_events)
  next
    case True
    show ?thesis
    proof (cases "int (Suc k) < MaxAttempts ?rc")
      case False
      with assms(2) have m: "MaxAttempts ?rc = int (Suc k)" by simp
      from Complete_exhausted [OF assms(1) m pre [OF True] assms(5), of tw]
      have "events ?R = retry_events w ?rc (Suc k)" by simp
      then show ?thesis by (simp only: calls_of_retry_events)
    next
      case lt: True
      with h True have nc: "\<not> not_cancelled w (Suc k)" by simp
      show ?thesis
      proof (cases "ctx_Err w (Suc k)")
        case (Some x)
        from Complete_cancelled_before [OF assms(1) lt pre [OF True] Some, of tw]
        have "events ?R = retry_events w ?rc (Suc k)" by simp
        then show ?thesis by (simp only: calls_of_retry_events)
      next
        case None
        with nc obtain x where x: "ctx_Done w (Suc k) = Some x"
          by (auto simp: not_cancelled_def)
        from Complete_cancelled_waiting [OF assms(1) lt pre [OF True] None x, of tw]
        have "events ?R = retry_events w ?rc (Suc k) @ [Wait (backoff w ?rc k)]" by simp
        then have "calls_of (events ?R) = [0..<Suc k] @ []"
          by (simp only: calls_of_append calls_of_retry_events calls_of.simps)
        then show ?thesis by simp
      qed
    qed
  qed
  have out: "outcome ?R = Returned (Inl (Errorf ''all completion attempts failed'' e))"
    if "\<not> isRetryableError e"
    using nr [OF that] by simp
  from d kinds more stop out show ?thesis by blast
qed

text \<open>
  Claim C2 as amended, at the default policy and the first call: an error of kind
  rate limited stops the loop; an error of kind service unavailable, and an error
  that wraps \<open>context.DeadlineExceeded\<close>, are followed by a second call.
\<close>

theorem retry_iff_retryable_witness:
  "init_client (module_completer full_config) init_registrations ModelGPT4o =
     Inr (OpenAIClient (client_config ''sk-key'' ModelGPT4o))
   \<and> int 0 < MaxAttempts (retryConfig (module_completer full_config))
   \<and> int (Suc 0) < MaxAttempts (retryConfig (module_completer full_config))
   \<and> not_cancelled (status_world 429 ''rate_limit_exceeded'') 0
   \<and> llm_Complete (status_world 429 ''rate_limit_exceeded'') 0
        (OpenAIClient (client_config ''sk-key'' ModelGPT4o)) review_params =
       Inl (LLMError (Sentinel ErrRateLimited) ''openai'' ''gpt-4o'' 429
              ''rate_limit_exceeded'' [] [] True)
   \<and> \<not> isRetryableError (LLMError (Sentinel ErrRateLimited) ''openai'' ''gpt-4o'' 429
              ''rate_limit_exceeded'' [] [] True)
   \<and> calls_of (events (Complete (module_completer full_config) init_registrations
        (status_world 429 ''rate_limit_exceeded'') (sink_status 200) review_params
        ModelGPT4o)) = [0]
   \<and> outcome (Complete (module_completer full_config) init_registrations
        (status_world 429 ''rate_limit_exceeded'') (sink_status 200) review_params
        ModelGPT4o) =
       Returned (Inl (Errorf ''all completion attempts failed''
         (LLMError (Sentinel ErrRateLimited) ''openai'' ''gpt-4o'' 429
            ''rate_limit_exceeded'' [] [] True)))
   \<and> not_cancelled (status_world 503 []) 0
   \<and> not_cancelled (status_world 503 []) (Suc 0)
   \<and> llm_Complete (status_world 503 []) 0
        (OpenAIClient (client_config ''sk-key'' ModelGPT4o)) review_params =
       Inl (LLMError (Sentinel ErrServiceUnavailable) ''openai'' ''gpt-4o'' 503 [] [] [] True)
   \<and> isRetryableError
        (LLMError (Sentinel ErrServiceUnavailable) ''openai'' ''gpt-4o'' 503 [] [] [] True)
   \<and> take 2 (calls_of (events (Complete (module_completer full_config) init_registrations
        (status_world 503 []) (sink_status 200) review_params ModelGPT4o))) = [0, 1]
   \<and> not_cancelled deadline_world 0
   \<and> not_cancelled deadline_world (Suc 0)
   \<and> llm_Complete deadline_world 0
        (OpenAIClient (client_config ''sk-key'' ModelGPT4o)) review_params =
       Inl (LLMError (Errorf ''request failed'' (Sentinel DeadlineExceeded)) ''openai''
              ''gpt-4o'' 0 [] [] [] False)
   \<and> isRetryableError
        (LLMError (Errorf ''request failed'' (Sentinel DeadlineExceeded)) ''openai''
              ''gpt-4o'' 0 [] [] [] False)
   \<and> take 2 (calls_of (events (Complete (module_completer full_config) init_registrations
        deadline_world (sink_status 200) review_params ModelGPT4o))) = [0, 1]"
proof -
  let ?c = "module_completer full_config"
  let ?llm = "OpenAIClient (client_config ''sk-key'' ModelGPT4o)"
  let ?q = "status_world 429 ''rate_limit_exceeded''"
  let ?s = "status_world 503 []"
  let ?e1 = "LLMError (Sentinel ErrRateLimited) ''openai'' ''gpt-4o'' 429
              ''rate_limit_exceeded'' [] [] True"
  let ?e2 = "LLMError (Sentinel ErrServiceUnavailable) ''openai'' ''gpt-4o'' 503 [] [] [] True"
  let ?e3 = "LLMError (Errorf ''request failed'' (Sentinel DeadlineExceeded)) ''openai''
              ''gpt-4o'' 0 [] [] [] False"
  have i: "init_client ?c init_registrations ModelGPT4o = Inr ?llm" by (rule init_client_gpt4o)
  have m0: "int 0 < MaxAttempts (retryConfig ?c)" by (simp add: DefaultRetryConfig_def)
  have m1: "int (Suc 0) < MaxAttempts (retryConfig ?c)" by (simp add: DefaultRetryConfig_def)
  have z: "\<forall>i<0. not_cancelled w i \<and> fails_retryably w ?llm review_params i" for w by simp
  have l1: "llm_Complete ?q 0 ?llm review_params = Inl ?e1"
    by (simp add: openai_status_call handle_rate_limit)
  have l2: "llm_Complete ?s 0 ?llm review_params = Inl ?e2"
    by (simp add: openai_status_call handle_503)
  have l3: "llm_Complete deadline_world 0 ?llm review_params = Inl ?e3"
    by (rule openai_deadline_call)
  have n1: "\<not> isRetryableError ?e1" by (simp add: isRetryableError_def)
  have r2: "isRetryableError ?e2" by (simp add: isRetryableError_def)
  have r3: "isRetryableError ?e3" by (simp add: isRetryableError_def)
  have c1: "not_cancelled ?q 0" by simp
  have c2: "not_cancelled ?s 0" "not_cancelled ?s (Suc 0)" by simp_all
  have c3: "not_cancelled deadline_world 0" "not_cancelled deadline_world (Suc 0)" by simp_all
  note A = retry_iff_retryable [OF i m0 z c1 l1, of "sink_status 200"]
  note B = retry_iff_retryable [OF i m0 z c2(1) l2, of "sink_status 200"]
  note C = retry_iff_retryable [OF i m0 z c3(1) l3, of "sink_status 200"]
  have u1: "[0..<Suc 0] = [0]" by simp
  have u2: "[0..<Suc (Suc 0)] = [0, 1]" by (simp add: upt_rec)
  have t2: "take (Suc (Suc 0)) xs = take 2 xs" for xs :: "nat list" by (simp add: numeral_2_eq_2)
  from A n1 have a1: "calls_of (events (Complete ?c init_registrations ?q (sink_status 200)
      review_params ModelGPT4o)) = [0]" unfolding u1 by blast
  from A n1 have a2: "outcome (Complete ?c init_registrations ?q (sink_status 200)
      review_params ModelGPT4o) =
      Returned (Inl (Errorf ''all completion attempts failed'' ?e1))" by blast
  from B r2 m1 c2(2) have b1: "take 2 (calls_of (events (Complete ?c init_registrations ?s
      (sink_status 200) review_params ModelGPT4o))) = [0, 1]" unfolding u2 t2 by blast
  from C r3 m1 c3(2) have d1: "take 2 (calls_of (events (Complete ?c init_registrations
      deadline_world (sink_status 200) review_params ModelGPT4o))) = [0, 1]"
    unfolding u2 t2 by blast
  from i m0 m1 c1 l1 n1 a1 a2 c2 l2 r2 b1 c3 l3 r3 d1 show ?thesis by blast
qed

text \<open>
  Claim C2 fails as stated.  When the OpenAI library reports a 429 whose error code is
  \<open>rate_limit_exceeded\<close>, the client returns an error of kind rate limited, with the
  \<open>Retryable\<close> field set, and the exported \<open>IsRetryable\<close> holds of it; the
  completer's \<open>isRetryableError\<close> does not, so with three attempts allowed
  \<open>Complete\<close> calls the client once.  Neither does \<open>isRetryableError\<close> hold of the
  timeout and model overloaded errors.
\<close>

theorem rate_limited_not_retried:
  "llm_Complete (status_world 429 ''rate_limit_exceeded'') 0
      (OpenAIClient (client_config ''sk-key'' ModelGPT4o)) review_params =
     Inl (LLMError (Sentinel ErrRateLimited) ''openai'' ''gpt-4o'' 429
            ''rate_limit_exceeded'' [] [] True)
   \<and> IsRetryable (LLMError (Sentinel ErrRateLimited) ''openai'' ''gpt-4o'' 429
            ''rate_limit_exceeded'' [] [] True)
   \<and> \<not> isRetryableError (LLMError (Sentinel ErrRateLimited) ''openai'' ''gpt-4o'' 429
            ''rate_limit_exceeded'' [] [] True)
   \<and> MaxAttempts (retryConfig (module_completer full_config)) = 3
   \<and> calls_of (events (Complete (module_completer full_config) init_registrations
        (status_world 429 ''rate_limit_exceeded'') (sink_status 200) review_params
        ModelGPT4o)) = [0]
   \<and> outcome (Complete (module_completer full_config) init_registrations
        (status_world 429 ''rate_limit_exceeded'') (sink_status 200) review_params
        ModelGPT4o) =
       Returned (Inl (Errorf ''all completion attempts failed''
         (LLMError (Sentinel ErrRateLimited) ''openai'' ''gpt-4o'' 429
            ''rate_limit_exceeded'' [] [] True)))
   \<and> IsRetryable (Sentinel ErrTimeout) \<and> \<not> isRetryableError (Sentinel ErrTimeout)
   \<and> IsRetryable (Sentinel ErrModelOverloaded)
   \<and> \<not> isRetryableError (Sentinel ErrModelOverloaded)"
proof -
  let ?llm = "OpenAIClient (client_config ''sk-key'' ModelGPT4o)"
  let ?q = "status_world 429 ''rate_limit_exceeded''"
  let ?e = "LLMError (Sentinel ErrRateLimited) ''openai'' ''gpt-4o'' 429
            ''rate_limit_exceeded'' [] [] True"
  have l: "llm_Complete ?q 0 ?llm review_params = Inl ?e"
    by (simp add: openai_status_call handle_rate_limit)
  have n: "\<not> isRetryableError ?e" by (simp add: isRetryableError_def)
  have "Complete (module_completer full_config) init_registrations ?q (sink_status 200)
      review_params ModelGPT4o =
     \<lparr>events = retry_events ?q DefaultRetryConfig (Suc 0),
      outcome = Returned (Inl (Errorf ''all completion attempts failed'' ?e)),
      background = [], aborted = False\<rparr>"
    using Complete_nonretryable [of "module_completer full_config" init_registrations
        ModelGPT4o ?llm 0 ?q review_params ?e "sink_status 200"]
    by (simp add: init_client_openai DefaultRetryConfig_def l n)
  then show ?thesis
    using l n by (simp add: IsRetryable_def isRetryableError_def DefaultRetryConfig_def)
qed

subsection \<open>C3: classification of status codes\<close>

text \<open>
  Claim C3, as amended.  The clients classify the error value their library hands
  them, not the HTTP response.  When that value carries an error of the library's own
  type with status code \<open>status\<close>, the Ollama client returns service unavailable with
  \<open>Retryable\<close> set for every status from 500 to 599 and too many requests with
  \<open>Retryable\<close> set for status 429, and the OpenAI client does the same whenever the
  error code is not one of the five codes it maps on their own.  Those five codes are
  mapped first, whatever the status: to context length exceeded, token limit reached,
  invalid API key, rate limited (the only one with \<open>Retryable\<close> set) and a fresh
  "insufficient quota" error.  An error value that carries no error of the library's
  type is returned wrapped and unclassified, with status 0 and \<open>Retryable\<close> not set.
\<close>

theorem status_classification:
  "(openai_convert [] (Messages params) = Inr msgs
      \<and> backend (openai_request conf params msgs) = Inl err
      \<and> as_APIError err = Some (status, code) \<and> code \<notin> set openai_mapped_codes
    \<longrightarrow> (500 \<le> status \<and> status < 600 \<longrightarrow>
           snd (openai_Complete conf backend latency now params) =
             Inl (LLMError (Sentinel ErrServiceUnavailable) OpenAI (Name (CModel conf))
                    status code [] [] True))
       \<and> (status = 429 \<longrightarrow>
           snd (openai_Complete conf backend latency now params) =
             Inl (LLMError (Sentinel ErrTooManyRequests) OpenAI (Name (CModel conf))
                    status code [] [] True)))
   \<and> (parse (BaseURL (cfg_Ollama (LLMConfig conf))) = Inr u
      \<and> ollama_convert [] (Messages params) = Inr omsgs
      \<and> server (ollama_request conf omsgs) = (resps, Some oerr)
      \<and> as_StatusError oerr = Some (status, st, msg)
    \<longrightarrow> (500 \<le> status \<and> status < 600 \<longrightarrow>
           snd (ollama_Complete conf parse server latency now params) =
             Inl (LLMError (Sentinel ErrServiceUnavailable) Ollama (Name (CModel conf))
                    status st msg [] True))
       \<and> (status = 429 \<longrightarrow>
           snd (ollama_Complete conf parse server latency now params) =
             Inl (LLMError (Sentinel ErrTooManyRequests) Ollama (Name (CModel conf))
                    status st msg [] True)))
   \<and> (openai_convert [] (Messages params) = Inr msgs
      \<and> backend (openai_request conf params msgs) = Inl err
      \<and> as_APIError err = Some (status, code)
    \<longrightarrow> (code = ''context_length_exceeded'' \<longrightarrow>
           snd (openai_Complete conf backend latency now params) =
             Inl (LLMError (Sentinel ErrContextLengthExceeded) OpenAI (Name (CModel conf))
                    status code [] [] False))
       \<and> (code = ''length'' \<longrightarrow>
           snd (openai_Complete conf backend latency now params) =
             Inl (LLMError (Sentinel ErrTokenLimitReached) OpenAI (Name (CModel conf))
                    status code [] [] False))
       \<and> (code = ''invalid_api_key'' \<longrightarrow>
           snd (openai_Complete conf backend latency now params) =
             Inl (LLMError (Sentinel ErrInvalidAPIKey) OpenAI (Name (CModel conf))
                    status code [] [] False))
       \<and> (code = ''rate_limit_exceeded'' \<longrightarrow>
           snd (openai_Complete conf backend latency now params) =
             Inl (LLMError (Sentinel ErrRateLimited) OpenAI (Name (CModel conf))
                    status code [] [] True))
       \<and> (code = ''insufficient_quota'' \<longrightarrow>
           snd (openai_Complete conf backend latency now params) =
             Inl (LLMError (ErrorsNew ''insufficient quota'') OpenAI (Name (CModel conf))
                    status code [] [] False)))
   \<and> (openai_convert [] (Messages params) = Inr msgs
      \<and> backend (openai_request conf params msgs) = Inl err
      \<and> as_APIError err = None
    \<longrightarrow> snd (openai_Complete conf backend latency now params) =
          Inl (LLMError err OpenAI (Name (CModel conf)) 0 [] [] [] False))
   \<and> (parse (BaseURL (cfg_Ollama (LLMConfig conf))) = Inr u
      \<and> ollama_convert [] (Messages params) = Inr omsgs
      \<and> server (ollama_request conf omsgs) = (resps, Some oerr)
      \<and> as_StatusError oerr = None
    \<longrightarrow> snd (ollama_Complete conf parse server latency now params) =
          Inl (LLMError oerr Ollama (Name (CModel conf)) 0 [] [] [] False))"
proof (intro conjI impI)
  assume a: "openai_convert [] (Messages params) = Inr msgs
      \<and> backend (openai_request conf params msgs) = Inl err
      \<and> as_APIError err = Some (status, code) \<and> code \<notin> set openai_mapped_codes"
  then have c: "snd (openai_Complete conf backend latency now params) =
      Inl (openai_handleError conf err)"
    by (simp add: openai_Complete_backend_error)
  note h = openai_handleError_status [of err status code conf]
  show "snd (openai_Complete conf backend latency now params) =
      Inl (LLMError (Sentinel ErrServiceUnavailable) OpenAI (Name (CModel conf))
             status code [] [] True)" if "500 \<le> status \<and> status < 600"
    using a that by (simp add: c h)
  show "snd (openai_Complete conf backend latency now params) =
      Inl (LLMError (Sentinel ErrTooManyRequests) OpenAI (Name (CModel conf))
             status code [] [] True)" if "status = 429"
    using a that by (simp add: c h)
next
  assume a: "parse (BaseURL (cfg_Ollama (LLMConfig conf))) = Inr u
      \<and> ollama_convert [] (Messages params) = Inr omsgs
      \<and> server (ollama_request conf omsgs) = (resps, Some oerr)
      \<and> as_StatusError oerr = Some (status, st, msg)"
  then have c: "snd (ollama_Complete conf parse server latency now params) =
      Inl (ollama_handleError conf oerr)"
    using ollama_Complete_backend_error [of parse conf u params omsgs server resps oerr latency now]
    by simp
  note h = ollama_handleError_status [of oerr status st msg conf]
  show "snd (ollama_Complete conf parse server latency now params) =
      Inl (LLMError (Sentinel ErrServiceUnavailable) Ollama (Name (CModel conf))
             status st msg [] True)" if "500 \<le> status \<and> status < 600"
    using a that by (simp add: c h)
  show "snd (ollama_Complete conf parse server latency now params) =
      Inl (LLMError (Sentinel ErrTooManyRequests) Ollama (Name (CModel conf))
             status st msg [] True)" if "status = 429"
    using a that by (simp add: c h)
next
  assume a: "openai_convert [] (Messages params) = Inr msgs
      \<and> backend (openai_request conf params msgs) = Inl err
      \<and> as_APIError err = Some (status, code)"
  then have c: "snd (openai_Complete conf backend latency now params) =
      Inl (openai_handleError conf err)"
    by (simp add: openai_Complete_backend_error)
  from a have h: "as_APIError err = Some (status, code)" by simp
  show "snd (openai_Complete conf backend latency now params) =
      Inl (LLMError (Sentinel ErrContextLengthExceeded) OpenAI (Name (CModel conf))
             status code [] [] False)" if "code = ''context_length_exceeded''"
    using that by (simp add: c h openai_handleError_def NewLLMError_def)
  show "snd (openai_Complete conf backend latency now params) =
      Inl (LLMError (Sentinel ErrTokenLimitReached) OpenAI (Name (CModel conf))
             status code [] [] False)" if "code = ''length''"
    using that by (simp add: c h openai_handleError_def NewLLMError_def)
  show "snd (openai_Complete conf backend latency now params) =
      Inl (LLMError (Sentinel ErrInvalidAPIKey) OpenAI (Name (CModel conf))
             status code [] [] False)" if "code = ''invalid_api_key''"
    using that by (simp add: c h openai_handleError_def NewLLMError_def)
  show "snd (openai_Complete conf backend latency now params) =
      Inl (LLMError (Sentinel ErrRateLimited) OpenAI (Name (CModel conf))
             status code [] [] True)" if "code = ''rate_limit_exceeded''"
    using that by (simp add: c h openai_handleError_def NewLLMError_def)
  show "snd (openai_Complete conf backend latency now params) =
      Inl (LLMError (ErrorsNew ''insufficient quota'') OpenAI (Name (CModel conf))
             status code [] [] False)" if "code = ''insufficient_quota''"
    using that by (simp add: c h openai_handleError_def NewLLMError_def)
next
  assume a: "openai_convert [] (Messages params) = Inr msgs
      \<and> backend (openai_request conf params msgs) = Inl err
      \<and> as_APIError err = None"
  then show "snd (openai_Complete conf backend latency now params) =
      Inl (LLMError err OpenAI (Name (CModel conf)) 0 [] [] [] False)"
    by (simp add: openai_Complete_backend_error openai_handleError_def NewLLMError_def)
next
  assume a: "parse (BaseURL (cfg_Ollama (LLMConfig conf))) = Inr u
      \<and> ollama_convert [] (Messages params) = Inr omsgs
      \<and> server (ollama_request conf omsgs) = (resps, Some oerr)
      \<and> as_StatusError oerr = None"
  then have "snd (ollama_Complete conf parse server latency now params) =
      Inl (ollama_handleError conf oerr)"
    using ollama_Complete_backend_error [of parse conf u params omsgs server resps oerr latency now]
    by simp
  with a show "snd (ollama_Complete conf parse server latency now params) =
      Inl (LLMError oerr Ollama (Name (CModel conf)) 0 [] [] [] False)"
    by (simp add: ollama_handleError_def NewLLMError_def)
qed

text \<open>
  Claim C3 as amended: a 503 and a 429 of the OpenAI library with codes the client
  does not map, a 502 and a 429 of the Ollama library, the code
  \<open>rate_limit_exceeded\<close> on a 429 and the code \<open>invalid_api_key\<close> on a 503, and for
  either client an error that is not of the library's type.
\<close>

theorem status_classification_witness:
  "openai_convert [] (Messages review_params) =
     Inr [SystemMessage ''You review code.'', UserMessage ''review this'']
   \<and> as_APIError (APIError 503 ''server_error'') = Some (503, ''server_error'')
   \<and> ''server_error'' \<notin> set openai_mapped_codes
   \<and> snd (openai_Complete (client_config ''sk-key'' ModelGPT4o)
        (\<lambda>req. Inl (APIError 503 ''server_error'')) 40 0 review_params) =
       Inl (LLMError (Sentinel ErrServiceUnavailable) ''openai'' ''gpt-4o'' 503
              ''server_error'' [] [] True)
   \<and> as_APIError (APIError 429 ''too_many'') = Some (429, ''too_many'')
   \<and> ''too_many'' \<notin> set openai_mapped_codes
   \<and> snd (openai_Complete (client_config ''sk-key'' ModelGPT4o)
        (\<lambda>req. Inl (APIError 429 ''too_many'')) 40 0 review_params) =
       Inl (LLMError (Sentinel ErrTooManyRequests) ''openai'' ''gpt-4o'' 429
              ''too_many'' [] [] True)
   \<and> ollama_convert [] (Messages review_params) =
       Inr [\<lparr>am_Role = ''system'', am_Content = ''You review code.''\<rparr>,
            \<lparr>am_Role = ''user'', am_Content = ''review this''\<rparr>]
   \<and> as_StatusError (StatusError 502 ''502 Bad Gateway'' ''upstream'') =
       Some (502, ''502 Bad Gateway'', ''upstream'')
   \<and> snd (ollama_Complete (client_config [] ModelTinySwallow) (\<lambda>s. Inr s)
        (\<lambda>req. ([], Some (StatusError 502 ''502 Bad Gateway'' ''upstream''))) 40 0
        review_params) =
       Inl (LLMError (Sentinel ErrServiceUnavailable) ''ollama''
              ''yottahmd/tiny-swallow-1.5b-instruct'' 502 ''502 Bad Gateway'' ''upstream''
              [] True)
   \<and> as_StatusError (StatusError 429 ''429 Too Many Requests'' ''busy'') =
       Some (429, ''429 Too Many Requests'', ''busy'')
   \<and> snd (ollama_Complete (client_config [] ModelTinySwallow) (\<lambda>s. Inr s)
        (\<lambda>req. ([], Some (StatusError 429 ''429 Too Many Requests'' ''busy''))) 40 0
        review_params) =
       Inl (LLMError (Sentinel ErrTooManyRequests) ''ollama''
              ''yottahmd/tiny-swallow-1.5b-instruct'' 429 ''429 Too Many Requests'' ''busy''
              [] True)
   \<and> as_APIError (APIError 429 ''rate_limit_exceeded'') = Some (429, ''rate_limit_exceeded'')
   \<and> snd (openai_Complete (client_config ''sk-key'' ModelGPT4o)
        (\<lambda>req. Inl (APIError 429 ''rate_limit_exceeded'')) 40 0 review_params) =
       Inl (LLMError (Sentinel ErrRateLimited) ''openai'' ''gpt-4o'' 429
              ''rate_limit_exceeded'' [] [] True)
   \<and> as_APIError (APIError 503 ''invalid_api_key'') = Some (503, ''invalid_api_key'')
   \<and> snd (openai_Complete (client_config ''sk-key'' ModelGPT4o)
        (\<lambda>req. Inl (APIError 503 ''invalid_api_key'')) 40 0 review_params) =
       Inl (LLMError (Sentinel ErrInvalidAPIKey) ''openai'' ''gpt-4o'' 503
              ''invalid_api_key'' [] [] False)
   \<and> as_APIError (Errorf ''request failed'' (Sentinel DeadlineExceeded)) = None
   \<and> snd (openai_Complete (client_config ''sk-key'' ModelGPT4o)
        (\<lambda>req. Inl (Errorf ''request failed'' (Sentinel DeadlineExceeded))) 40 0
        review_params) =
       Inl (LLMError (Errorf ''request failed'' (Sentinel DeadlineExceeded)) ''openai''
              ''gpt-4o'' 0 [] [] [] False)
   \<and> as_StatusError (Errorf ''unmarshal'' (ErrorsNew ''unexpected end of JSON input'')) = None
   \<and> snd (ollama_Complete (client_config [] ModelTinySwallow) (\<lambda>s. Inr s)
        (\<lambda>req. ([], Some (Errorf ''unmarshal'' (ErrorsNew ''unexpected end of JSON input''))))
        40 0 review_params) =
       Inl (LLMError (Errorf ''unmarshal'' (ErrorsNew ''unexpected end of JSON input''))
              ''ollama'' ''yottahmd/tiny-swallow-1.5b-instruct'' 0 [] [] [] False)"
proof -
  let ?oc = "client_config ''sk-key'' ModelGPT4o"
  let ?lc = "client_config [] ModelTinySwallow"
  let ?ms = "[SystemMessage ''You review code.'', UserMessage ''review this'']"
  let ?os = "[\<lparr>am_Role = ''system'', am_Content = ''You review code.''\<rparr>,
              \<lparr>am_Role = ''user'', am_Content = ''review this''\<rparr>]"
  have n1: "''server_error'' \<notin> set openai_mapped_codes" by (simp add: openai_mapped_codes_def)
  have n2: "''too_many'' \<notin> set openai_mapped_codes" by (simp add: openai_mapped_codes_def)
  have nm: "Name (CModel ?oc) = ''gpt-4o''" "Name (CModel ?lc) = ''yottahmd/tiny-swallow-1.5b-instruct''"
    by (simp_all add: client_config_def ModelGPT4o_def ModelTinySwallow_def)
  have pu: "(\<lambda>s. Inr s) (BaseURL (cfg_Ollama (LLMConfig ?lc))) =
      (Inr ''http://localhost:11434'' :: goerr + string)"
    by (simp add: client_config_def full_config_def)
  note A = status_classification [where params = review_params and msgs = ?ms
      and backend = "\<lambda>req. Inl (APIError 503 ''server_error'')" and conf = ?oc
      and err = "APIError 503 ''server_error''" and status = 503 and code = "''server_error''"
      and latency = 40 and now = 0]
  note B = status_classification [where params = review_params and msgs = ?ms
      and backend = "\<lambda>req. Inl (APIError 429 ''too_many'')" and conf = ?oc
      and err = "APIError 429 ''too_many''" and status = 429 and code = "''too_many''"
      and latency = 40 and now = 0]
  note C = status_classification [where params = review_params and omsgs = ?os
      and parse = "\<lambda>s. Inr s" and u = "''http://localhost:11434''"
      and server = "\<lambda>req. ([], Some (StatusError 502 ''502 Bad Gateway'' ''upstream''))"
      and conf = ?lc and resps = "[]"
      and oerr = "StatusError 502 ''502 Bad Gateway'' ''upstream''" and status = 502
      and st = "''502 Bad Gateway''" and msg = "''upstream''" and latency = 40 and now = 0]
  note D = status_classification [where params = review_params and omsgs = ?os
      and parse = "\<lambda>s. Inr s" and u = "''http://localhost:11434''"
      and server = "\<lambda>req. ([], Some (StatusError 429 ''429 Too Many Requests'' ''busy''))"
      and conf = ?lc and resps = "[]"
      and oerr = "StatusError 429 ''429 Too Many Requests'' ''busy''" and status = 429
      and st = "''429 Too Many Requests''" and msg = "''busy''" and latency = 40 and now = 0]
  have a: "snd (openai_Complete ?oc (\<lambda>req. Inl (APIError 503 ''server_error'')) 40 0
      review_params) = Inl (LLMError (Sentinel ErrServiceUnavailable) ''openai'' ''gpt-4o'' 503
              ''server_error'' [] [] True)"
    using A n1 by (simp add: openai_convert_review nm OpenAI_def)
  have b: "snd (openai_Complete ?oc (\<lambda>req. Inl (APIError 429 ''too_many'')) 40 0
      review_params) = Inl (LLMError (Sentinel ErrTooManyRequests) ''openai'' ''gpt-4o'' 429
              ''too_many'' [] [] True)"
    using B n2 by (simp add: openai_convert_review nm OpenAI_def)
  have c: "snd (ollama_Complete ?lc (\<lambda>s. Inr s)
        (\<lambda>req. ([], Some (StatusError 502 ''502 Bad Gateway'' ''upstream''))) 40 0
        review_params) =
       Inl (LLMError (Sentinel ErrServiceUnavailable) ''ollama''
              ''yottahmd/tiny-swallow-1.5b-instruct'' 502 ''502 Bad Gateway'' ''upstream''
              [] True)"
    using C pu by (simp add: ollama_convert_review nm Ollama_def)
  have d: "snd (ollama_Complete ?lc (\<lambda>s. Inr s)
        (\<lambda>req. ([], Some (StatusError 429 ''429 Too Many Requests'' ''busy''))) 40 0
        review_params) =
       Inl (LLMError (Sentinel ErrTooManyRequests) ''ollama''
              ''yottahmd/tiny-swallow-1.5b-instruct'' 429 ''429 Too Many Requests'' ''busy''
              [] True)"
    using D pu by (simp add: ollama_convert_review nm Ollama_def)
  note E = status_classification [where params = review_params and msgs = ?ms
      and backend = "\<lambda>req. Inl (APIError 429 ''rate_limit_exceeded'')" and conf = ?oc
      and err = "APIError 429 ''rate_limit_exceeded''" and status = 429
      and code = "''rate_limit_exceeded''" and latency = 40 and now = 0]
  note F = status_classification [where params = review_params and msgs = ?ms
      and backend = "\<lambda>req. Inl (APIError 503 ''invalid_api_key'')" and conf = ?oc
      and err = "APIError 503 ''invalid_api_key''" and status = 503
      and code = "''invalid_api_key''" and latency = 40 and now = 0]
  note G = status_classification [where params = review_params and msgs = ?ms
      and backend = "\<lambda>req. Inl (Errorf ''request failed'' (Sentinel DeadlineExceeded))"
      and conf = ?oc and err = "Errorf ''request failed'' (Sentinel DeadlineExceeded)"
      and latency = 40 and now = 0]
  note H = status_classification [where params = review_params and omsgs = ?os
      and parse = "\<lambda>s. Inr s" and u = "''http://localhost:11434''"
      and server = "\<lambda>req. ([], Some (Errorf ''unmarshal''
        (ErrorsNew ''unexpected end of JSON input'')))"
      and conf = ?lc and resps = "[]"
      and oerr = "Errorf ''unmarshal'' (ErrorsNew ''unexpected end of JSON input'')"
      and latency = 40 and now = 0]
  have e: "snd (openai_Complete ?oc (\<lambda>req. Inl (APIError 429 ''rate_limit_exceeded'')) 40 0
      review_params) = Inl (LLMError (Sentinel ErrRateLimited) ''openai'' ''gpt-4o'' 429
              ''rate_limit_exceeded'' [] [] True)"
    using E by (simp add: openai_convert_review nm OpenAI_def)
  have f: "snd (openai_Complete ?oc (\<lambda>req. Inl (APIError 503 ''invalid_api_key'')) 40 0
      review_params) = Inl (LLMError (Sentinel ErrInvalidAPIKey) ''openai'' ''gpt-4o'' 503
              ''invalid_api_key'' [] [] False)"
    using F by (simp add: openai_convert_review nm OpenAI_def)
  have g: "snd (openai_Complete ?oc
      (\<lambda>req. Inl (Errorf ''request failed'' (Sentinel DeadlineExceeded))) 40 0
      review_params) =
      Inl (LLMError (Errorf ''request failed'' (Sentinel DeadlineExceeded)) ''openai''
              ''gpt-4o'' 0 [] [] [] False)"
    using G by (simp add: openai_convert_review nm OpenAI_def)
  have h: "snd (ollama_Complete ?lc (\<lambda>s. Inr s)
        (\<lambda>req. ([], Some (Errorf ''unmarshal'' (ErrorsNew ''unexpected end of JSON input''))))
        40 0 review_params) =
       Inl (LLMError (Errorf ''unmarshal'' (ErrorsNew ''unexpected end of JSON input''))
              ''ollama'' ''yottahmd/tiny-swallow-1.5b-instruct'' 0 [] [] [] False)"
    using H pu by (simp add: ollama_convert_review nm Ollama_def)
  show ?thesis
    using a b c d e f g h n1 n2 openai_convert_review ollama_convert_review by simp
qed

text \<open>
  Claim C3 fails as stated.  For a 429 that carries the code \<open>insufficient_quota\<close>
  the OpenAI client returns an error that is not of kind too many requests and whose
  \<open>Retryable\<close> field is not set.  When the Ollama library returns an error that is
  not an \<open>api.StatusError\<close>, as it does for a response whose body it cannot decode,
  whatever the status of the response, the Ollama client returns an error that is not
  of kind service unavailable and whose \<open>Retryable\<close> field is not set.
\<close>

theorem status_classification_counterexample:
  "snd (openai_Complete (client_config ''sk-key'' ModelGPT4o)
        (\<lambda>req. Inl (APIError 429 ''insufficient_quota'')) 40 0 review_params) =
     Inl (LLMError (ErrorsNew ''insufficient quota'') ''openai'' ''gpt-4o'' 429
            ''insufficient_quota'' [] [] False)
   \<and> \<not> errors_Is (LLMError (ErrorsNew ''insufficient quota'') ''openai'' ''gpt-4o'' 429
            ''insufficient_quota'' [] [] False) ErrTooManyRequests
   \<and> \<not> IsRetryable (LLMError (ErrorsNew ''insufficient quota'') ''openai'' ''gpt-4o'' 429
            ''insufficient_quota'' [] [] False)
   \<and> snd (ollama_Complete (client_config [] ModelTinySwallow) (\<lambda>s. Inr s)
        (\<lambda>req. ([], Some (Errorf ''unmarshal'' (ErrorsNew ''unexpected end of JSON input''))))
        40 0 review_params) =
       Inl (LLMError (Errorf ''unmarshal'' (ErrorsNew ''unexpected end of JSON input''))
              ''ollama'' ''yottahmd/tiny-swallow-1.5b-instruct'' 0 [] [] [] False)
   \<and> \<not> errors_Is (LLMError (Errorf ''unmarshal'' (ErrorsNew ''unexpected end of JSON input''))
              ''ollama'' ''yottahmd/tiny-swallow-1.5b-instruct'' 0 [] [] [] False)
          ErrServiceUnavailable
   \<and> \<not> IsRetryable (LLMError (Errorf ''unmarshal'' (ErrorsNew ''unexpected end of JSON input''))
              ''ollama'' ''yottahmd/tiny-swallow-1.5b-instruct'' 0 [] [] [] False)"
proof -
  have a: "snd (openai_Complete (client_config ''sk-key'' ModelGPT4o)
        (\<lambda>req. Inl (APIError 429 ''insufficient_quota'')) 40 0 review_params) =
     Inl (LLMError (ErrorsNew ''insufficient quota'') ''openai'' ''gpt-4o'' 429
            ''insufficient_quota'' [] [] False)"
    using openai_Complete_backend_error [of review_params
        "[SystemMessage ''You review code.'', UserMessage ''review this'']"
        "\<lambda>req. Inl (APIError 429 ''insufficient_quota'')" "client_config ''sk-key'' ModelGPT4o"
        "APIError 429 ''insufficient_quota''" 40 0]
    by (simp add: openai_convert_review handle_quota)
  have b: "snd (ollama_Complete (client_config [] ModelTinySwallow) (\<lambda>s. Inr s)
        (\<lambda>req. ([], Some (Errorf ''unmarshal'' (ErrorsNew ''unexpected end of JSON input''))))
        40 0 review_params) =
       Inl (LLMError (Errorf ''unmarshal'' (ErrorsNew ''unexpected end of JSON input''))
              ''ollama'' ''yottahmd/tiny-swallow-1.5b-instruct'' 0 [] [] [] False)"
    by (simp add: ollama_Complete_def ollama_request_def ollama_convert_review
        ollama_handleError_def NewLLMError_def client_config_def full_config_def
        ModelTinySwallow_def Ollama_def)
  show ?thesis by (simp add: a b IsRetryable_def)
qed

subsection \<open>C4: cancellation\<close>

text \<open>
  Claim C4.  Let the client be built and the first \<open>k\<close> iterations each fail with a
  retried error under a live context, with \<open>k\<close> below \<open>MaxAttempts\<close>.  If the
  context is found cancelled at the top of iteration \<open>k\<close>, or is cancelled during the
  wait of iteration \<open>k\<close>, then \<open>Complete\<close> returns the context's error as it is, and
  the client was called in the iterations before \<open>k\<close> only.
\<close>

theorem cancellation_aborts:
  assumes "init_client c sm model = Inr llm"
    and "int k < MaxAttempts (retryConfig c)"
    and "\<forall>i<k. not_cancelled w i \<and> fails_retryably w llm params i"
  shows "(ctx_Err w k = Some e \<longrightarrow>
            outcome (Complete c sm w tw params model) = Returned (Inl e)
          \<and> calls_of (events (Complete c sm w tw params model)) = [0..<k]
          \<and> waits_of (events (Complete c sm w tw params model)) =
               map (backoff w (retryConfig c)) [0..<k - 1])
       \<and> (ctx_Err w k = None \<and> 0 < k \<and> ctx_Done w k = Some e \<longrightarrow>
            outcome (Complete c sm w tw params model) = Returned (Inl e)
          \<and> calls_of (events (Complete c sm w tw params model)) = [0..<k]
          \<and> waits_of (events (Complete c sm w tw params model)) =
               map (backoff w (retryConfig c)) [0..<k])"
proof (intro conjI impI)
  assume a: "ctx_Err w k = Some e"
  note R = Complete_cancelled_before [OF assms a, of tw]
  show "outcome (Complete c sm w tw params model) = Returned (Inl e)"
    by (simp add: R)
  show "calls_of (events (Complete c sm w tw params model)) = [0..<k]"
    by (simp add: R calls_of_retry_events)
  show "waits_of (events (Complete c sm w tw params model)) =
          map (backoff w (retryConfig c)) [0..<k - 1]"
    by (simp add: R waits_of_retry_events)
next
  assume a: "ctx_Err w k = None \<and> 0 < k \<and> ctx_Done w k = Some e"
  then obtain j where k: "k = Suc j" by (cases k) auto
  note R = Complete_cancelled_waiting [OF assms(1) assms(2) [unfolded k] assms(3) [unfolded k],
      of e tw] 
  have R': "Complete c sm w tw params model =
     \<lparr>events = retry_events w (retryConfig c) (Suc j) @ [Wait (backoff w (retryConfig c) j)],
      outcome = Returned (Inl e), background = [], aborted = False\<rparr>"
    using R a k by simp
  show "outcome (Complete c sm w tw params model) = Returned (Inl e)"
    by (simp add: R')
  show "calls_of (events (Complete c sm w tw params model)) = [0..<k]"
    by (simp only: R' k completion.simps calls_of_append calls_of_retry_events) simp
  show "waits_of (events (Complete c sm w tw params model)) =
          map (backoff w (retryConfig c)) [0..<k]"
    by (simp only: R' k completion.simps waits_of_append waits_of_retry_events) simp
qed

text \<open>
  Claim C4 at the default policy with a first answer of 503: the context cancelled
  before the second attempt, and the deadline passing during the wait for it.
\<close>

theorem cancellation_aborts_witness:
  "init_client (module_completer full_config) init_registrations ModelGPT4o =
     Inr (OpenAIClient (client_config ''sk-key'' ModelGPT4o))
   \<and> int 1 < MaxAttempts (retryConfig (module_completer full_config))
   \<and> not_cancelled (cancelled_before 1 (Sentinel Canceled)) 0
   \<and> fails_retryably (cancelled_before 1 (Sentinel Canceled))
        (OpenAIClient (client_config ''sk-key'' ModelGPT4o)) review_params 0
   \<and> ctx_Err (cancelled_before 1 (Sentinel Canceled)) 1 = Some (Sentinel Canceled)
   \<and> outcome (Complete (module_completer full_config) init_registrations
        (cancelled_before 1 (Sentinel Canceled)) (sink_status 200) review_params ModelGPT4o) =
        Returned (Inl (Sentinel Canceled))
   \<and> calls_of (events (Complete (module_completer full_config) init_registrations
        (cancelled_before 1 (Sentinel Canceled)) (sink_status 200) review_params ModelGPT4o)) = [0]
   \<and> not_cancelled (cancelled_waiting 1 (Sentinel DeadlineExceeded)) 0
   \<and> fails_retryably (cancelled_waiting 1 (Sentinel DeadlineExceeded))
        (OpenAIClient (client_config ''sk-key'' ModelGPT4o)) review_params 0
   \<and> ctx_Err (cancelled_waiting 1 (Sentinel DeadlineExceeded)) 1 = None
   \<and> ctx_Done (cancelled_waiting 1 (Sentinel DeadlineExceeded)) 1 =
        Some (Sentinel DeadlineExceeded)
   \<and> outcome (Complete (module_completer full_config) init_registrations
        (cancelled_waiting 1 (Sentinel DeadlineExceeded)) (sink_status 200) review_params
        ModelGPT4o) = Returned (Inl (Sentinel DeadlineExceeded))
   \<and> calls_of (events (Complete (module_completer full_config) init_registrations
        (cancelled_waiting 1 (Sentinel DeadlineExceeded)) (sink_status 200) review_params
        ModelGPT4o)) = [0]
   \<and> waits_of (events (Complete (module_completer full_config) init_registrations
        (cancelled_waiting 1 (Sentinel DeadlineExceeded)) (sink_status 200) review_params
        ModelGPT4o)) = [500000000]"
proof -
  let ?c = "module_completer full_config"
  let ?llm = "OpenAIClient (client_config ''sk-key'' ModelGPT4o)"
  let ?wb = "cancelled_before 1 (Sentinel Canceled)"
  let ?ww = "cancelled_waiting 1 (Sentinel DeadlineExceeded)"
  have h1: "init_client ?c init_registrations ModelGPT4o = Inr ?llm"
    by (simp add: init_client_openai)
  have h2: "int 1 < MaxAttempts (retryConfig ?c)" by (simp add: DefaultRetryConfig_def)
  have b0: "not_cancelled ?wb 0" by (simp add: not_cancelled_def cancelled_before_def)
  have b1: "fails_retryably ?wb ?llm review_params 0"
    using fails_retryably_503 [of "''sk-key''" 0]
    by (simp add: fails_retryably_def llm_Complete_cancelled_before)
  have b2: "ctx_Err ?wb 1 = Some (Sentinel Canceled)" by (simp add: cancelled_before_def)
  have w0: "not_cancelled ?ww 0" by (simp add: not_cancelled_def cancelled_waiting_def)
  have w1: "fails_retryably ?ww ?llm review_params 0"
    using fails_retryably_503 [of "''sk-key''" 0]
    by (simp add: fails_retryably_def llm_Complete_cancelled_waiting)
  have w2: "ctx_Err ?ww 1 = None" by (simp add: cancelled_waiting_def)
  have w3: "ctx_Done ?ww 1 = Some (Sentinel DeadlineExceeded)"
    by (simp add: cancelled_waiting_def)
  have pb: "\<forall>i<1. not_cancelled ?wb i \<and> fails_retryably ?wb ?llm review_params i"
    using b0 b1 by simp
  have pw: "\<forall>i<1. not_cancelled ?ww i \<and> fails_retryably ?ww ?llm review_params i"
    using w0 w1 by simp
  note Tb = cancellation_aborts [OF h1 h2 pb, of "Sentinel Canceled" "sink_status 200"]
  note Tw = cancellation_aborts [OF h1 h2 pw, of "Sentinel DeadlineExceeded" "sink_status 200"]
  have u: "[0..<1] = [0::nat]" by simp
  have bw: "map (backoff ?ww (retryConfig ?c)) [0] = [500000000]"
    by (simp add: DefaultRetryConfig_def)
  from Tb b2 have rb: "outcome (Complete ?c init_registrations ?wb (sink_status 200) review_params
      ModelGPT4o) = Returned (Inl (Sentinel Canceled))
    \<and> calls_of (events (Complete ?c init_registrations ?wb (sink_status 200) review_params
      ModelGPT4o)) = [0]" unfolding u by blast
  from Tw w2 w3 have rw: "outcome (Complete ?c init_registrations ?ww (sink_status 200)
      review_params ModelGPT4o) = Returned (Inl (Sentinel DeadlineExceeded))
    \<and> calls_of (events (Complete ?c init_registrations ?ww (sink_status 200) review_params
      ModelGPT4o)) = [0]
    \<and> waits_of (events (Complete ?c init_registrations ?ww (sink_status 200) review_params
      ModelGPT4o)) = [500000000]" unfolding u bw by blast
  from h1 h2 b0 b1 b2 w0 w1 w2 w3 rb rw show ?thesis by blast
qed

subsection \<open>C5: no success without messages\<close>

text \<open>
  Claim C5.  \<open>Complete\<close> never returns a nil error together with a response without
  messages.  When the client's call that ends the loop succeeds with an empty
  \<open>Messages\<close>, \<open>Complete\<close> returns \<open>ErrNoMessages\<close>.  The OpenAI client itself
  returns \<open>ErrNoMessages\<close> when the service answers with no choices, and a client
  error that is \<open>ErrNoMessages\<close> is not retried: \<open>Complete\<close> returns it, wrapped as
  "all completion attempts failed", and \<open>errors.Is\<close> still finds \<open>ErrNoMessages\<close>.
\<close>

theorem no_empty_success:
  "(\<forall>r. outcome (Complete c sm w tw params model) = Returned (Inr r) \<longrightarrow> RMessages r \<noteq> [])
   \<and> (init_client c sm model = Inr llm \<and> int k < MaxAttempts (retryConfig c)
       \<and> (\<forall>i<k. not_cancelled w i \<and> fails_retryably w llm params i)
       \<and> not_cancelled w k
       \<and> llm_Complete w k llm params = Inr res \<and> RMessages res = []
      \<longrightarrow> outcome (Complete c sm w tw params model) = Returned (Inl (Sentinel ErrNoMessages)))
   \<and> (openai_convert [] (Messages params) = Inr msgs
       \<and> backend (openai_request conf params msgs) = Inr completion
       \<and> cc_Choices completion = []
      \<longrightarrow> snd (openai_Complete conf backend latency now params) = Inl (Sentinel ErrNoMessages))
   \<and> (init_client c sm model = Inr llm \<and> int k < MaxAttempts (retryConfig c)
       \<and> (\<forall>i<k. not_cancelled w i \<and> fails_retryably w llm params i)
       \<and> not_cancelled w k
       \<and> llm_Complete w k llm params = Inl err \<and> errors_Is err ErrNoMessages
      \<longrightarrow> outcome (Complete c sm w tw params model) =
            Returned (Inl (Errorf ''all completion attempts failed'' err))
          \<and> errors_Is (Errorf ''all completion attempts failed'' err) ErrNoMessages)"
proof (intro conjI allI impI)
  fix r
  assume a: "outcome (Complete c sm w tw params model) = Returned (Inr r)"
  show "RMessages r \<noteq> []"
  proof (cases "init_client c sm model")
    case (Inl e)
    with a show ?thesis by (simp add: Complete_def)
  next
    case (Inr llm')
    obtain tr x where l: "attempt_loop (retryConfig c) w llm' params 0
        (InitialWait (retryConfig c)) (None, None, None) [] = (tr, x)"
      by (cases "attempt_loop (retryConfig c) w llm' params 0
        (InitialWait (retryConfig c)) (None, None, None) []")
    show ?thesis
    proof (cases x)
      case (Inl e)
      with a Inr l show ?thesis by (simp add: Complete_def)
    next
      case v: (Inr vars)
      with a Inr l show ?thesis
        by (auto simp: Complete_def after_loop_def split: option.splits if_splits prod.splits)
    qed
  qed
next
  assume "init_client c sm model = Inr llm \<and> int k < MaxAttempts (retryConfig c)
       \<and> (\<forall>i<k. not_cancelled w i \<and> fails_retryably w llm params i)
       \<and> not_cancelled w k
       \<and> llm_Complete w k llm params = Inr res \<and> RMessages res = []"
  then show "outcome (Complete c sm w tw params model) = Returned (Inl (Sentinel ErrNoMessages))"
    using Complete_success [of c sm model llm k w params res tw] by simp
next
  assume "openai_convert [] (Messages params) = Inr msgs
       \<and> backend (openai_request conf params msgs) = Inr completion
       \<and> cc_Choices completion = []"
  then show "snd (openai_Complete conf backend latency now params) = Inl (Sentinel ErrNoMessages)"
    by (simp add: openai_Complete_def openai_request_def)
next
  assume a: "init_client c sm model = Inr llm \<and> int k < MaxAttempts (retryConfig c)
       \<and> (\<forall>i<k. not_cancelled w i \<and> fails_retryably w llm params i)
       \<and> not_cancelled w k
       \<and> llm_Complete w k llm params = Inl err \<and> errors_Is err ErrNoMessages"
  then have "\<not> isRetryableError err"
    using errors_Is_unique [of err ErrNoMessages] by (auto simp: isRetryableError_def)
  with a show "outcome (Complete c sm w tw params model) =
      Returned (Inl (Errorf ''all completion attempts failed'' err))"
    using Complete_nonretryable [of c sm model llm k w params err tw] by simp
  from a show "errors_Is (Errorf ''all completion attempts failed'' err) ErrNoMessages"
    by simp
qed

text \<open>
  Claim C5 at a successful call, at an Ollama server that streams no response, and at
  an OpenAI completion without choices.
\<close>

theorem no_empty_success_witness:
  "outcome (Complete (module_completer full_config) init_registrations
      (reply_world one_choice []) (sink_status 200) review_params ModelGPT4o) =
      Returned (Inr one_choice_response)
   \<and> RMessages one_choice_response \<noteq> []
   \<and> init_client (module_completer full_config) init_registrations ModelTinySwallow =
       Inr (OllamaClient (client_config [] ModelTinySwallow))
   \<and> int 0 < MaxAttempts (retryConfig (module_completer full_config))
   \<and> not_cancelled (reply_world no_choice []) 0
   \<and> llm_Complete (reply_world no_choice []) 0
        (OllamaClient (client_config [] ModelTinySwallow)) review_params = Inr empty_response
   \<and> RMessages empty_response = []
   \<and> outcome (Complete (module_completer full_config) init_registrations
        (reply_world no_choice []) (sink_status 200) review_params ModelTinySwallow) =
       Returned (Inl (Sentinel ErrNoMessages))
   \<and> openai_convert [] (Messages review_params) =
       Inr [SystemMessage ''You review code.'', UserMessage ''review this'']
   \<and> cc_Choices no_choice = []
   \<and> snd (openai_Complete (client_config ''sk-key'' ModelGPT4o) (\<lambda>req. Inr no_choice) 40 0
        review_params) = Inl (Sentinel ErrNoMessages)
   \<and> init_client (module_completer full_config) init_registrations ModelGPT4o =
       Inr (OpenAIClient (client_config ''sk-key'' ModelGPT4o))
   \<and> llm_Complete (reply_world no_choice []) 0
        (OpenAIClient (client_config ''sk-key'' ModelGPT4o)) review_params =
       Inl (Sentinel ErrNoMessages)
   \<and> errors_Is (Sentinel ErrNoMessages) ErrNoMessages
   \<and> outcome (Complete (module_completer full_config) init_registrations
        (reply_world no_choice []) (sink_status 200) review_params ModelGPT4o) =
       Returned (Inl (Errorf ''all completion attempts failed'' (Sentinel ErrNoMessages)))"
proof -
  let ?c = "module_completer full_config"
  let ?w = "reply_world one_choice []"
  let ?v = "reply_world no_choice []"
  let ?o = "OllamaClient (client_config [] ModelTinySwallow)"
  let ?g = "OpenAIClient (client_config ''sk-key'' ModelGPT4o)"
  let ?ms = "[SystemMessage ''You review code.'', UserMessage ''review this'']"
  have s: "Complete ?c init_registrations ?w (sink_status 200) review_params ModelGPT4o =
     \<lparr>events = retry_events ?w (retryConfig ?c) (Suc 0),
      outcome = Returned (Inr one_choice_response),
      background = fst (trace_goroutine ?c (sink_status 200) ModelGPT4o review_params
        one_choice_response),
      aborted = snd (trace_goroutine ?c (sink_status 200) ModelGPT4o review_params
        one_choice_response)\<rparr>"
    using Complete_success [of ?c init_registrations ModelGPT4o ?g 0 ?w review_params
        one_choice_response "sink_status 200"]
    by (simp add: init_client_openai openai_reply_call DefaultRetryConfig_def
        one_choice_response_def)
  have o1: "outcome (Complete ?c init_registrations ?w (sink_status 200) review_params
      ModelGPT4o) = Returned (Inr one_choice_response)"
    by (simp add: s)
  have h1: "init_client ?c init_registrations ModelTinySwallow = Inr ?o"
    by (simp add: init_client_ollama)
  have h1': "init_client ?c init_registrations ModelGPT4o = Inr ?g"
    by (simp add: init_client_openai)
  have h2: "int 0 < MaxAttempts (retryConfig ?c)" by (simp add: DefaultRetryConfig_def)
  have h3: "\<forall>i<0. not_cancelled ?v i \<and> fails_retryably ?v ?o review_params i" by simp
  have h3': "\<forall>i<0. not_cancelled ?v i \<and> fails_retryably ?v ?g review_params i" by simp
  have h4: "not_cancelled ?v 0" by simp
  have h5: "llm_Complete ?v 0 ?o review_params = Inr empty_response"
    by (rule ollama_empty_response)
  have h6: "RMessages empty_response = []" by (simp add: empty_response_def)
  have g1: "openai_convert [] (Messages review_params) = Inr ?ms"
    by (rule openai_convert_review)
  have g2: "(\<lambda>req. Inr no_choice)
      (openai_request (client_config ''sk-key'' ModelGPT4o) review_params ?ms) =
      (Inr no_choice :: goerr + ChatCompletion)"
    by simp
  have g3: "cc_Choices no_choice = []" by (simp add: no_choice_def)
  have k1: "llm_Complete ?v 0 ?g review_params = Inl (Sentinel ErrNoMessages)"
    by (simp add: llm_Complete.simps openai_Complete_def openai_request_def reply_world_def g1 no_choice_def)
  have k2: "errors_Is (Sentinel ErrNoMessages) ErrNoMessages" by simp
  note T = no_empty_success [where c = ?c and sm = init_registrations and w = ?w
      and tw = "sink_status 200" and params = review_params and model = ModelGPT4o]
  note T2 = no_empty_success [where c = ?c and sm = init_registrations and w = ?v
      and tw = "sink_status 200" and params = review_params and model = ModelTinySwallow
      and llm = ?o and k = 0 and res = empty_response and msgs = ?ms
      and backend = "\<lambda>req. Inr no_choice" and conf = "client_config ''sk-key'' ModelGPT4o"
      and completion = no_choice and latency = 40 and now = 0]
  note T3 = no_empty_success [where c = ?c and sm = init_registrations and w = ?v
      and tw = "sink_status 200" and params = review_params and model = ModelGPT4o
      and llm = ?g and k = 0 and err = "Sentinel ErrNoMessages"]
  from T o1 have r1: "RMessages one_choice_response \<noteq> []" by blast
  from T2 h1 h2 h3 h4 h5 h6 have r2: "outcome (Complete ?c init_registrations ?v
      (sink_status 200) review_params ModelTinySwallow) = Returned (Inl (Sentinel ErrNoMessages))"
    by blast
  from T2 g1 g2 g3 have r3: "snd (openai_Complete (client_config ''sk-key'' ModelGPT4o)
      (\<lambda>req. Inr no_choice) 40 0 review_params) = Inl (Sentinel ErrNoMessages)"
    by blast
  from T3 h1' h2 h3' h4 k1 k2 have r4: "outcome (Complete ?c init_registrations ?v
      (sink_status 200) review_params ModelGPT4o) =
      Returned (Inl (Errorf ''all completion attempts failed'' (Sentinel ErrNoMessages)))"
    by blast
  from o1 r1 h1 h2 h4 h5 h6 r2 g1 g3 r3 h1' k1 k2 r4 show ?thesis by blast
qed

subsection \<open>C6: fallback order\<close>

text \<open>
  Claim C6.  Write the models as the list that starts with the primary model and goes
  on with the fallbacks in the order given.  \<open>CompleteWithFallback\<close> calls
  \<open>Complete\<close> on them in that order, checking the context before each fallback, so
  a fallback that is called, and so can fail or succeed, found the context live at
  its check.  If a model succeeds after all models before it failed, the calls made
  are exactly those up to that model and its response is returned.  If all \<open>N + 1\<close>
  models fail, exactly \<open>N + 1\<close> calls are made, in order, and the last model's error
  is returned wrapped as "all models failed" (the primary's when there is no
  fallback).  The cancellation check itself is the third part: if the context is found
  cancelled before a fallback, that fallback and the later ones are not called and the
  context's error is returned as it is.
\<close>

theorem fallback_order:
  assumes "ms = primaryModel # fallbackModels"
  shows "(j < length ms \<and> (\<forall>k<j. run_failed (model_run c sm fw params ms k))
          \<and> (\<forall>i<j. fallback_ctx_Err fw i = None)
          \<and> outcome (snd (model_run c sm fw params ms j)) = Returned (Inr res)
        \<longrightarrow> CompleteWithFallback c sm fw params primaryModel fallbackModels =
              (map (model_run c sm fw params ms) [0..<Suc j], Returned (Inr res)))
     \<and> ((\<forall>k<length ms. run_failed (model_run c sm fw params ms k))
          \<and> (\<forall>i<length fallbackModels. fallback_ctx_Err fw i = None)
        \<longrightarrow> (\<exists>e. outcome (snd (model_run c sm fw params ms (length fallbackModels))) =
                   Returned (Inl e)
              \<and> CompleteWithFallback c sm fw params primaryModel fallbackModels =
                  (map (model_run c sm fw params ms) [0..<Suc (length fallbackModels)],
                   Returned (Inl (Errorf ''all models failed'' e)))))
     \<and> (n < length fallbackModels \<and> (\<forall>k\<le>n. run_failed (model_run c sm fw params ms k))
          \<and> (\<forall>i<n. fallback_ctx_Err fw i = None)
          \<and> fallback_ctx_Err fw n = Some cancel
        \<longrightarrow> CompleteWithFallback c sm fw params primaryModel fallbackModels =
              (map (model_run c sm fw params ms) [0..<Suc n], Returned (Inl cancel)))"
proof (intro conjI impI)
  assume a: "j < length ms \<and> (\<forall>k<j. run_failed (model_run c sm fw params ms k))
          \<and> (\<forall>i<j. fallback_ctx_Err fw i = None)
          \<and> outcome (snd (model_run c sm fw params ms j)) = Returned (Inr res)"
  show "CompleteWithFallback c sm fw params primaryModel fallbackModels =
              (map (model_run c sm fw params ms) [0..<Suc j], Returned (Inr res))"
  proof (cases j)
    case 0
    with a show ?thesis
      by (simp add: CompleteWithFallback_def assms model_run_def Let_def)
  next
    case (Suc j')
    have l: "j' < length ms" using a Suc by simp
    have f: "\<forall>k\<le>j'. run_failed (model_run c sm fw params ms k)" using a Suc by simp
    have g: "\<forall>i<j'. fallback_ctx_Err fw i = None" using a Suc by simp
    from fallback_prefix [OF assms l f g] obtain e where
      eq: "CompleteWithFallback c sm fw params primaryModel fallbackModels =
        fallback_loop c sm fw params j' (drop (Suc j') ms) e
          (map (model_run c sm fw params ms) [0..<Suc j'])"
      by blast
    have live: "fallback_ctx_Err fw j' = None" using a Suc by simp
    have lt: "Suc j' < length ms" using a Suc by simp
    show ?thesis
      using a Suc
      by (simp add: eq fallback_loop_step [OF live lt])
  qed
next
  assume a: "(\<forall>k<length ms. run_failed (model_run c sm fw params ms k))
          \<and> (\<forall>i<length fallbackModels. fallback_ctx_Err fw i = None)"
  let ?N = "length fallbackModels"
  have l: "?N < length ms" by (simp add: assms)
  have f: "\<forall>k\<le>?N. run_failed (model_run c sm fw params ms k)" using a assms by simp
  have g: "\<forall>i<?N. fallback_ctx_Err fw i = None" using a by simp
  from fallback_prefix [OF assms l f g] obtain e where
    e: "outcome (snd (model_run c sm fw params ms ?N)) = Returned (Inl e)" and
    eq: "CompleteWithFallback c sm fw params primaryModel fallbackModels =
      fallback_loop c sm fw params ?N (drop (Suc ?N) ms) e
        (map (model_run c sm fw params ms) [0..<Suc ?N])"
    by blast
  have "drop (Suc ?N) ms = []" by (simp add: assms)
  then have "CompleteWithFallback c sm fw params primaryModel fallbackModels =
      (map (model_run c sm fw params ms) [0..<Suc ?N],
       Returned (Inl (Errorf ''all models failed'' e)))"
    by (simp add: eq)
  with e show "\<exists>e. outcome (snd (model_run c sm fw params ms ?N)) = Returned (Inl e)
      \<and> CompleteWithFallback c sm fw params primaryModel fallbackModels =
          (map (model_run c sm fw params ms) [0..<Suc ?N],
           Returned (Inl (Errorf ''all models failed'' e)))"
    by blast
next
  assume a: "n < length fallbackModels \<and> (\<forall>k\<le>n. run_failed (model_run c sm fw params ms k))
          \<and> (\<forall>i<n. fallback_ctx_Err fw i = None)
          \<and> fallback_ctx_Err fw n = Some cancel"
  have l: "n < length ms" using a assms by simp
  have f: "\<forall>k\<le>n. run_failed (model_run c sm fw params ms k)" using a by simp
  have g: "\<forall>i<n. fallback_ctx_Err fw i = None" using a by simp
  from fallback_prefix [OF assms l f g] obtain e where
    eq: "CompleteWithFallback c sm fw params primaryModel fallbackModels =
      fallback_loop c sm fw params n (drop (Suc n) ms) e
        (map (model_run c sm fw params ms) [0..<Suc n])"
    by blast
  have "Suc n < length ms" using a assms by simp
  then have d: "drop (Suc n) ms = ms ! Suc n # drop (Suc (Suc n)) ms"
    by (simp add: Cons_nth_drop_Suc)
  show "CompleteWithFallback c sm fw params primaryModel fallbackModels =
      (map (model_run c sm fw params ms) [0..<Suc n], Returned (Inl cancel))"
    using a by (simp only: eq d fallback_loop_cancelled)
qed

text \<open>
  Claim C6 with the OpenAI model as primary and the Ollama model as fallback: the
  primary fails and the fallback answers, both fail, and the primary fails and the
  context is then found cancelled.
\<close>

theorem fallback_order_witness:
  "[ModelGPT4o, ModelTinySwallow] = ModelGPT4o # [ModelTinySwallow]
   \<and> (1::nat) < length [ModelGPT4o, ModelTinySwallow]
   \<and> run_failed (model_run (module_completer full_config) init_registrations
        refused_then_answered review_params [ModelGPT4o, ModelTinySwallow] 0)
   \<and> fallback_ctx_Err refused_then_answered 0 = None
   \<and> outcome (snd (model_run (module_completer full_config) init_registrations
        refused_then_answered review_params [ModelGPT4o, ModelTinySwallow] 1)) =
       Returned (Inr one_answer_response)
   \<and> snd (CompleteWithFallback (module_completer full_config) init_registrations
        refused_then_answered review_params ModelGPT4o [ModelTinySwallow]) =
       Returned (Inr one_answer_response)
   \<and> map fst (fst (CompleteWithFallback (module_completer full_config) init_registrations
        refused_then_answered review_params ModelGPT4o [ModelTinySwallow])) =
       [ModelGPT4o, ModelTinySwallow]
   \<and> run_failed (model_run (module_completer full_config) init_registrations
        all_refused review_params [ModelGPT4o, ModelTinySwallow] 0)
   \<and> run_failed (model_run (module_completer full_config) init_registrations
        all_refused review_params [ModelGPT4o, ModelTinySwallow] 1)
   \<and> fallback_ctx_Err all_refused 0 = None
   \<and> snd (CompleteWithFallback (module_completer full_config) init_registrations
        all_refused review_params ModelGPT4o [ModelTinySwallow]) =
       Returned (Inl (Errorf ''all models failed''
         (Errorf ''all completion attempts failed'' ollama_401)))
   \<and> map fst (fst (CompleteWithFallback (module_completer full_config) init_registrations
        all_refused review_params ModelGPT4o [ModelTinySwallow])) =
       [ModelGPT4o, ModelTinySwallow]
   \<and> (0::nat) < length [ModelTinySwallow]
   \<and> run_failed (model_run (module_completer full_config) init_registrations
        refused_then_cancelled review_params [ModelGPT4o, ModelTinySwallow] 0)
   \<and> fallback_ctx_Err refused_then_cancelled 0 = Some (Sentinel Canceled)
   \<and> snd (CompleteWithFallback (module_completer full_config) init_registrations
        refused_then_cancelled review_params ModelGPT4o [ModelTinySwallow]) =
       Returned (Inl (Sentinel Canceled))
   \<and> map fst (fst (CompleteWithFallback (module_completer full_config) init_registrations
        refused_then_cancelled review_params ModelGPT4o [ModelTinySwallow])) = [ModelGPT4o]"
proof -
  let ?c = "module_completer full_config"
  let ?ms = "[ModelGPT4o, ModelTinySwallow]"
  let ?run = "\<lambda>fw. model_run ?c init_registrations fw review_params ?ms"
  have ms: "?ms = ModelGPT4o # [ModelTinySwallow]" by simp
  have a0: "run_failed (?run refused_then_answered 0)"
    by (simp add: model_run_def run_failed_iff refused_then_answered_def outcome_gpt_401)
  have a1: "outcome (snd (?run refused_then_answered 1)) = Returned (Inr one_answer_response)"
    by (simp add: model_run_def refused_then_answered_def outcome_swallow_answer)
  have ac: "fallback_ctx_Err refused_then_answered 0 = None"
    by (simp add: refused_then_answered_def)
  have b0: "run_failed (?run all_refused 0)"
    by (simp add: model_run_def run_failed_iff all_refused_def outcome_gpt_401)
  have b1: "run_failed (?run all_refused 1)"
    by (simp add: model_run_def run_failed_iff all_refused_def outcome_swallow_401)
  have b1': "outcome (snd (?run all_refused (length [ModelTinySwallow]))) =
      Returned (Inl (Errorf ''all completion attempts failed'' ollama_401))"
    by (simp add: model_run_def all_refused_def outcome_swallow_401)
  have bc: "fallback_ctx_Err all_refused 0 = None" by (simp add: all_refused_def)
  have c0: "run_failed (?run refused_then_cancelled 0)"
    by (simp add: model_run_def run_failed_iff refused_then_cancelled_def outcome_gpt_401)
  have cc: "fallback_ctx_Err refused_then_cancelled 0 = Some (Sentinel Canceled)"
    by (simp add: refused_then_cancelled_def)
  note A = fallback_order [OF ms, where c = ?c and sm = init_registrations
      and fw = refused_then_answered and params = review_params and j = 1
      and res = one_answer_response]
  note B = fallback_order [OF ms, where c = ?c and sm = init_registrations
      and fw = all_refused and params = review_params]
  note C = fallback_order [OF ms, where c = ?c and sm = init_registrations
      and fw = refused_then_cancelled and params = review_params and n = 0
      and cancel = "Sentinel Canceled"]
  have fa: "\<forall>k<1. run_failed (?run refused_then_answered k)" using a0 by simp
  have ga: "\<forall>i<1. fallback_ctx_Err refused_then_answered i = None" using ac by simp
  from A fa ga a1 have ra: "CompleteWithFallback ?c init_registrations refused_then_answered
      review_params ModelGPT4o [ModelTinySwallow] =
      (map (?run refused_then_answered) [0..<Suc 1], Returned (Inr one_answer_response))"
    by simp
  have fb: "\<forall>k<length ?ms. run_failed (?run all_refused k)"
    using b0 b1 by (simp add: less_Suc_eq)
  have gb: "\<forall>i<length [ModelTinySwallow]. fallback_ctx_Err all_refused i = None"
    using bc by simp
  from B fb gb obtain e where
    e: "outcome (snd (?run all_refused (length [ModelTinySwallow]))) = Returned (Inl e)" and
    rb: "CompleteWithFallback ?c init_registrations all_refused review_params ModelGPT4o
      [ModelTinySwallow] =
      (map (?run all_refused) [0..<Suc (length [ModelTinySwallow])],
       Returned (Inl (Errorf ''all models failed'' e)))"
    by blast
  from e b1' have e': "e = Errorf ''all completion attempts failed'' ollama_401" by simp
  have fc: "\<forall>k\<le>0. run_failed (?run refused_then_cancelled k)" using c0 by simp
  from C fc cc have rc: "CompleteWithFallback ?c init_registrations refused_then_cancelled
      review_params ModelGPT4o [ModelTinySwallow] =
      (map (?run refused_then_cancelled) [0..<Suc 0], Returned (Inl (Sentinel Canceled)))"
    by simp
  have m2: "map fst (map (?run fw) [0..<Suc 1]) = [ModelGPT4o, ModelTinySwallow]" for fw
    by (simp add: model_run_def upt_rec)
  have m1: "map fst (map (?run fw) [0..<Suc 0]) = [ModelGPT4o]" for fw
    by (simp add: model_run_def)
  have r1: "snd (CompleteWithFallback ?c init_registrations refused_then_answered
      review_params ModelGPT4o [ModelTinySwallow]) = Returned (Inr one_answer_response)"
    by (simp add: ra)
  have r2: "map fst (fst (CompleteWithFallback ?c init_registrations refused_then_answered
      review_params ModelGPT4o [ModelTinySwallow])) = [ModelGPT4o, ModelTinySwallow]"
    by (simp only: ra fst_conv m2)
  have r3: "snd (CompleteWithFallback ?c init_registrations all_refused
      review_params ModelGPT4o [ModelTinySwallow]) =
      Returned (Inl (Errorf ''all models failed''
         (Errorf ''all completion attempts failed'' ollama_401)))"
    by (simp add: rb e')
  have r4: "map fst (fst (CompleteWithFallback ?c init_registrations all_refused
      review_params ModelGPT4o [ModelTinySwallow])) = [ModelGPT4o, ModelTinySwallow]"
    using m2 [of all_refused] by (simp add: rb)
  have r5: "snd (CompleteWithFallback ?c init_registrations refused_then_cancelled
      review_params ModelGPT4o [ModelTinySwallow]) = Returned (Inl (Sentinel Canceled))"
    by (simp add: rc)
  have r6: "map fst (fst (CompleteWithFallback ?c init_registrations refused_then_cancelled
      review_params ModelGPT4o [ModelTinySwallow])) = [ModelGPT4o]"
    by (simp only: rc fst_conv m1)
  have l1: "(1::nat) < length ?ms" by simp
  have l2: "(0::nat) < length [ModelTinySwallow]" by simp
  from ms l1 a0 ac a1 r1 r2 b0 b1 bc r3 r4 l2 c0 cc r5 r6 show ?thesis by blast
qed

subsection \<open>C7: translation of messages\<close>

text \<open>
  Claim C7, as amended.  The OpenAI client sends one request whose messages are the
  given messages one for one and in order when every role is one of the four declared:
  a system, user or assistant message keeps role and content, a function message goes
  out as a user message naming the function.  The Ollama client, when its base URL
  parses, does so when every role is system, user or assistant, keeping role and
  content.  When some message has another role (for Ollama the function role too), the
  client returns the unsupported role error of the first such message and sends
  nothing; when the Ollama base URL does not parse, the client returns that error and
  sends nothing.
\<close>

theorem message_translation:
  "((\<forall>m \<in> set (Messages params). Role m \<in> set known_roles) \<longrightarrow>
      fst (openai_Complete conf backend latency now params) =
        [openai_request conf params (map openai_message (Messages params))])
   \<and> (\<forall>m :: Message. Role m \<in> set plain_roles \<longrightarrow>
         wire_role (openai_message m) = Role m \<and> wire_content (openai_message m) = Content m)
   \<and> (\<forall>m :: Message. Role m = RoleFunction \<longrightarrow>
         openai_message m = UserMessage (''Function '' @ MsgName m @ '' returned: '' @ Content m))
   \<and> (find (\<lambda>m. Role m \<notin> set known_roles) (Messages params) = Some bad \<longrightarrow>
         openai_Complete conf backend latency now params =
           ([], Inl (ErrorsNew (''unsupported role: '' @ Role bad))))
   \<and> (parse (BaseURL (cfg_Ollama (LLMConfig conf))) = Inr u
       \<and> (\<forall>m \<in> set (Messages params). Role m \<in> set plain_roles) \<longrightarrow>
         fst (ollama_Complete conf parse server latency now params) =
           [ollama_request conf (map ollama_message (Messages params))])
   \<and> (parse (BaseURL (cfg_Ollama (LLMConfig conf))) = Inr u
       \<and> find (\<lambda>m. Role m \<notin> set plain_roles) (Messages params) = Some obad \<longrightarrow>
         ollama_Complete conf parse server latency now params =
           ([], Inl (ErrorsNew (''unsupported role: '' @ Role obad))))
   \<and> (parse (BaseURL (cfg_Ollama (LLMConfig conf))) = Inl perr \<longrightarrow>
         ollama_Complete conf parse server latency now params =
           ([], Inl (Errorf ''invalid base URL'' perr)))"
proof (intro conjI impI allI)
  assume "\<forall>m \<in> set (Messages params). Role m \<in> set known_roles"
  then have "find (\<lambda>m. Role m \<notin> set known_roles) (Messages params) = None"
    by (simp add: find_None_all)
  then have "openai_convert [] (Messages params) = Inr (map openai_message (Messages params))"
    by (simp add: openai_convert_eq)
  then show "fst (openai_Complete conf backend latency now params) =
        [openai_request conf params (map openai_message (Messages params))]"
    by (rule fst_openai_Complete_sent)
next
  fix m :: Message assume "Role m \<in> set plain_roles"
  then show "wire_role (openai_message m) = Role m" "wire_content (openai_message m) = Content m"
    by (simp_all add: openai_message_plain)
next
  fix m :: Message assume "Role m = RoleFunction"
  then show "openai_message m =
      UserMessage (''Function '' @ MsgName m @ '' returned: '' @ Content m)"
    by (rule openai_message_function)
next
  assume "find (\<lambda>m. Role m \<notin> set known_roles) (Messages params) = Some bad"
  then show "openai_Complete conf backend latency now params =
           ([], Inl (ErrorsNew (''unsupported role: '' @ Role bad)))"
    by (simp add: openai_Complete_def openai_request_def openai_convert_eq)
next
  assume a: "parse (BaseURL (cfg_Ollama (LLMConfig conf))) = Inr u
       \<and> (\<forall>m \<in> set (Messages params). Role m \<in> set plain_roles)"
  then have "find (\<lambda>m. Role m \<notin> set plain_roles) (Messages params) = None"
    by (simp add: find_None_all)
  then have "ollama_convert [] (Messages params) = Inr (map ollama_message (Messages params))"
    by (simp add: ollama_convert_eq)
  with a show "fst (ollama_Complete conf parse server latency now params) =
           [ollama_request conf (map ollama_message (Messages params))]"
    by (simp add: fst_ollama_Complete_sent)
next
  assume "parse (BaseURL (cfg_Ollama (LLMConfig conf))) = Inr u
       \<and> find (\<lambda>m. Role m \<notin> set plain_roles) (Messages params) = Some obad"
  then show "ollama_Complete conf parse server latency now params =
           ([], Inl (ErrorsNew (''unsupported role: '' @ Role obad)))"
    by (simp add: ollama_Complete_def ollama_request_def ollama_convert_eq)
next
  assume "parse (BaseURL (cfg_Ollama (LLMConfig conf))) = Inl perr"
  then show "ollama_Complete conf parse server latency now params =
           ([], Inl (Errorf ''invalid base URL'' perr))"
    by (simp add: ollama_Complete_def ollama_request_def)
qed

text \<open>
  Claim C7 as amended, at a conversation with a function message, one with plain
  roles only, one with the undeclared role \<open>tool\<close>, and a base URL that does not parse.
\<close>

theorem message_translation_witness:
  "fst (openai_Complete (client_config ''sk-key'' ModelGPT4o) (\<lambda>req. Inr one_choice) 40 0
      function_params) =
     [\<lparr>np_Messages = [UserMessage ''run the linter'',
                       UserMessage ''Function lint returned: no findings''],
       np_Model = ''gpt-4o'', np_Seed = 1, np_MaxTokens = None, np_Temperature = None,
       np_TopP = None, np_N = None\<rparr>]
   \<and> fst (openai_Complete (client_config ''sk-key'' ModelGPT4o) (\<lambda>req. Inr one_choice) 40 0
      review_params) =
     [\<lparr>np_Messages = [SystemMessage ''You review code.'', UserMessage ''review this''],
       np_Model = ''gpt-4o'', np_Seed = 1, np_MaxTokens = None, np_Temperature = None,
       np_TopP = None, np_N = None\<rparr>]
   \<and> openai_Complete (client_config ''sk-key'' ModelGPT4o) (\<lambda>req. Inr one_choice) 40 0
      tool_params = ([], Inl (ErrorsNew ''unsupported role: tool''))
   \<and> fst (ollama_Complete (client_config [] ModelTinySwallow) (\<lambda>s. Inr s)
      (\<lambda>req. ([], None)) 40 0 review_params) =
     [\<lparr>cr_Model = ''yottahmd/tiny-swallow-1.5b-instruct'',
       cr_Messages = [\<lparr>am_Role = ''system'', am_Content = ''You review code.''\<rparr>,
                      \<lparr>am_Role = ''user'', am_Content = ''review this''\<rparr>],
       cr_Stream = False\<rparr>]
   \<and> ollama_Complete (client_config [] ModelTinySwallow) (\<lambda>s. Inr s)
      (\<lambda>req. ([], None)) 40 0 function_params =
     ([], Inl (ErrorsNew ''unsupported role: function''))
   \<and> ollama_Complete (client_config [] ModelTinySwallow) (\<lambda>s. Inl (ErrorsNew ''parse''))
      (\<lambda>req. ([], None)) 40 0 review_params =
     ([], Inl (Errorf ''invalid base URL'' (ErrorsNew ''parse'')))"
proof -
  let ?oc = "client_config ''sk-key'' ModelGPT4o"
  let ?lc = "client_config [] ModelTinySwallow"
  let ?b = "\<lambda>req :: ChatCompletionNewParams. (Inr one_choice :: goerr + ChatCompletion)"
  let ?s = "\<lambda>req :: ChatRequest. ([] :: ChatResponse list, None :: goerr option)"
  have kf: "\<forall>m \<in> set (Messages function_params). Role m \<in> set known_roles"
    by (simp add: function_params_def known_roles_def)
  have kr: "\<forall>m \<in> set (Messages review_params). Role m \<in> set known_roles"
    by (simp add: review_params_def known_roles_def)
  have pr: "\<forall>m \<in> set (Messages review_params). Role m \<in> set plain_roles"
    by (simp add: review_params_def plain_roles_def)
  note A = message_translation [where params = function_params and conf = ?oc and backend = ?b
      and latency = 40 and now = 0]
  note B = message_translation [where params = review_params and conf = ?oc and backend = ?b
      and latency = 40 and now = 0]
  note C = message_translation [where params = tool_params and conf = ?oc and backend = ?b
      and latency = 40 and now = 0
      and bad = "\<lparr>Role = ''tool'', Content = ''no findings'', MsgName = [],
          MsgFinishReason = [], Completed = False\<rparr>"]
  note D = message_translation [where params = review_params and conf = ?lc
      and parse = "\<lambda>s. Inr s" and u = "''http://localhost:11434''" and server = ?s
      and latency = 40 and now = 0]
  note E = message_translation [where params = function_params and conf = ?lc
      and parse = "\<lambda>s. Inr s" and u = "''http://localhost:11434''" and server = ?s
      and latency = 40 and now = 0
      and obad = "\<lparr>Role = ''function'', Content = ''no findings'', MsgName = ''lint'',
          MsgFinishReason = [], Completed = False\<rparr>"]
  note F = message_translation [where params = review_params and conf = ?lc
      and parse = "\<lambda>s. Inl (ErrorsNew ''parse'')" and perr = "ErrorsNew ''parse''"
      and server = ?s and latency = 40 and now = 0]
  have nm: "Name (CModel ?oc) = ''gpt-4o''"
    "Name (CModel ?lc) = ''yottahmd/tiny-swallow-1.5b-instruct''"
    by (simp_all add: client_config_def ModelGPT4o_def ModelTinySwallow_def)
  from A kf have a: "fst (openai_Complete ?oc ?b 40 0 function_params) =
      [openai_request ?oc function_params (map openai_message (Messages function_params))]"
    by blast
  from B kr have b: "fst (openai_Complete ?oc ?b 40 0 review_params) =
      [openai_request ?oc review_params (map openai_message (Messages review_params))]"
    by blast
  from C find_tool_known have c: "openai_Complete ?oc ?b 40 0 tool_params =
      ([], Inl (ErrorsNew ''unsupported role: tool''))"
    by simp
  from D pr parse_id_full [of "[]" ModelTinySwallow]
  have d: "fst (ollama_Complete ?lc (\<lambda>s. Inr s) ?s 40 0 review_params) =
      [ollama_request ?lc (map ollama_message (Messages review_params))]"
    by blast
  from E find_function_plain parse_id_full [of "[]" ModelTinySwallow]
  have e: "ollama_Complete ?lc (\<lambda>s. Inr s) ?s 40 0 function_params =
      ([], Inl (ErrorsNew ''unsupported role: function''))"
    by simp
  from F have f: "ollama_Complete ?lc (\<lambda>s. Inl (ErrorsNew ''parse'')) ?s 40 0 review_params =
      ([], Inl (Errorf ''invalid base URL'' (ErrorsNew ''parse'')))"
    by simp
  have a': "openai_request ?oc function_params (map openai_message (Messages function_params)) =
     \<lparr>np_Messages = [UserMessage ''run the linter'',
                       UserMessage ''Function lint returned: no findings''],
       np_Model = ''gpt-4o'', np_Seed = 1, np_MaxTokens = None, np_Temperature = None,
       np_TopP = None, np_N = None\<rparr>"
    by (simp add: openai_request_def nm function_params_def openai_message_def
        RoleUser_def RoleAssistant_def RoleSystem_def RoleFunction_def)
  have b': "openai_request ?oc review_params (map openai_message (Messages review_params)) =
     \<lparr>np_Messages = [SystemMessage ''You review code.'', UserMessage ''review this''],
       np_Model = ''gpt-4o'', np_Seed = 1, np_MaxTokens = None, np_Temperature = None,
       np_TopP = None, np_N = None\<rparr>"
    by (simp add: openai_request_def nm review_params_def openai_message_def
        RoleUser_def RoleAssistant_def RoleSystem_def RoleFunction_def)
  have d': "ollama_request ?lc (map ollama_message (Messages review_params)) =
     \<lparr>cr_Model = ''yottahmd/tiny-swallow-1.5b-instruct'',
       cr_Messages = [\<lparr>am_Role = ''system'', am_Content = ''You review code.''\<rparr>,
                      \<lparr>am_Role = ''user'', am_Content = ''review this''\<rparr>],
       cr_Stream = False\<rparr>"
    by (simp add: ollama_request_def nm review_params_def ollama_message_def
        RoleUser_def RoleSystem_def)
  show ?thesis
    using a b c d e f unfolding a' b' d' by blast
qed

text \<open>
  Claim C7 fails as stated.  The function role is one of the four declared, yet for
  a conversation holding a function message the Ollama client returns the
  unsupported role error and sends nothing, and the OpenAI client sends the function
  message under the role user.
\<close>

theorem message_translation_counterexample:
  "Role (Messages function_params ! 1) = RoleFunction
   \<and> RoleFunction \<in> set known_roles
   \<and> ollama_Complete (client_config [] ModelTinySwallow) (\<lambda>s. Inr s)
      (\<lambda>req. ([], None)) 40 0 function_params =
     ([], Inl (ErrorsNew ''unsupported role: function''))
   \<and> map wire_role (concat (map np_Messages
        (fst (openai_Complete (client_config ''sk-key'' ModelGPT4o) (\<lambda>req. Inr one_choice)
           40 0 function_params)))) = [''user'', ''user'']"
  by (simp add: function_params_def known_roles_def ollama_Complete_def ollama_request_def openai_Complete_def openai_request_def
      client_config_def full_config_def RoleUser_def RoleAssistant_def RoleSystem_def
      RoleFunction_def one_choice_def)

subsection \<open>C8: registration and registry\<close>

text \<open>
  Claim C8.  A model of the Ollama provider, the one provider whose models the
  registry admits only when it is configured, that was registered with
  \<open>RegisterLLM\<close> is absent from the registry built from a configuration with an
  empty Ollama base URL and present in the registry built from one with a base URL.
\<close>

theorem registered_ollama_model_listed_iff_configured:
  assumes "m \<in> set ms" and "Provider m = Ollama"
  shows "(\<not> Ollama_IsConfigured (cfg_Ollama (cfg_LLM config)) \<longrightarrow>
            m \<notin> set (models (NewRegistry config (RegisterLLM constructor ms sm))))
       \<and> (Ollama_IsConfigured (cfg_Ollama (cfg_LLM config)) \<longrightarrow>
            m \<in> set (models (NewRegistry config (RegisterLLM constructor ms sm))))"
  using assms providers_distinct
  by (auto simp: NewRegistry_def set_registry_loop keys_RegisterLLM)

text \<open>
  Claim C8 at the registered Ollama model, without and with a base URL.
\<close>

theorem registered_ollama_model_listed_iff_configured_witness:
  "ModelTinySwallow \<in> set [ModelTinySwallow]
   \<and> Provider ModelTinySwallow = Ollama
   \<and> \<not> Ollama_IsConfigured (cfg_Ollama (cfg_LLM no_ollama_config))
   \<and> ModelTinySwallow \<notin> set (models (NewRegistry no_ollama_config init_registrations))
   \<and> Ollama_IsConfigured (cfg_Ollama (cfg_LLM full_config))
   \<and> ModelTinySwallow \<in> set (models (NewRegistry full_config init_registrations))"
proof -
  have h1: "ModelTinySwallow \<in> set [ModelTinySwallow]" by simp
  have h2: "Provider ModelTinySwallow = Ollama" by (simp add: ModelTinySwallow_def)
  have h3: "\<not> Ollama_IsConfigured (cfg_Ollama (cfg_LLM no_ollama_config))"
    by (simp add: Ollama_IsConfigured_def no_ollama_config_def)
  have h4: "Ollama_IsConfigured (cfg_Ollama (cfg_LLM full_config))"
    by (simp add: Ollama_IsConfigured_def full_config_def)
  note A = registered_ollama_model_listed_iff_configured [OF h1 h2, of no_ollama_config
      ollama_New "RegisterLLM openai_New [ModelGPT4o] []"]
  note B = registered_ollama_model_listed_iff_configured [OF h1 h2, of full_config
      ollama_New "RegisterLLM openai_New [ModelGPT4o] []"]
  from A h3 have a: "ModelTinySwallow \<notin> set (models (NewRegistry no_ollama_config
      init_registrations))" unfolding init_registrations_def by blast
  from B h4 have b: "ModelTinySwallow \<in> set (models (NewRegistry full_config
      init_registrations))" unfolding init_registrations_def by blast
  from h1 h2 h3 h4 a b show ?thesis by blast
qed

subsection \<open>C9: telemetry and the caller\<close>

text \<open>
  Whatever the telemetry world, \<open>Complete\<close> returns the same and its loop does the
  same: the goroutine is started after the result is fixed and writes no variable of
  the caller.  The program is ended by the goroutine only when marshalling the batch
  panics under an \<open>errgroup\<close> that leaves the panic alone.
\<close>

lemma telemetry_result_unchanged:
  "outcome (Complete c sm w tw params model) = outcome (Complete c sm w tw' params model)
   \<and> events (Complete c sm w tw params model) = events (Complete c sm w tw' params model)"
  by (simp add: Complete_def after_loop_def split: sum.splits prod.splits option.splits)

lemma trace_goroutine_aborts:
  assumes "snd (trace_goroutine c tw model params res)"
  shows "\<not> errgroup_repanics tw \<and> (\<exists>batch. marshal tw batch = Panic)"
proof -
  from assms obtain logs where s: "sendTraceEvents c tw model params res = (logs, ProgramEnds)"
    by (cases "sendTraceEvents c tw model params res")
       (auto simp: trace_goroutine_def split: ending.splits)
  from s obtain client where c: "langfuse c = Some client"
    by (cases "langfuse c") (simp_all add: sendTraceEvents_def)
  from s c obtain m0 ms where r: "RMessages res = m0 # ms"
    by (cases "RMessages res") (simp_all add: sendTraceEvents_def Let_def)
  from s c r obtain batch where
    i: "Ingest client (marshal tw) (sink tw) batch = Panic" and e: "\<not> errgroup_repanics tw"
    by (auto simp: sendTraceEvents_def Let_def split: outcome.splits sum.splits if_splits)
  from i have "marshal tw batch = Panic"
    by (auto simp: Ingest_def split: outcome.splits option.splits http_result.splits
        sum.splits if_splits)
  with e show ?thesis by blast
qed


text \<open>
  With an \<open>errgroup\<close> whose \<open>Wait\<close> raises the panic again, the deferred function
  recovers it: one line is logged and the program goes on.
\<close>

lemma ingest_panic_reraised:
  "outcome (Complete (module_completer full_config) init_registrations
      (reply_world one_choice []) marshal_panics_reraised review_params ModelGPT4o) =
     Returned (Inr one_choice_response)
   \<and> background (Complete (module_completer full_config) init_registrations
      (reply_world one_choice []) marshal_panics_reraised review_params ModelGPT4o) =
     [LogError ''panic while sending trace events'']
   \<and> \<not> aborted (Complete (module_completer full_config) init_registrations
      (reply_world one_choice []) marshal_panics_reraised review_params ModelGPT4o)"
proof -
  let ?c = "module_completer full_config"
  let ?w = "reply_world one_choice []"
  have "Complete ?c init_registrations ?w marshal_panics_reraised review_params ModelGPT4o =
     \<lparr>events = retry_events ?w (retryConfig ?c) (Suc 0),
      outcome = Returned (Inr one_choice_response),
      background = fst (trace_goroutine ?c marshal_panics_reraised ModelGPT4o review_params
        one_choice_response),
      aborted = snd (trace_goroutine ?c marshal_panics_reraised ModelGPT4o review_params
        one_choice_response)\<rparr>"
    using Complete_success [of ?c init_registrations ModelGPT4o
        "OpenAIClient (client_config ''sk-key'' ModelGPT4o)" 0 ?w review_params
        one_choice_response marshal_panics_reraised]
    by (simp add: init_client_openai openai_reply_call DefaultRetryConfig_def
        one_choice_response_def)
  then show ?thesis by (simp add: trace_goroutine_marshal_panics_reraised)
qed

subsection \<open>C10: the retry policy and the nil response\<close>

text \<open>
  Claim C10.  When the client was built and \<open>MaxAttempts\<close> is zero or negative, the
  loop body never runs, \<open>err\<close> and \<open>res\<close> are both nil and \<open>Complete\<close> panics on
  \<open>res.Messages\<close>.  When \<open>MaxAttempts\<close> is at least one, \<open>Complete\<close> never panics:
  whatever the context, the services and the sink do, it returns a response or an
  error.
\<close>

theorem nil_dereference_needs_no_attempts:
  "(init_client c sm model = Inr llm \<and> MaxAttempts (retryConfig c) \<le> 0
      \<longrightarrow> outcome (Complete c sm w tw params model) = Panic)
   \<and> (1 \<le> MaxAttempts (retryConfig c)
      \<longrightarrow> (\<exists>r. outcome (Complete c sm w tw params model) = Returned r))"
proof (intro conjI impI)
  assume "init_client c sm model = Inr llm \<and> MaxAttempts (retryConfig c) \<le> 0"
  then show "outcome (Complete c sm w tw params model) = Panic"
    by (simp add: Complete_def attempt_loop_exit after_loop_def)
next
  assume m: "1 \<le> MaxAttempts (retryConfig c)"
  show "\<exists>r. outcome (Complete c sm w tw params model) = Returned r"
  proof (cases "init_client c sm model")
    case (Inl e)
    then show ?thesis by (simp add: Complete_def)
  next
    case (Inr llm)
    obtain tr x where l: "attempt_loop (retryConfig c) w llm params 0
        (InitialWait (retryConfig c)) (None, None, None) [] = (tr, x)"
      by (cases "attempt_loop (retryConfig c) w llm params 0
        (InitialWait (retryConfig c)) (None, None, None) []")
    show ?thesis
    proof (cases x)
      case (Inl e)
      with Inr l show ?thesis by (simp add: Complete_def)
    next
      case v: (Inr vars)
      obtain res err le where vars: "vars = (res, err, le)" by (cases vars)
      from l v vars m have "res \<noteq> None \<or> err \<noteq> None"
        by (intro attempt_loop_vars [of "retryConfig c" w llm params 0 _ _ "[]" tr res err le]) auto
      then show ?thesis
        using Inr l v vars
        by (auto simp: Complete_def after_loop_def split: option.splits)
    qed
  qed
qed

text \<open>
  Claim C10 at \<open>MaxAttempts = 0\<close> and at the default policy.
\<close>

theorem nil_dereference_needs_no_attempts_witness:
  "init_client (completer_with (DefaultRetryConfig\<lparr>MaxAttempts := 0\<rparr>)) init_registrations
      ModelGPT4o = Inr (OpenAIClient (client_config ''sk-key'' ModelGPT4o))
   \<and> MaxAttempts (retryConfig (completer_with (DefaultRetryConfig\<lparr>MaxAttempts := 0\<rparr>))) \<le> 0
   \<and> outcome (Complete (completer_with (DefaultRetryConfig\<lparr>MaxAttempts := 0\<rparr>))
        init_registrations (reply_world one_choice []) (sink_status 200) review_params
        ModelGPT4o) = Panic
   \<and> 1 \<le> MaxAttempts (retryConfig (module_completer full_config))
   \<and> outcome (Complete (module_completer full_config)
        init_registrations (reply_world one_choice []) (sink_status 200) review_params
        ModelGPT4o) \<noteq> Panic"
proof -
  let ?cz = "completer_with (DefaultRetryConfig\<lparr>MaxAttempts := 0\<rparr>)"
  let ?c = "module_completer full_config"
  have h1: "init_client ?cz init_registrations ModelGPT4o =
      Inr (OpenAIClient (client_config ''sk-key'' ModelGPT4o))"
    by (simp add: init_client_openai)
  have h2: "MaxAttempts (retryConfig ?cz) \<le> 0" by simp
  have h3: "1 \<le> MaxAttempts (retryConfig ?c)" by (simp add: DefaultRetryConfig_def)
  note T0 = nil_dereference_needs_no_attempts [of ?cz init_registrations ModelGPT4o
      "OpenAIClient (client_config ''sk-key'' ModelGPT4o)" "reply_world one_choice []"
      "sink_status 200" review_params]
  note T1 = nil_dereference_needs_no_attempts [of ?c init_registrations ModelGPT4o
      "OpenAIClient (client_config ''sk-key'' ModelGPT4o)" "reply_world one_choice []"
      "sink_status 200" review_params]
  from T0 h1 h2 have a: "outcome (Complete ?cz init_registrations (reply_world one_choice [])
      (sink_status 200) review_params ModelGPT4o) = Panic" by blast
  from T1 h3 have b: "outcome (Complete ?c init_registrations (reply_world one_choice [])
      (sink_status 200) review_params ModelGPT4o) \<noteq> Panic" by auto
  from h1 h2 h3 a b show ?thesis by blast
qed

end
